theory Spec2Isabelle
  imports Main "HOL-Library.Word" "HOL-Library.Signed_Division"
begin

unbundle bit_operations_syntax

section \<open>Machine types and constants shared by both components\<close>

text \<open>
  The host is taken to be an LP64 platform: \<open>int\<close> and \<open>unsigned int\<close> are 32 bits,
  \<open>size_t\<close>, \<open>ssize_t\<close>, \<open>off_t\<close>, \<open>clock_t\<close>, \<open>time_t\<close> and \<open>int64_t\<close> are 64 bits.
  A word is read as a signed value with \<open>sint\<close> and converted with sign extension by
  \<open>scast\<close> (C conversion from a signed type) or with zero extension or truncation by
  \<open>ucast\<close> (C conversion from an unsigned type, or to a narrower type).
  Return codes of the OpenOCD API (\<open>ERROR_OK\<close>, \<open>ERROR_FAIL\<close>, ...) are plain integers.
\<close>

type_synonym u8 = "8 word"
type_synonym u16 = "16 word"
type_synonym u32 = "32 word"
type_synonym u64 = "64 word"
type_synonym c_int = "32 word"
type_synonym s64 = "64 word"

text \<open>Modelled from the spec: the return codes of \<open>helper/log.h\<close>, which is not part of
  the sources; only the distinction between \<open>ERROR_OK\<close> and the other codes is used.\<close>

definition ERROR_OK :: int where "ERROR_OK = 0"
definition ERROR_FAIL :: int where "ERROR_FAIL = - 4"
definition ERROR_NOT_IMPLEMENTED :: int where "ERROR_NOT_IMPLEMENTED = - 7"

text \<open>The values of \<open>errno.h\<close> on the host (Linux numbering).\<close>

definition EBADF :: c_int where "EBADF = 9"
definition ENOMEM :: c_int where "ENOMEM = 12"
definition EINVAL :: c_int where "EINVAL = 22"
definition ENOTSUP :: c_int where "ENOTSUP = 95"

section \<open>Semihosting: data model\<close>

text \<open>The operation codes, with the values the source gives in its comments.\<close>

definition SEMIHOSTING_SYS_OPEN :: int where "SEMIHOSTING_SYS_OPEN = 0x01"
definition SEMIHOSTING_SYS_CLOSE :: int where "SEMIHOSTING_SYS_CLOSE = 0x02"
definition SEMIHOSTING_SYS_WRITEC :: int where "SEMIHOSTING_SYS_WRITEC = 0x03"
definition SEMIHOSTING_SYS_WRITE0 :: int where "SEMIHOSTING_SYS_WRITE0 = 0x04"
definition SEMIHOSTING_SYS_WRITE :: int where "SEMIHOSTING_SYS_WRITE = 0x05"
definition SEMIHOSTING_SYS_READ :: int where "SEMIHOSTING_SYS_READ = 0x06"
definition SEMIHOSTING_SYS_READC :: int where "SEMIHOSTING_SYS_READC = 0x07"
definition SEMIHOSTING_SYS_ISERROR :: int where "SEMIHOSTING_SYS_ISERROR = 0x08"
definition SEMIHOSTING_SYS_ISTTY :: int where "SEMIHOSTING_SYS_ISTTY = 0x09"
definition SEMIHOSTING_SYS_SEEK :: int where "SEMIHOSTING_SYS_SEEK = 0x0A"
definition SEMIHOSTING_SYS_FLEN :: int where "SEMIHOSTING_SYS_FLEN = 0x0C"
definition SEMIHOSTING_SYS_TMPNAM :: int where "SEMIHOSTING_SYS_TMPNAM = 0x0D"
definition SEMIHOSTING_SYS_REMOVE :: int where "SEMIHOSTING_SYS_REMOVE = 0x0E"
definition SEMIHOSTING_SYS_RENAME :: int where "SEMIHOSTING_SYS_RENAME = 0x0F"
definition SEMIHOSTING_SYS_CLOCK :: int where "SEMIHOSTING_SYS_CLOCK = 0x10"
definition SEMIHOSTING_SYS_TIME :: int where "SEMIHOSTING_SYS_TIME = 0x11"
definition SEMIHOSTING_SYS_SYSTEM :: int where "SEMIHOSTING_SYS_SYSTEM = 0x12"
definition SEMIHOSTING_SYS_ERRNO :: int where "SEMIHOSTING_SYS_ERRNO = 0x13"
definition SEMIHOSTING_SYS_GET_CMDLINE :: int where "SEMIHOSTING_SYS_GET_CMDLINE = 0x15"
definition SEMIHOSTING_SYS_HEAPINFO :: int where "SEMIHOSTING_SYS_HEAPINFO = 0x16"
definition SEMIHOSTING_SYS_EXIT :: int where "SEMIHOSTING_SYS_EXIT = 0x18"
definition SEMIHOSTING_SYS_EXIT_EXTENDED :: int where "SEMIHOSTING_SYS_EXIT_EXTENDED = 0x20"
definition SEMIHOSTING_SYS_ELAPSED :: int where "SEMIHOSTING_SYS_ELAPSED = 0x30"
definition SEMIHOSTING_SYS_TICKFREQ :: int where "SEMIHOSTING_SYS_TICKFREQ = 0x31"
definition SEMIHOSTING_USER_CMD_0X100 :: int where "SEMIHOSTING_USER_CMD_0X100 = 0x100"
definition SEMIHOSTING_USER_CMD_0X107 :: int where "SEMIHOSTING_USER_CMD_0X107 = 0x107"

lemmas opcode_defs =
  SEMIHOSTING_SYS_OPEN_def SEMIHOSTING_SYS_CLOSE_def SEMIHOSTING_SYS_WRITEC_def
  SEMIHOSTING_SYS_WRITE0_def SEMIHOSTING_SYS_WRITE_def SEMIHOSTING_SYS_READ_def
  SEMIHOSTING_SYS_READC_def SEMIHOSTING_SYS_ISERROR_def SEMIHOSTING_SYS_ISTTY_def
  SEMIHOSTING_SYS_SEEK_def SEMIHOSTING_SYS_FLEN_def SEMIHOSTING_SYS_TMPNAM_def
  SEMIHOSTING_SYS_REMOVE_def SEMIHOSTING_SYS_RENAME_def SEMIHOSTING_SYS_CLOCK_def
  SEMIHOSTING_SYS_TIME_def SEMIHOSTING_SYS_SYSTEM_def SEMIHOSTING_SYS_ERRNO_def
  SEMIHOSTING_SYS_GET_CMDLINE_def SEMIHOSTING_SYS_HEAPINFO_def SEMIHOSTING_SYS_EXIT_def
  SEMIHOSTING_SYS_EXIT_EXTENDED_def SEMIHOSTING_SYS_ELAPSED_def SEMIHOSTING_SYS_TICKFREQ_def
  SEMIHOSTING_USER_CMD_0X100_def SEMIHOSTING_USER_CMD_0X107_def

text \<open>Modelled from the spec: constants of \<open>semihosting_common.h\<close>, which is not part of
  the sources: the two exit reasons named in the comment of \<open>SYS_EXIT\<close>, the longest
  parameter of a user command, and \<open>CLOCKS_PER_SEC / 100\<close> of the host.\<close>

definition ADP_STOPPED_APPLICATION_EXIT :: u64 where "ADP_STOPPED_APPLICATION_EXIT = 0x20026"
definition ADP_STOPPED_RUN_TIME_ERROR :: u64 where "ADP_STOPPED_RUN_TIME_ERROR = 0x20023"
definition SEMIHOSTING_MAX_TCL_COMMAND_FIELD_LENGTH :: u64 where
  "SEMIHOSTING_MAX_TCL_COMMAND_FIELD_LENGTH = 1024"
definition clocks_per_centisecond :: int where "clocks_per_centisecond = 10000"

text \<open>The flags of the GDB remote protocol and the table \<open>open_gdb_modeflags\<close>.\<close>

definition TARGET_O_RDONLY :: u64 where "TARGET_O_RDONLY = 0x000"
definition TARGET_O_WRONLY :: u64 where "TARGET_O_WRONLY = 0x001"
definition TARGET_O_RDWR :: u64 where "TARGET_O_RDWR = 0x002"
definition TARGET_O_APPEND :: u64 where "TARGET_O_APPEND = 0x008"
definition TARGET_O_CREAT :: u64 where "TARGET_O_CREAT = 0x200"
definition TARGET_O_TRUNC :: u64 where "TARGET_O_TRUNC = 0x400"

definition open_gdb_modeflags :: "u64 list" where
  "open_gdb_modeflags =
    [TARGET_O_RDONLY,
     TARGET_O_RDONLY,
     TARGET_O_RDWR,
     TARGET_O_RDWR,
     TARGET_O_WRONLY OR TARGET_O_CREAT OR TARGET_O_TRUNC,
     TARGET_O_WRONLY OR TARGET_O_CREAT OR TARGET_O_TRUNC,
     TARGET_O_RDWR OR TARGET_O_CREAT OR TARGET_O_TRUNC,
     TARGET_O_RDWR OR TARGET_O_CREAT OR TARGET_O_TRUNC,
     TARGET_O_WRONLY OR TARGET_O_CREAT OR TARGET_O_APPEND,
     TARGET_O_WRONLY OR TARGET_O_CREAT OR TARGET_O_APPEND,
     TARGET_O_RDWR OR TARGET_O_CREAT OR TARGET_O_APPEND,
     TARGET_O_RDWR OR TARGET_O_CREAT OR TARGET_O_APPEND]"

text \<open>File names and other C strings are lists of bytes without the terminating NUL;
  \<open>bytes_of\<close> writes a literal. \<open>c_str\<close> is what a C string function sees in a buffer:
  the bytes before the first NUL.\<close>

definition bytes_of :: "string \<Rightarrow> u8 list" where
  "bytes_of str = map of_char str"

definition c_str :: "u8 list \<Rightarrow> u8 list" where
  "c_str buf = takeWhile (\<lambda>b. b \<noteq> 0) buf"

datatype semihosting_redirect_config =
    SEMIHOSTING_REDIRECT_CFG_NONE
  | SEMIHOSTING_REDIRECT_CFG_DEBUG
  | SEMIHOSTING_REDIRECT_CFG_STDIO
  | SEMIHOSTING_REDIRECT_CFG_ALL

text \<open>The part of \<open>struct connection\<close> and of its \<open>semihosting_tcp_service\<close> that the
  redirected read touches.\<close>

record connection =
  input_pending :: bool
  service_error :: int

definition ERROR_SERVER_REMOTE_CLOSED :: int where "ERROR_SERVER_REMOTE_CLOSED = - 400"

text \<open>\<open>struct semihosting\<close>: the fields are those \<open>semihosting_common_init\<close> sets.
  A NULL pointer is \<open>None\<close>.\<close>

record semihosting =
  is_active :: bool
  redirect_cfg :: semihosting_redirect_config
  tcp_connection :: "connection option"
  stdin_fd :: c_int
  stdout_fd :: c_int
  stderr_fd :: c_int
  is_fileio :: bool
  hit_fileio :: bool
  is_resumable :: bool
  has_resumable_exit :: bool
  word_size_bytes :: nat
  op :: int
  param :: u64
  result :: s64
  sys_errno :: c_int
  cmdline :: "u8 list option"
  basedir :: "u8 list option"
  setup_time :: s64

record gdb_fileio_info =
  fio_identifier :: string
  param_1 :: u64
  param_2 :: u64
  param_3 :: u64
  param_4 :: u64

text \<open>What the dispatcher does to the world outside the two structures, in the order
  it does it: the calls of the host's C library, the traffic on the redirect
  connection, and the callbacks into the rest of OpenOCD. Log and diagnostic output
  (\<open>LOG_DEBUG\<close>, \<open>LOG_ERROR\<close>, \<open>fprintf(stderr, ...)\<close>) is not recorded.\<close>

datatype effect =
    Host_clock
  | Host_time
  | Host_close c_int
  | Host_fstat c_int
  | Host_isatty c_int
  | Host_dup c_int
  | Host_open "u8 list" c_int
  | Host_read c_int c_int
  | Host_write c_int "u8 list" c_int
  | Host_remove "u8 list"
  | Host_rename "u8 list" "u8 list"
  | Host_lseek c_int s64
  | Host_system "u8 list"
  | Host_putchar c_int
  | Host_getchar
  | Connection_read c_int
  | Connection_write "u8 list" c_int
  | Post_result
  | Halted_event
  | User_command_extension
  | User_cmd_event int

text \<open>\<open>struct target\<close>, as far as the dispatcher uses it. \<open>memory\<close> is the target's
  address space: an address that maps to \<open>None\<close> cannot be accessed, and an access that
  touches one fails. \<open>effects\<close> is not a field of the C structure: it is the record of
  the calls made so far.\<close>

record target =
  semihosting :: "semihosting option"
  fileio_info :: gdb_fileio_info
  little_endian :: bool
  memory :: "u64 \<Rightarrow> u8 option"
  effects :: "effect list"

text \<open>The answers of the environment: the host's C library, the redirect connection,
  the GDB server and the callbacks registered by the target type. Each function gives
  the return value of the call (and \<open>errno\<close> after it) for the arguments of the call.
  \<open>read\<close>, \<open>write\<close> and the connection functions follow POSIX: an error (\<open>Inl\<close>, the
  call returns \<open>-1\<close>) or the number of bytes transferred (\<open>Inr\<close>).\<close>

record host =
  host_clock :: s64
  host_time :: s64
  host_malloc_ok :: "u64 \<Rightarrow> bool"
  host_close :: "c_int \<Rightarrow> c_int \<times> c_int"
  host_fstat :: "c_int \<Rightarrow> c_int \<times> c_int \<times> s64"
  host_isatty :: "c_int \<Rightarrow> c_int \<times> c_int"
  host_dup :: "c_int \<Rightarrow> c_int \<times> c_int"
  host_open :: "u8 list \<Rightarrow> c_int \<Rightarrow> c_int \<times> c_int"
  host_read :: "c_int \<Rightarrow> c_int \<Rightarrow> c_int + u8 list"
  host_write :: "c_int \<Rightarrow> u8 list \<Rightarrow> c_int \<Rightarrow> c_int + nat"
  host_remove :: "u8 list \<Rightarrow> c_int \<times> c_int"
  host_rename :: "u8 list \<Rightarrow> u8 list \<Rightarrow> c_int \<times> c_int"
  host_lseek :: "c_int \<Rightarrow> s64 \<Rightarrow> s64 \<times> c_int"
  host_system :: "u8 list \<Rightarrow> c_int"
  host_getchar :: c_int
  connection_read :: "c_int \<Rightarrow> unit + u8 list"
  connection_write :: "u8 list \<Rightarrow> c_int \<Rightarrow> unit + nat"
  gdb_get_actual_connections :: nat
  post_result :: int
  halted_callbacks :: int
  user_command_extension :: "int option"

definition emit :: "effect \<Rightarrow> target \<Rightarrow> target" where
  "emit e t = t\<lparr>effects := effects t @ [e]\<rparr>"

text \<open>The flags of \<open>open\<close> on the host (Linux values; \<open>O_BINARY\<close> is 0 there) and the
  table \<open>open_host_modeflags\<close>.\<close>

definition O_RDONLY :: c_int where "O_RDONLY = 0x000"
definition O_WRONLY :: c_int where "O_WRONLY = 0x001"
definition O_RDWR :: c_int where "O_RDWR = 0x002"
definition O_CREAT :: c_int where "O_CREAT = 0x040"
definition O_TRUNC :: c_int where "O_TRUNC = 0x200"
definition O_APPEND :: c_int where "O_APPEND = 0x400"
definition O_BINARY :: c_int where "O_BINARY = 0"

definition open_host_modeflags :: "c_int list" where
  "open_host_modeflags =
    [O_RDONLY,
     O_RDONLY OR O_BINARY,
     O_RDWR,
     O_RDWR OR O_BINARY,
     O_WRONLY OR O_CREAT OR O_TRUNC,
     O_WRONLY OR O_CREAT OR O_TRUNC OR O_BINARY,
     O_RDWR OR O_CREAT OR O_TRUNC,
     O_RDWR OR O_CREAT OR O_TRUNC OR O_BINARY,
     O_WRONLY OR O_CREAT OR O_APPEND,
     O_WRONLY OR O_CREAT OR O_APPEND OR O_BINARY,
     O_RDWR OR O_CREAT OR O_APPEND,
     O_RDWR OR O_CREAT OR O_APPEND OR O_BINARY]"

text \<open>\<open>semihosting_common_init\<close>: the structure a target starts with (the time of the
  call is \<open>clock()\<close>).\<close>

definition semihosting_common_init :: "s64 \<Rightarrow> semihosting" where
  "semihosting_common_init now =
    \<lparr> is_active = False,
      redirect_cfg = SEMIHOSTING_REDIRECT_CFG_NONE,
      tcp_connection = None,
      stdin_fd = - 1,
      stdout_fd = - 1,
      stderr_fd = - 1,
      is_fileio = False,
      hit_fileio = False,
      is_resumable = False,
      has_resumable_exit = False,
      word_size_bytes = 0,
      op = - 1,
      param = 0,
      result = - 1,
      sys_errno = - 1,
      cmdline = None,
      basedir = None,
      setup_time = now \<rparr>"

section \<open>Semihosting: access to target memory\<close>

text \<open>Modelled from the spec: \<open>target_read_memory\<close>, \<open>target_read_buffer\<close>,
  \<open>target_write_memory\<close>, \<open>target_write_buffer\<close> and the \<open>target_buffer_get\<close> and
  \<open>target_buffer_set\<close> helpers of \<open>target.c\<close>, which is not part of the sources. A
  transfer of \<open>n\<close> bytes at \<open>addr\<close> succeeds when every address \<open>addr, ..., addr + n - 1\<close>
  can be accessed, and fails with \<open>ERROR_FAIL\<close> otherwise, leaving the memory as it was.\<close>

fun read_bytes :: "(u64 \<Rightarrow> u8 option) \<Rightarrow> u64 \<Rightarrow> nat \<Rightarrow> u8 list option" where
  "read_bytes mem addr 0 = Some []"
| "read_bytes mem addr (Suc n) =
     (case mem addr of
        None \<Rightarrow> None
      | Some b \<Rightarrow> (case read_bytes mem (addr + 1) n of None \<Rightarrow> None | Some bs \<Rightarrow> Some (b # bs)))"

fun write_bytes :: "(u64 \<Rightarrow> u8 option) \<Rightarrow> u64 \<Rightarrow> u8 list \<Rightarrow> (u64 \<Rightarrow> u8 option) option" where
  "write_bytes mem addr [] = Some mem"
| "write_bytes mem addr (b # bs) =
     (case mem addr of
        None \<Rightarrow> None
      | Some old \<Rightarrow> write_bytes (mem(addr \<mapsto> b)) (addr + 1) bs)"

definition target_read_memory :: "target \<Rightarrow> u64 \<Rightarrow> nat \<Rightarrow> nat \<Rightarrow> int + u8 list" where
  "target_read_memory t addr sz cnt =
     (case read_bytes (memory t) addr (sz * cnt) of
        None \<Rightarrow> Inl ERROR_FAIL
      | Some bs \<Rightarrow> Inr bs)"

definition target_read_buffer :: "target \<Rightarrow> u64 \<Rightarrow> nat \<Rightarrow> int + u8 list" where
  "target_read_buffer t addr len = target_read_memory t addr 1 len"

definition target_read_byte :: "target \<Rightarrow> u64 \<Rightarrow> int + u8" where
  "target_read_byte t addr =
     (case memory t addr of None \<Rightarrow> Inl ERROR_FAIL | Some c \<Rightarrow> Inr c)"

definition target_write_buffer :: "target \<Rightarrow> u64 \<Rightarrow> u8 list \<Rightarrow> int + target" where
  "target_write_buffer t addr bs =
     (case write_bytes (memory t) addr bs of
        None \<Rightarrow> Inl ERROR_FAIL
      | Some mem \<Rightarrow> Inr (t\<lparr>memory := mem\<rparr>))"

fun buf_get_le :: "u8 list \<Rightarrow> u64" where
  "buf_get_le [] = 0"
| "buf_get_le (b # bs) = ucast b + 256 * buf_get_le bs"

fun buf_set_le :: "nat \<Rightarrow> u64 \<Rightarrow> u8 list" where
  "buf_set_le 0 v = []"
| "buf_set_le (Suc n) v = ucast v # buf_set_le n (drop_bit 8 v)"

definition target_buffer_get_u32 :: "target \<Rightarrow> u8 list \<Rightarrow> u32" where
  "target_buffer_get_u32 t buf =
     ucast (buf_get_le (if little_endian t then take 4 buf else rev (take 4 buf)))"

definition target_buffer_get_u64 :: "target \<Rightarrow> u8 list \<Rightarrow> u64" where
  "target_buffer_get_u64 t buf =
     buf_get_le (if little_endian t then take 8 buf else rev (take 8 buf))"

definition target_buffer_set_u32 :: "target \<Rightarrow> u32 \<Rightarrow> u8 list" where
  "target_buffer_set_u32 t v =
     (if little_endian t then buf_set_le 4 (ucast v) else rev (buf_set_le 4 (ucast v)))"

definition target_buffer_set_u64 :: "target \<Rightarrow> u64 \<Rightarrow> u8 list" where
  "target_buffer_set_u64 t v =
     (if little_endian t then buf_set_le 8 v else rev (buf_set_le 8 v))"

text \<open>\<open>semihosting_read_fields\<close>, \<open>semihosting_write_fields\<close>, \<open>semihosting_get_field\<close>
  and \<open>semihosting_set_field\<close>. The buffer \<open>fields\<close> of the dispatcher is the list of
  the bytes read.\<close>

definition semihosting_read_fields :: "target \<Rightarrow> semihosting \<Rightarrow> nat \<Rightarrow> int + u8 list" where
  "semihosting_read_fields t s number =
     target_read_memory t (param s) 4 (number * (word_size_bytes s div 4))"

definition semihosting_write_fields ::
  "target \<Rightarrow> semihosting \<Rightarrow> nat \<Rightarrow> u8 list \<Rightarrow> int + target" where
  "semihosting_write_fields t s number flds =
     target_write_buffer t (param s) (take (4 * (number * (word_size_bytes s div 4))) flds)"

definition semihosting_get_field :: "target \<Rightarrow> semihosting \<Rightarrow> nat \<Rightarrow> u8 list \<Rightarrow> u64" where
  "semihosting_get_field t s index flds =
     (if word_size_bytes s = 8 then target_buffer_get_u64 t (drop (index * 8) flds)
      else ucast (target_buffer_get_u32 t (drop (index * 4) flds)))"

definition semihosting_set_field ::
  "target \<Rightarrow> semihosting \<Rightarrow> u64 \<Rightarrow> nat \<Rightarrow> u8 list \<Rightarrow> u8 list" where
  "semihosting_set_field t s v index flds =
     (if word_size_bytes s = 8
      then take (index * 8) flds @ target_buffer_set_u64 t v @ drop (index * 8 + 8) flds
      else take (index * 4) flds @ target_buffer_set_u32 t (ucast v) @ drop (index * 4 + 4) flds)"

section \<open>Semihosting: redirection to the TCP client\<close>

definition semihosting_is_redirected :: "semihosting \<Rightarrow> c_int \<Rightarrow> bool" where
  "semihosting_is_redirected s fd =
     (if redirect_cfg s = SEMIHOSTING_REDIRECT_CFG_NONE then False
      else if op s = SEMIHOSTING_SYS_READC \<or> op s = SEMIHOSTING_SYS_WRITEC
              \<or> op s = SEMIHOSTING_SYS_WRITE0 then
        (if redirect_cfg s = SEMIHOSTING_REDIRECT_CFG_STDIO then False
         else if op s = SEMIHOSTING_SYS_READC then fd = stdin_fd s
         else fd = stdout_fd s \<or> fd = stderr_fd s)
      else if op s = SEMIHOSTING_SYS_READ \<or> op s = SEMIHOSTING_SYS_WRITE then
        (if redirect_cfg s = SEMIHOSTING_REDIRECT_CFG_DEBUG then False
         else if op s = SEMIHOSTING_SYS_READ then fd = stdin_fd s
         else fd = stdout_fd s \<or> fd = stderr_fd s)
      else False)"

text \<open>The read and write helpers return the value of the C function (an \<open>ssize_t\<close> or
  an \<open>int\<close>), the bytes read where there are any, and the two structures as the call
  leaves them.\<close>

definition semihosting_redirect_write ::
  "host \<Rightarrow> target \<Rightarrow> semihosting \<Rightarrow> u8 list \<Rightarrow> c_int
     \<Rightarrow> s64 \<times> target \<times> semihosting" where
  "semihosting_redirect_write h t s buf sz =
     (case tcp_connection s of
        None \<Rightarrow> (- 1, t, s\<lparr>sys_errno := EBADF\<rparr>)
      | Some c \<Rightarrow>
          (case connection_write h buf sz of
             Inl u \<Rightarrow> (- 1, emit (Connection_write buf sz) t, s)
           | Inr n \<Rightarrow> (scast (of_nat n :: c_int), emit (Connection_write buf sz) t, s)))"

definition semihosting_write ::
  "host \<Rightarrow> target \<Rightarrow> semihosting \<Rightarrow> c_int \<Rightarrow> u8 list \<Rightarrow> c_int
     \<Rightarrow> s64 \<times> target \<times> semihosting" where
  "semihosting_write h t s fd buf sz =
     (if semihosting_is_redirected s fd then semihosting_redirect_write h t s buf sz
      else
        (case host_write h fd buf sz of
           Inl e \<Rightarrow> (- 1, emit (Host_write fd buf sz) t, s\<lparr>sys_errno := e\<rparr>)
         | Inr n \<Rightarrow> (scast (of_nat n :: c_int), emit (Host_write fd buf sz) t, s)))"

definition semihosting_redirect_read ::
  "host \<Rightarrow> target \<Rightarrow> semihosting \<Rightarrow> c_int \<Rightarrow> s64 \<times> u8 list \<times> target \<times> semihosting" where
  "semihosting_redirect_read h t s sz =
     (case tcp_connection s of
        None \<Rightarrow> (- 1, [], t, s\<lparr>sys_errno := EBADF\<rparr>)
      | Some c \<Rightarrow>
          (case connection_read h sz of
             Inl u \<Rightarrow>
               (- 1, [], emit (Connection_read sz) t,
                s\<lparr>tcp_connection :=
                    Some (c\<lparr>service_error := ERROR_SERVER_REMOTE_CLOSED, input_pending := False\<rparr>)\<rparr>)
           | Inr bs \<Rightarrow>
               (scast (of_nat (length bs) :: c_int), bs, emit (Connection_read sz) t,
                s\<lparr>tcp_connection :=
                    Some (c\<lparr>service_error :=
                               (if sint (of_nat (length bs) :: c_int) \<le> 0
                                then ERROR_SERVER_REMOTE_CLOSED else ERROR_OK),
                             input_pending := False\<rparr>)\<rparr>)))"

definition semihosting_putchar ::
  "host \<Rightarrow> target \<Rightarrow> semihosting \<Rightarrow> c_int \<Rightarrow> c_int \<Rightarrow> target \<times> semihosting" where
  "semihosting_putchar h t s fd c =
     (if semihosting_is_redirected s fd
      then (case semihosting_redirect_write h t s [ucast c] 1 of (r, t', s') \<Rightarrow> (t', s'))
      else (emit (Host_putchar c) t, s))"

definition semihosting_read ::
  "host \<Rightarrow> target \<Rightarrow> semihosting \<Rightarrow> c_int \<Rightarrow> c_int
     \<Rightarrow> s64 \<times> u8 list \<times> target \<times> semihosting" where
  "semihosting_read h t s fd sz =
     (if semihosting_is_redirected s fd then semihosting_redirect_read h t s sz
      else
        (case host_read h fd sz of
           Inl e \<Rightarrow> (- 1, [], emit (Host_read fd sz) t, s\<lparr>sys_errno := e\<rparr>)
         | Inr bs \<Rightarrow> (of_nat (length bs), bs, emit (Host_read fd sz) t, s)))"

definition semihosting_getchar ::
  "host \<Rightarrow> target \<Rightarrow> semihosting \<Rightarrow> c_int \<Rightarrow> c_int \<times> target \<times> semihosting" where
  "semihosting_getchar h t s fd =
     (if semihosting_is_redirected s fd
      then
        (case semihosting_redirect_read h t s 1 of
           (r, bs, t', s') \<Rightarrow>
             (case bs of
                [] \<Rightarrow> (- 1, t', s')
              | c # cs \<Rightarrow> if 0 < sint r then (ucast c, t', s') else (- 1, t', s')))
      else (host_getchar h, emit Host_getchar t, s))"

section \<open>Semihosting: the operation handlers\<close>

text \<open>How a \<open>case\<close> of the dispatcher's \<open>switch\<close> ends: with \<open>break\<close>, which leads to
  the common exit of the function; with a \<open>return\<close> of its own; in \<open>exit()\<close>, which
  ends the OpenOCD process; or never, in a loop that does not stop.\<close>

datatype flow =
    Break target semihosting
  | Return int target semihosting
  | Exit c_int target semihosting
  | Hang

definition set_fileio ::
  "target \<Rightarrow> string \<Rightarrow> u64 \<Rightarrow> u64 \<Rightarrow> u64 \<Rightarrow> u64 \<Rightarrow> target" where
  "set_fileio t name p1 p2 p3 p4 =
     t\<lparr>fileio_info :=
         \<lparr>fio_identifier = name, param_1 = p1, param_2 = p2, param_3 = p3, param_4 = p4\<rparr>\<rparr>"

definition sys_clock :: "host \<Rightarrow> target \<Rightarrow> semihosting \<Rightarrow> flow" where
  "sys_clock h t s =
     (let delta = host_clock h - setup_time s
      in Break (emit Host_clock t)
           (s\<lparr>result := word_of_int (sint delta sdiv clocks_per_centisecond)\<rparr>))"

definition sys_close :: "host \<Rightarrow> target \<Rightarrow> semihosting \<Rightarrow> flow" where
  "sys_close h t s =
     (case semihosting_read_fields t s 1 of
        Inl retval \<Rightarrow> Return retval t s
      | Inr flds \<Rightarrow>
          (let fd = (ucast (semihosting_get_field t s 0 flds) :: c_int)
           in if fd = 0 \<or> fd = 1 \<or> fd = 2 then Break t (s\<lparr>result := 0\<rparr>)
              else if is_fileio s then
                Break (set_fileio t ''close'' (scast fd) (param_2 (fileio_info t))
                         (param_3 (fileio_info t)) (param_4 (fileio_info t)))
                      (s\<lparr>hit_fileio := True\<rparr>)
              else
                (case host_close h fd of
                   (r, e) \<Rightarrow>
                     Break (emit (Host_close fd) t)
                       (if (scast r :: s64) = - 1
                        then s\<lparr>result := scast r, sys_errno := e\<rparr>
                        else s\<lparr>result := scast r\<rparr>))))"

definition sys_errno_op :: "host \<Rightarrow> target \<Rightarrow> semihosting \<Rightarrow> flow" where
  "sys_errno_op h t s = Break t (s\<lparr>result := scast (sys_errno s)\<rparr>)"

text \<open>The end of both exit operations: without a resumable exit the target is
  reported as halted and the dispatcher returns what the callbacks return.\<close>

definition exit_not_resumable :: "host \<Rightarrow> target \<Rightarrow> semihosting \<Rightarrow> flow" where
  "exit_not_resumable h t s =
     (if \<not> has_resumable_exit s
      then Return (halted_callbacks h) (emit Halted_event t) (s\<lparr>is_resumable := False\<rparr>)
      else Break t s)"

definition sys_exit_extended :: "host \<Rightarrow> target \<Rightarrow> semihosting \<Rightarrow> flow" where
  "sys_exit_extended h t s =
     (case semihosting_read_fields t s 2 of
        Inl retval \<Rightarrow> Return retval t s
      | Inr flds \<Rightarrow>
          (let type = (ucast (semihosting_get_field t s 0 flds) :: c_int);
               code = (ucast (semihosting_get_field t s 1 flds) :: c_int)
           in if type = ucast ADP_STOPPED_APPLICATION_EXIT \<and> gdb_get_actual_connections h = 0
              then Exit code t s
              else exit_not_resumable h t s))"

definition sys_exit :: "host \<Rightarrow> target \<Rightarrow> semihosting \<Rightarrow> flow" where
  "sys_exit h t s =
     (if word_size_bytes s = 8 then sys_exit_extended h t s
      else if param s = ADP_STOPPED_APPLICATION_EXIT then
        (if gdb_get_actual_connections h = 0 then Exit 0 t s else exit_not_resumable h t s)
      else if param s = ADP_STOPPED_RUN_TIME_ERROR then
        (if gdb_get_actual_connections h = 0 then Exit 1 t s else exit_not_resumable h t s)
      else
        (if gdb_get_actual_connections h = 0 then Exit 1 t s else exit_not_resumable h t s))"

definition sys_flen :: "host \<Rightarrow> target \<Rightarrow> semihosting \<Rightarrow> flow" where
  "sys_flen h t s =
     (let s0 = (if is_fileio s then s\<lparr>result := - 1, sys_errno := EINVAL\<rparr> else s)
      in case semihosting_read_fields t s0 1 of
           Inl retval \<Rightarrow> Return retval t s0
         | Inr flds \<Rightarrow>
             (let fd = (ucast (semihosting_get_field t s0 0 flds) :: c_int)
              in case host_fstat h fd of
                   (r, e, st_size) \<Rightarrow>
                     if (scast r :: s64) = - 1
                     then Break (emit (Host_fstat fd) t) (s0\<lparr>result := scast r, sys_errno := e\<rparr>)
                     else Break (emit (Host_fstat fd) t) (s0\<lparr>result := st_size\<rparr>)))"

definition sys_get_cmdline :: "host \<Rightarrow> target \<Rightarrow> semihosting \<Rightarrow> flow" where
  "sys_get_cmdline h t s =
     (case semihosting_read_fields t s 2 of
        Inl retval \<Rightarrow> Return retval t s
      | Inr flds \<Rightarrow>
          (let addr = semihosting_get_field t s 0 flds;
               sz = semihosting_get_field t s 1 flds;
               arg = (case cmdline s of None \<Rightarrow> [] | Some a \<Rightarrow> c_str a);
               len = (of_nat (length arg + 1) :: u32)
           in if sz < ucast len then Break t (s\<lparr>result := - 1\<rparr>)
              else
                (let flds' = semihosting_set_field t s (ucast len) 1 flds
                 in case target_write_buffer t addr (take (unat len) (arg @ [0])) of
                      Inl retval \<Rightarrow> Return retval t s
                    | Inr t1 \<Rightarrow>
                        (case semihosting_write_fields t1 s 2 flds' of
                           Inl retval \<Rightarrow> Return retval t1 (s\<lparr>result := 0\<rparr>)
                         | Inr t2 \<Rightarrow> Break t2 (s\<lparr>result := 0\<rparr>)))))"

definition sys_heapinfo :: "host \<Rightarrow> target \<Rightarrow> semihosting \<Rightarrow> flow" where
  "sys_heapinfo h t s =
     (case semihosting_read_fields t s 1 of
        Inl retval \<Rightarrow> Return retval t s
      | Inr flds \<Rightarrow>
          (let addr = semihosting_get_field t s 0 flds
           in case target_write_buffer t addr (replicate (4 * word_size_bytes s) 0) of
                Inl retval \<Rightarrow> Return retval t s
              | Inr t1 \<Rightarrow> Break t1 (s\<lparr>result := 0\<rparr>)))"

definition sys_iserror :: "host \<Rightarrow> target \<Rightarrow> semihosting \<Rightarrow> flow" where
  "sys_iserror h t s =
     (case semihosting_read_fields t s 1 of
        Inl retval \<Rightarrow> Return retval t s
      | Inr flds \<Rightarrow>
          (let code = semihosting_get_field t s 0 flds
           in Break t (s\<lparr>result := (if code \<noteq> 0 then 1 else 0)\<rparr>)))"

definition sys_istty :: "host \<Rightarrow> target \<Rightarrow> semihosting \<Rightarrow> flow" where
  "sys_istty h t s =
     (if is_fileio s then
        Break (set_fileio t ''isatty'' (param s) (param_2 (fileio_info t))
                 (param_3 (fileio_info t)) (param_4 (fileio_info t)))
              (s\<lparr>hit_fileio := True\<rparr>)
      else
        (case semihosting_read_fields t s 1 of
           Inl retval \<Rightarrow> Return retval t s
         | Inr flds \<Rightarrow>
             (let fd = (ucast (semihosting_get_field t s 0 flds) :: c_int)
              in case host_isatty h fd of
                   (r, e) \<Rightarrow>
                     if r \<noteq> 0 then Break (emit (Host_isatty fd) t) (s\<lparr>result := 1\<rparr>)
                     else Break (emit (Host_isatty fd) t) (s\<lparr>result := 0, sys_errno := e\<rparr>))))"

text \<open>The start of the buffer \<open>fn\<close> of \<open>SYS_OPEN\<close> before the name is read into it:
  the base directory, with a slash after it unless it ends in one.\<close>

definition basedir_prefix :: "u8 list option \<Rightarrow> u8 list" where
  "basedir_prefix bd =
     (let dir = (case bd of None \<Rightarrow> [] | Some b \<Rightarrow> c_str b)
      in if 0 < length dir
         then (if last dir \<noteq> of_char CHR ''/'' then dir @ [of_char CHR ''/''] else dir)
         else [])"

definition sys_open :: "host \<Rightarrow> target \<Rightarrow> semihosting \<Rightarrow> flow" where
  "sys_open h t s =
     (case semihosting_read_fields t s 3 of
        Inl retval \<Rightarrow> Return retval t s
      | Inr flds \<Rightarrow>
          (let addr = semihosting_get_field t s 0 flds;
               mode = (ucast (semihosting_get_field t s 1 flds) :: u32);
               len = semihosting_get_field t s 2 flds;
               basedir_len = (case basedir s of None \<Rightarrow> 0 | Some b \<Rightarrow> length (c_str b))
           in if 11 < mode then Break t (s\<lparr>result := - 1, sys_errno := EINVAL\<rparr>)
              else if \<not> host_malloc_ok h (of_nat basedir_len + len + 2)
              then Break t (s\<lparr>result := - 1, sys_errno := ENOMEM\<rparr>)
              else
                (case target_read_memory t addr 1 (unat len) of
                   Inl retval \<Rightarrow> Return retval t s
                 | Inr name \<Rightarrow>
                     (let fn = c_str (basedir_prefix (basedir s) @ name @ [0])
                      in if is_fileio s then
                           (if fn = bytes_of '':semihosting-features''
                            then Break t (s\<lparr>result := - 1, sys_errno := EINVAL\<rparr>)
                            else if fn = bytes_of '':tt'' then
                              (if mode = 0 then Break t (s\<lparr>result := 0\<rparr>)
                               else if mode = 4 then Break t (s\<lparr>result := 1\<rparr>)
                               else if mode = 8 then Break t (s\<lparr>result := 2\<rparr>)
                               else Break t (s\<lparr>result := - 1, sys_errno := EINVAL\<rparr>))
                            else
                              Break (set_fileio t ''open'' addr len
                                       (open_gdb_modeflags ! unat mode) 0x1A4)
                                    (s\<lparr>hit_fileio := True\<rparr>))
                         else if fn = bytes_of '':tt'' then
                           (if mode < 4 then
                              (case host_dup h 0 of
                                 (fd, e) \<Rightarrow>
                                   Break (emit (Host_dup 0) t)
                                     (if fd = - 1
                                      then s\<lparr>stdin_fd := fd, result := scast fd, sys_errno := e\<rparr>
                                      else s\<lparr>stdin_fd := fd, result := scast fd\<rparr>))
                            else if mode < 8 then
                              (case host_dup h 1 of
                                 (fd, e) \<Rightarrow>
                                   Break (emit (Host_dup 1) t)
                                     (if fd = - 1
                                      then s\<lparr>stdout_fd := fd, result := scast fd, sys_errno := e\<rparr>
                                      else s\<lparr>stdout_fd := fd, result := scast fd\<rparr>))
                            else
                              (case host_dup h 2 of
                                 (fd, e) \<Rightarrow>
                                   Break (emit (Host_dup 2) t)
                                     (if fd = - 1
                                      then s\<lparr>stderr_fd := fd, result := scast fd, sys_errno := e\<rparr>
                                      else s\<lparr>stderr_fd := fd, result := scast fd\<rparr>)))
                         else
                           (case host_open h fn (open_host_modeflags ! unat mode) of
                              (r, e) \<Rightarrow>
                                Break (emit (Host_open fn (open_host_modeflags ! unat mode)) t)
                                  (if (scast r :: s64) = - 1
                                   then s\<lparr>result := scast r, sys_errno := e\<rparr>
                                   else s\<lparr>result := scast r\<rparr>))))))"

definition sys_read :: "host \<Rightarrow> target \<Rightarrow> semihosting \<Rightarrow> flow" where
  "sys_read h t s =
     (case semihosting_read_fields t s 3 of
        Inl retval \<Rightarrow> Return retval t s
      | Inr flds \<Rightarrow>
          (let fd = (ucast (semihosting_get_field t s 0 flds) :: c_int);
               addr = semihosting_get_field t s 1 flds;
               len = semihosting_get_field t s 2 flds
           in if is_fileio s then
                Break (set_fileio t ''read'' (scast fd) addr len (param_4 (fileio_info t)))
                      (s\<lparr>hit_fileio := True\<rparr>)
              else if \<not> host_malloc_ok h len
              then Break t (s\<lparr>result := - 1, sys_errno := ENOMEM\<rparr>)
              else
                (case semihosting_read h t s fd (ucast len) of
                   (r, buf, t1, s1) \<Rightarrow>
                     if 0 \<le> sint r then
                       (case target_write_buffer t1 addr (take (unat r) buf) of
                          Inl retval \<Rightarrow> Return retval t1 (s1\<lparr>result := r\<rparr>)
                        | Inr t2 \<Rightarrow> Break t2 (s1\<lparr>result := len - r\<rparr>))
                     else Break t1 (s1\<lparr>result := r\<rparr>))))"

definition sys_readc :: "host \<Rightarrow> target \<Rightarrow> semihosting \<Rightarrow> flow" where
  "sys_readc h t s =
     (if is_fileio s then Return ERROR_FAIL t s
      else
        (case semihosting_getchar h t s (stdin_fd s) of
           (c, t1, s1) \<Rightarrow> Break t1 (s1\<lparr>result := scast c\<rparr>)))"

definition sys_remove :: "host \<Rightarrow> target \<Rightarrow> semihosting \<Rightarrow> flow" where
  "sys_remove h t s =
     (case semihosting_read_fields t s 2 of
        Inl retval \<Rightarrow> Return retval t s
      | Inr flds \<Rightarrow>
          (let addr = semihosting_get_field t s 0 flds;
               len = semihosting_get_field t s 1 flds
           in if is_fileio s then
                Break (set_fileio t ''unlink'' addr len
                         (param_3 (fileio_info t)) (param_4 (fileio_info t)))
                      (s\<lparr>hit_fileio := True\<rparr>)
              else if \<not> host_malloc_ok h (len + 1)
              then Break t (s\<lparr>result := - 1, sys_errno := ENOMEM\<rparr>)
              else
                (case target_read_memory t addr 1 (unat len) of
                   Inl retval \<Rightarrow> Return retval t s
                 | Inr name \<Rightarrow>
                     (let fn = c_str (name @ [0])
                      in case host_remove h fn of
                           (r, e) \<Rightarrow>
                             Break (emit (Host_remove fn) t)
                               (if (scast r :: s64) = - 1
                                then s\<lparr>result := scast r, sys_errno := e\<rparr>
                                else s\<lparr>result := scast r\<rparr>)))))"

definition sys_rename :: "host \<Rightarrow> target \<Rightarrow> semihosting \<Rightarrow> flow" where
  "sys_rename h t s =
     (case semihosting_read_fields t s 4 of
        Inl retval \<Rightarrow> Return retval t s
      | Inr flds \<Rightarrow>
          (let addr1 = semihosting_get_field t s 0 flds;
               len1 = semihosting_get_field t s 1 flds;
               addr2 = semihosting_get_field t s 2 flds;
               len2 = semihosting_get_field t s 3 flds
           in if is_fileio s then
                Break (set_fileio t ''rename'' addr1 len1 addr2 len2) (s\<lparr>hit_fileio := True\<rparr>)
              else if \<not> host_malloc_ok h (len1 + 1) \<or> \<not> host_malloc_ok h (len2 + 1)
              then Break t (s\<lparr>result := - 1, sys_errno := ENOMEM\<rparr>)
              else
                (case target_read_memory t addr1 1 (unat len1) of
                   Inl retval \<Rightarrow> Return retval t s
                 | Inr name1 \<Rightarrow>
                     (case target_read_memory t addr2 1 (unat len2) of
                        Inl retval \<Rightarrow> Return retval t s
                      | Inr name2 \<Rightarrow>
                          (let fn1 = c_str (name1 @ [0]); fn2 = c_str (name2 @ [0])
                           in case host_rename h fn1 fn2 of
                                (r, e) \<Rightarrow>
                                  Break (emit (Host_rename fn1 fn2) t)
                                    (if (scast r :: s64) \<noteq> 0
                                     then s\<lparr>result := scast r, sys_errno := e\<rparr>
                                     else s\<lparr>result := scast r\<rparr>))))))"

definition sys_seek :: "host \<Rightarrow> target \<Rightarrow> semihosting \<Rightarrow> flow" where
  "sys_seek h t s =
     (case semihosting_read_fields t s 2 of
        Inl retval \<Rightarrow> Return retval t s
      | Inr flds \<Rightarrow>
          (let fd = (ucast (semihosting_get_field t s 0 flds) :: c_int);
               pos = semihosting_get_field t s 1 flds
           in if is_fileio s then
                Break (set_fileio t ''lseek'' (scast fd) pos 0 (param_4 (fileio_info t)))
                      (s\<lparr>hit_fileio := True\<rparr>)
              else
                (case host_lseek h fd pos of
                   (r, e) \<Rightarrow>
                     (let s1 = (if r = - 1 then s\<lparr>result := r, sys_errno := e\<rparr>
                                else s\<lparr>result := r\<rparr>)
                      in Break (emit (Host_lseek fd pos) t)
                           (if result s1 = pos then s1\<lparr>result := 0\<rparr> else s1)))))"

definition sys_system :: "host \<Rightarrow> target \<Rightarrow> semihosting \<Rightarrow> flow" where
  "sys_system h t s =
     (case semihosting_read_fields t s 2 of
        Inl retval \<Rightarrow> Return retval t s
      | Inr flds \<Rightarrow>
          (let addr = semihosting_get_field t s 0 flds;
               len = semihosting_get_field t s 1 flds
           in if is_fileio s then
                Break (set_fileio t ''system'' addr len
                         (param_3 (fileio_info t)) (param_4 (fileio_info t)))
                      (s\<lparr>hit_fileio := True\<rparr>)
              else if \<not> host_malloc_ok h (len + 1)
              then Break t (s\<lparr>result := - 1, sys_errno := ENOMEM\<rparr>)
              else
                (case target_read_memory t addr 1 (unat len) of
                   Inl retval \<Rightarrow> Return retval t s
                 | Inr bs \<Rightarrow>
                     (let cmd = c_str (bs @ [0])
                      in Break (emit (Host_system cmd) t)
                           (s\<lparr>result := scast (host_system h cmd)\<rparr>)))))"

definition sys_time :: "host \<Rightarrow> target \<Rightarrow> semihosting \<Rightarrow> flow" where
  "sys_time h t s = Break (emit Host_time t) (s\<lparr>result := host_time h\<rparr>)"

definition sys_write :: "host \<Rightarrow> target \<Rightarrow> semihosting \<Rightarrow> flow" where
  "sys_write h t s =
     (case semihosting_read_fields t s 3 of
        Inl retval \<Rightarrow> Return retval t s
      | Inr flds \<Rightarrow>
          (let fd = (ucast (semihosting_get_field t s 0 flds) :: c_int);
               addr = semihosting_get_field t s 1 flds;
               len = semihosting_get_field t s 2 flds
           in if is_fileio s then
                Break (set_fileio t ''write'' (scast fd) addr len (param_4 (fileio_info t)))
                      (s\<lparr>hit_fileio := True\<rparr>)
              else if \<not> host_malloc_ok h len
              then Break t (s\<lparr>result := - 1, sys_errno := ENOMEM\<rparr>)
              else
                (case target_read_buffer t addr (unat len) of
                   Inl retval \<Rightarrow> Return retval t s
                 | Inr buf \<Rightarrow>
                     (case semihosting_write h t s fd buf (ucast len) of
                        (r, t1, s1) \<Rightarrow>
                          if 0 \<le> sint r then Break t1 (s1\<lparr>result := len - r\<rparr>)
                          else Break t1 (s1\<lparr>result := r\<rparr>)))))"

definition sys_writec :: "host \<Rightarrow> target \<Rightarrow> semihosting \<Rightarrow> flow" where
  "sys_writec h t s =
     (if is_fileio s then
        Break (set_fileio t ''write'' 1 (param s) 1 (param_4 (fileio_info t)))
              (s\<lparr>hit_fileio := True\<rparr>)
      else
        (case target_read_byte t (param s) of
           Inl retval \<Rightarrow> Return retval t s
         | Inr c \<Rightarrow>
             (case semihosting_putchar h t s (stdout_fd s) (ucast c) of
                (t1, s1) \<Rightarrow> Break t1 (s1\<lparr>result := 0\<rparr>))))"

text \<open>The two loops of \<open>SYS_WRITE0\<close> walk the target memory from \<open>param\<close> to the first
  NUL byte. The address is a 64-bit value and wraps around: a loop that has made
  \<open>2 ^ 64\<close> steps has seen every address and, the memory being what it was, goes on
  for ever. That is the answer \<open>None\<close> of the counting loop and \<open>Hang\<close> of the
  printing loop, when the fuel \<open>2 ^ 64\<close> they start with is used up.\<close>

fun write0_count ::
  "target \<Rightarrow> nat \<Rightarrow> u64 \<Rightarrow> u64 \<Rightarrow> (int + u64) option" where
  "write0_count t fuel addr cnt =
     (if fuel = 0 then None
      else
        (case target_read_byte t addr of
           Inl retval \<Rightarrow> Some (Inl retval)
         | Inr c \<Rightarrow>
             if c = 0 then Some (Inr cnt)
             else write0_count t (fuel - 1) (addr + 1) (cnt + 1)))"

declare write0_count.simps [simp del]

fun write0_print ::
  "host \<Rightarrow> nat \<Rightarrow> u64 \<Rightarrow> target \<Rightarrow> semihosting \<Rightarrow> flow" where
  "write0_print h fuel addr t s =
     (if fuel = 0 then Hang
      else
        (case target_read_byte t addr of
           Inl retval \<Rightarrow> Return retval t s
         | Inr c \<Rightarrow>
             if c = 0 then Break t (s\<lparr>result := 0\<rparr>)
             else write0_print h (fuel - 1) (addr + 1)
                    (fst (semihosting_putchar h t s (stdout_fd s) (ucast c)))
                    (snd (semihosting_putchar h t s (stdout_fd s) (ucast c)))))"

declare write0_print.simps [simp del]

definition sys_write0 :: "host \<Rightarrow> target \<Rightarrow> semihosting \<Rightarrow> flow" where
  "sys_write0 h t s =
     (if is_fileio s then
        (case write0_count t (2 ^ 64) (param s) 0 of
           None \<Rightarrow> Hang
         | Some (Inl retval) \<Rightarrow> Return retval t s
         | Some (Inr cnt) \<Rightarrow>
             Break (set_fileio t ''write'' 1 (param s) cnt (param_4 (fileio_info t)))
                   (s\<lparr>hit_fileio := True\<rparr>))
      else write0_print h (2 ^ 64) (param s) t s)"

text \<open>The user commands \<open>0x100\<close> to \<open>0x107\<close>. The extension of the target type, when
  there is one, answers with its return value; what else it does to the target is its
  own business and is not modelled. The parameter string lives in a buffer of the
  module for the time of the event and is gone afterwards.\<close>

definition sys_user_cmd :: "host \<Rightarrow> target \<Rightarrow> semihosting \<Rightarrow> flow" where
  "sys_user_cmd h t s =
     (let handled = (case user_command_extension h of
                       None \<Rightarrow> False
                     | Some retval \<Rightarrow> retval \<noteq> ERROR_NOT_IMPLEMENTED);
          t0 = (case user_command_extension h of
                  None \<Rightarrow> t
                | Some retval \<Rightarrow> emit User_command_extension t)
      in if handled then Break t0 s
         else
           (case semihosting_read_fields t0 s 2 of
              Inl retval \<Rightarrow> Return retval t0 s
            | Inr flds \<Rightarrow>
                (let addr = semihosting_get_field t0 s 0 flds;
                     len = semihosting_get_field t0 s 1 flds
                 in if SEMIHOSTING_MAX_TCL_COMMAND_FIELD_LENGTH < len then Return ERROR_FAIL t0 s
                    else if \<not> host_malloc_ok h (len + 1) then Return ERROR_FAIL t0 s
                    else
                      (case target_read_buffer t0 addr (unat len) of
                         Inl retval \<Rightarrow> Return retval t0 s
                       | Inr params \<Rightarrow>
                           Break (emit (User_cmd_event (op s)) t0) (s\<lparr>result := 0\<rparr>)))))"

definition sys_unsupported :: "host \<Rightarrow> target \<Rightarrow> semihosting \<Rightarrow> flow" where
  "sys_unsupported h t s = Break t (s\<lparr>result := - 1, sys_errno := ENOTSUP\<rparr>)"

section \<open>Semihosting: the dispatcher\<close>

text \<open>The \<open>switch\<close> of \<open>semihosting_common\<close>, in the order of its cases.\<close>

definition semihosting_switch :: "host \<Rightarrow> target \<Rightarrow> semihosting \<Rightarrow> flow" where
  "semihosting_switch h t s =
     (if op s = SEMIHOSTING_SYS_CLOCK then sys_clock h t s
      else if op s = SEMIHOSTING_SYS_CLOSE then sys_close h t s
      else if op s = SEMIHOSTING_SYS_ERRNO then sys_errno_op h t s
      else if op s = SEMIHOSTING_SYS_EXIT then sys_exit h t s
      else if op s = SEMIHOSTING_SYS_EXIT_EXTENDED then sys_exit_extended h t s
      else if op s = SEMIHOSTING_SYS_FLEN then sys_flen h t s
      else if op s = SEMIHOSTING_SYS_GET_CMDLINE then sys_get_cmdline h t s
      else if op s = SEMIHOSTING_SYS_HEAPINFO then sys_heapinfo h t s
      else if op s = SEMIHOSTING_SYS_ISERROR then sys_iserror h t s
      else if op s = SEMIHOSTING_SYS_ISTTY then sys_istty h t s
      else if op s = SEMIHOSTING_SYS_OPEN then sys_open h t s
      else if op s = SEMIHOSTING_SYS_READ then sys_read h t s
      else if op s = SEMIHOSTING_SYS_READC then sys_readc h t s
      else if op s = SEMIHOSTING_SYS_REMOVE then sys_remove h t s
      else if op s = SEMIHOSTING_SYS_RENAME then sys_rename h t s
      else if op s = SEMIHOSTING_SYS_SEEK then sys_seek h t s
      else if op s = SEMIHOSTING_SYS_SYSTEM then sys_system h t s
      else if op s = SEMIHOSTING_SYS_TIME then sys_time h t s
      else if op s = SEMIHOSTING_SYS_WRITE then sys_write h t s
      else if op s = SEMIHOSTING_SYS_WRITEC then sys_writec h t s
      else if op s = SEMIHOSTING_SYS_WRITE0 then sys_write0 h t s
      else if SEMIHOSTING_USER_CMD_0X100 \<le> op s \<and> op s \<le> SEMIHOSTING_USER_CMD_0X107
      then sys_user_cmd h t s
      else sys_unsupported h t s)"

text \<open>How a call of the dispatcher ends: it returns a code, the process exits, or the
  call never returns.\<close>

datatype outcome =
    Returned int target
  | Exited c_int target
  | Diverged

text \<open>The common exit after the \<open>switch\<close>: the result is posted unless the request
  was handed to the file-I/O channel.\<close>

definition semihosting_finish :: "host \<Rightarrow> flow \<Rightarrow> outcome" where
  "semihosting_finish h f =
     (case f of
        Break t s \<Rightarrow>
          if \<not> hit_fileio s then
            (if post_result h \<noteq> ERROR_OK
             then Returned (post_result h) ((emit Post_result t)\<lparr>semihosting := Some s\<rparr>)
             else Returned ERROR_OK ((emit Post_result t)\<lparr>semihosting := Some s\<rparr>))
          else Returned ERROR_OK (t\<lparr>semihosting := Some s\<rparr>)
      | Return retval t s \<Rightarrow> Returned retval (t\<lparr>semihosting := Some s\<rparr>)
      | Exit code t s \<Rightarrow> Exited code (t\<lparr>semihosting := Some s\<rparr>)
      | Hang \<Rightarrow> Diverged)"

definition semihosting_common :: "host \<Rightarrow> target \<Rightarrow> outcome" where
  "semihosting_common h t =
     (case semihosting t of
        None \<Rightarrow> Returned ERROR_OK t
      | Some s \<Rightarrow>
          semihosting_finish h
            (semihosting_switch h t (s\<lparr>result := - 1, is_resumable := True\<rparr>)))"

text \<open>\<open>semihosting_common_fileio_end\<close>: the frontend reports the end of the request.\<close>

definition semihosting_common_fileio_end ::
  "host \<Rightarrow> target \<Rightarrow> c_int \<Rightarrow> c_int \<Rightarrow> bool \<Rightarrow> int \<times> target" where
  "semihosting_common_fileio_end h t res fileio_errno ctrl_c =
     (case semihosting t of
        None \<Rightarrow> (ERROR_FAIL, t)
      | Some s \<Rightarrow>
          (let s1 = s\<lparr>hit_fileio := False, result := scast res\<rparr>;
               s2 = (if op s1 = SEMIHOSTING_SYS_WRITE \<or> op s1 = SEMIHOSTING_SYS_READ then
                       (if sint res < 0 then s1\<lparr>result := param_3 (fileio_info t)\<rparr>
                        else s1\<lparr>result := param_3 (fileio_info t) - scast res\<rparr>)
                     else if op s1 = SEMIHOSTING_SYS_SEEK then
                       (if 0 < sint res then s1\<lparr>result := 0\<rparr> else s1)
                     else s1);
               fileio_failed =
                 (if op s2 = SEMIHOSTING_SYS_ISTTY then result s2 = 0
                  else if op s2 = SEMIHOSTING_SYS_RENAME then result s2 \<noteq> 0
                  else result s2 = - 1);
               s3 = (if fileio_failed then s2\<lparr>sys_errno := fileio_errno\<rparr> else s2)
           in (post_result h, (emit Post_result t)\<lparr>semihosting := Some s3\<rparr>)))"

section \<open>TPIU/SWO: data model\<close>

text \<open>Modelled from the spec: constants of \<open>arm_tpiu_swo.h\<close>, \<open>helper/command.h\<close> and
  \<open>jim.h\<close>, which are not part of the sources: the pin protocols (the value written
  to \<open>SPPR\<close>), the return codes of the command layer and of the Jim interpreter.\<close>

definition TPIU_PIN_PROTOCOL_SYNC :: u32 where "TPIU_PIN_PROTOCOL_SYNC = 0"
definition TPIU_PIN_PROTOCOL_ASYNC_MANCHESTER :: u32 where "TPIU_PIN_PROTOCOL_ASYNC_MANCHESTER = 1"
definition TPIU_PIN_PROTOCOL_ASYNC_UART :: u32 where "TPIU_PIN_PROTOCOL_ASYNC_UART = 2"

definition ERROR_COMMAND_CLOSE_CONNECTION :: int where "ERROR_COMMAND_CLOSE_CONNECTION = - 600"
definition ERROR_COMMAND_SYNTAX_ERROR :: int where "ERROR_COMMAND_SYNTAX_ERROR = - 601"
definition JIM_OK :: int where "JIM_OK = 0"
definition JIM_ERR :: int where "JIM_ERR = 1"
definition JIM_RETURN :: int where "JIM_RETURN = 2"

text \<open>The constants the source defines itself.\<close>

definition TPIU_SWO_DEFAULT_BASE :: u64 where "TPIU_SWO_DEFAULT_BASE = 0xE0040000"
definition TPIU_SSPSR_OFFSET :: u64 where "TPIU_SSPSR_OFFSET = 0x000"
definition TPIU_CSPSR_OFFSET :: u64 where "TPIU_CSPSR_OFFSET = 0x004"
definition TPIU_ACPR_OFFSET :: u64 where "TPIU_ACPR_OFFSET = 0x010"
definition TPIU_SPPR_OFFSET :: u64 where "TPIU_SPPR_OFFSET = 0x0F0"
definition TPIU_FFSR_OFFSET :: u64 where "TPIU_FFSR_OFFSET = 0x300"
definition TPIU_FFCR_OFFSET :: u64 where "TPIU_FFCR_OFFSET = 0x304"
definition TPIU_FSCR_OFFSET :: u64 where "TPIU_FSCR_OFFSET = 0x308"
definition TPIU_DEVID_OFFSET :: u64 where "TPIU_DEVID_OFFSET = 0xfc8"

definition TPIU_ACPR_MAX_PRESCALER :: u16 where "TPIU_ACPR_MAX_PRESCALER = 0x1fff"
definition TPIU_SPPR_PROTOCOL_SYNC :: u32 where
  "TPIU_SPPR_PROTOCOL_SYNC = TPIU_PIN_PROTOCOL_SYNC"
definition TPIU_SPPR_PROTOCOL_MANCHESTER :: u32 where
  "TPIU_SPPR_PROTOCOL_MANCHESTER = TPIU_PIN_PROTOCOL_ASYNC_MANCHESTER"
definition TPIU_SPPR_PROTOCOL_UART :: u32 where
  "TPIU_SPPR_PROTOCOL_UART = TPIU_PIN_PROTOCOL_ASYNC_UART"

text \<open>\<open>BIT(nr)\<close> is \<open>1UL << nr\<close>. The source shifts by \<open>port_width - 1\<close>, and
  \<open>configure\<close> keeps \<open>port_width\<close> between 1 and 32.\<close>

definition BIT :: "nat \<Rightarrow> u64" where
  "BIT nr = push_bit nr 1"

definition TPIU_DEVID_NOSUPPORT_SYNC :: u64 where "TPIU_DEVID_NOSUPPORT_SYNC = BIT 9"
definition TPIU_DEVID_SUPPORT_MANCHESTER :: u64 where "TPIU_DEVID_SUPPORT_MANCHESTER = BIT 10"
definition TPIU_DEVID_SUPPORT_UART :: u64 where "TPIU_DEVID_SUPPORT_UART = BIT 11"

datatype arm_tpiu_swo_event =
    TPIU_SWO_EVENT_PRE_ENABLE
  | TPIU_SWO_EVENT_POST_ENABLE
  | TPIU_SWO_EVENT_PRE_DISABLE
  | TPIU_SWO_EVENT_POST_DISABLE

text \<open>\<open>struct arm_tpiu_swo_event_action\<close>: the chain through \<open>next\<close> is a list, the
  script is its text.\<close>

record arm_tpiu_swo_event_action =
  event :: arm_tpiu_swo_event
  body :: string

text \<open>\<open>struct arm_tpiu_swo_object\<close>. The access port and the file (the field \<open>file\<close>,
  here \<open>out_file\<close>) are handles (\<open>None\<close> is NULL); \<open>spot\<close> is given by its \<open>ap_num\<close> and \<open>base\<close>.\<close>

record arm_tpiu_swo_object =
  spot_ap_num :: u64
  spot_base :: u64
  ap :: "nat option"
  name :: string
  event_action :: "arm_tpiu_swo_event_action list"
  deferred_enable :: bool
  enabled :: bool
  en_capture :: bool
  port_width :: u32
  out_file :: "nat option"
  pin_protocol :: u32
  en_formatter :: bool
  traceclkin_freq :: u32
  swo_pin_freq :: u32
  out_filename :: string
  connections :: "nat list"
  recheck_ap_cur_target :: bool

text \<open>The calls the controller makes outside the object, with what they returned
  where the result decides what is held afterwards. \<open>command_print\<close> and log output
  are not recorded.\<close>

datatype tpiu_effect =
    Run_hook arm_tpiu_swo_event string
  | Dap_get_ap u64 "nat option"
  | Dap_put_ap nat
  | Read_u32 u64
  | Write_u32 u64 u32
  | Add_service string int
  | Remove_service string
  | Fopen string "nat option"
  | Fclose nat
  | Config_trace_on int
  | Config_trace_off int
  | Register_timer
  | Unregister_timer
  | Trace_config_event

text \<open>The answers of the environment of a command: the command line, the transport,
  the current target, the DAP, the interpreter that runs the hooks (the result of
  \<open>Jim_EvalObj\<close> and the interpreter's \<open>returnCode\<close>), the register accesses by either
  path, the server, the C library and the adapter (for \<open>adapter_config_trace(true, ...)\<close>:
  the return value, the pin frequency and the prescaler it hands back).\<close>

record tpiu_env =
  cmd_argc :: nat
  cmd_mode_config :: bool
  transport_is_hla :: bool
  target_type_name :: string
  target_was_examined :: bool
  debug_ap_num :: u64
  dap_get_ap :: "u64 \<Rightarrow> nat option"
  jim_eval :: "string \<Rightarrow> int \<times> int"
  target_read_u32 :: "u64 \<Rightarrow> int \<times> u32"
  mem_ap_read_atomic_u32 :: "u64 \<Rightarrow> int \<times> u32"
  target_write_u32 :: "u64 \<Rightarrow> u32 \<Rightarrow> int"
  mem_ap_write_atomic_u32 :: "u64 \<Rightarrow> u32 \<Rightarrow> int"
  malloc_ok :: bool
  add_service :: "string \<Rightarrow> int"
  fopen :: "string \<Rightarrow> nat option"
  adapter_config_trace_on :: "u32 \<Rightarrow> u32 \<Rightarrow> u32 \<Rightarrow> u32 \<Rightarrow> int \<times> u32 \<times> u16"
  adapter_config_trace_off :: int

text \<open>What a command cannot return from: the division by a zero prescaler, and the use
  of an object that has been freed.\<close>

datatype tpiu_fault = Division_by_zero | Use_after_free

section \<open>TPIU/SWO: event hooks and output\<close>

text \<open>\<open>arm_tpiu_swo_handle_event\<close>: the first action of the chain for the event is
  run, and the loop returns after it.\<close>

fun arm_tpiu_swo_handle_event_loop ::
  "tpiu_env \<Rightarrow> arm_tpiu_swo_event \<Rightarrow> arm_tpiu_swo_event_action list
     \<Rightarrow> int \<times> tpiu_effect list" where
  "arm_tpiu_swo_handle_event_loop env ev [] = (ERROR_OK, [])"
| "arm_tpiu_swo_handle_event_loop env ev (ea # eas) =
     (if event ea \<noteq> ev then arm_tpiu_swo_handle_event_loop env ev eas
      else
        (let retval = (if fst (jim_eval env (body ea)) = JIM_RETURN
                       then snd (jim_eval env (body ea))
                       else fst (jim_eval env (body ea)))
         in if retval = JIM_OK \<or> retval = ERROR_COMMAND_CLOSE_CONNECTION
            then (ERROR_OK, [Run_hook ev (body ea)])
            else (ERROR_FAIL, [Run_hook ev (body ea)])))"

definition arm_tpiu_swo_handle_event ::
  "tpiu_env \<Rightarrow> arm_tpiu_swo_object \<Rightarrow> arm_tpiu_swo_event \<Rightarrow> int \<times> tpiu_effect list" where
  "arm_tpiu_swo_handle_event env obj ev =
     arm_tpiu_swo_handle_event_loop env ev (event_action obj)"

definition arm_tpiu_swo_close_output ::
  "arm_tpiu_swo_object \<Rightarrow> arm_tpiu_swo_object \<times> tpiu_effect list" where
  "arm_tpiu_swo_close_output obj =
     (let closed = (case out_file obj of None \<Rightarrow> [] | Some f \<Rightarrow> [Fclose f]);
          removed = (case out_filename obj of
                       [] \<Rightarrow> []
                     | c # port \<Rightarrow> if c = CHR '':'' then [Remove_service port] else [])
      in (obj\<lparr>out_file := None\<rparr>, closed @ removed))"

definition wrap_write_u32 :: "tpiu_env \<Rightarrow> u64 \<Rightarrow> u32 \<Rightarrow> int" where
  "wrap_write_u32 env address v =
     (if transport_is_hla env then target_write_u32 env address v
      else mem_ap_write_atomic_u32 env address v)"

definition wrap_read_u32 :: "tpiu_env \<Rightarrow> u64 \<Rightarrow> int \<times> u32" where
  "wrap_read_u32 env address =
     (if transport_is_hla env then target_read_u32 env address
      else mem_ap_read_atomic_u32 env address)"

section \<open>TPIU/SWO: enable\<close>

text \<open>The prescaler of the external capture with the UART or Manchester protocol, as
  \<open>handle_arm_tpiu_swo_enable\<close> computes it: the quotient is an \<open>unsigned int\<close>, the
  variable \<open>prescaler\<close> that receives it is a \<open>uint16_t\<close>, and the comparison with
  \<open>TPIU_ACPR_MAX_PRESCALER\<close> comes after the assignment.\<close>

definition external_prescaler :: "u32 \<Rightarrow> u32 \<Rightarrow> u16" where
  "external_prescaler traceclkin swo =
     (let prescaler = (ucast ((traceclkin + swo div 2) div swo) :: u16)
      in if TPIU_ACPR_MAX_PRESCALER < prescaler then TPIU_ACPR_MAX_PRESCALER else prescaler)"

text \<open>The result of a command: a fault, or the return value, the object as the command
  leaves it and the calls it made, in their order.\<close>

type_synonym tpiu_result = "tpiu_fault + int \<times> arm_tpiu_swo_object \<times> tpiu_effect list"

text \<open>The label \<open>error_exit\<close> of \<open>handle_arm_tpiu_swo_enable\<close>.\<close>

definition enable_error_exit ::
  "tpiu_env \<Rightarrow> int \<Rightarrow> arm_tpiu_swo_object \<Rightarrow> tpiu_effect list \<Rightarrow> tpiu_result" where
  "enable_error_exit env retval obj es =
     (if en_capture obj then
        (case arm_tpiu_swo_close_output (obj\<lparr>en_capture := False\<rparr>) of
           (obj1, es1) \<Rightarrow>
             Inr (retval, obj1,
                  es @ es1 @ [Unregister_timer, Config_trace_off (adapter_config_trace_off env)]))
      else Inr (retval, obj, es))"

text \<open>The last part of \<open>handle_arm_tpiu_swo_enable\<close>: the registers are written, the
  post-enable hook runs and the object becomes enabled.\<close>

definition enable_program ::
  "tpiu_env \<Rightarrow> u16 \<Rightarrow> arm_tpiu_swo_object \<Rightarrow> tpiu_effect list \<Rightarrow> tpiu_result" where
  "enable_program env prescaler obj es =
     (let cspsr = spot_base obj + TPIU_CSPSR_OFFSET;
          acpr = spot_base obj + TPIU_ACPR_OFFSET;
          sppr = spot_base obj + TPIU_SPPR_OFFSET;
          ffcr = spot_base obj + TPIU_FFCR_OFFSET;
          v1 = (ucast (BIT (unat (port_width obj - 1))) :: u32);
          v2 = (ucast prescaler - 1 :: u32);
          es1 = es @ [Write_u32 cspsr v1];
          es2 = es1 @ [Write_u32 acpr v2];
          es3 = es2 @ [Write_u32 sppr (pin_protocol obj)];
          es4 = es3 @ [Read_u32 ffcr];
          v4 = (if en_formatter obj then snd (wrap_read_u32 env ffcr) OR ucast (BIT 1)
                else snd (wrap_read_u32 env ffcr) AND NOT (ucast (BIT 1)));
          es5 = es4 @ [Write_u32 ffcr v4]
      in if wrap_write_u32 env cspsr v1 \<noteq> ERROR_OK
         then enable_error_exit env (wrap_write_u32 env cspsr v1) obj es1
         else if wrap_write_u32 env acpr v2 \<noteq> ERROR_OK
         then enable_error_exit env (wrap_write_u32 env acpr v2) obj es2
         else if wrap_write_u32 env sppr (pin_protocol obj) \<noteq> ERROR_OK
         then enable_error_exit env (wrap_write_u32 env sppr (pin_protocol obj)) obj es3
         else if fst (wrap_read_u32 env ffcr) \<noteq> ERROR_OK
         then enable_error_exit env (fst (wrap_read_u32 env ffcr)) obj es4
         else if wrap_write_u32 env ffcr v4 \<noteq> ERROR_OK
         then enable_error_exit env (wrap_write_u32 env ffcr v4) obj es5
         else
           (case arm_tpiu_swo_handle_event env obj TPIU_SWO_EVENT_POST_ENABLE of
              (retval, es6) \<Rightarrow>
                if retval \<noteq> ERROR_OK then enable_error_exit env retval obj (es5 @ es6)
                else Inr (ERROR_OK, obj\<lparr>enabled := True\<rparr>, es5 @ es6 @ [Trace_config_event])))"

text \<open>The adapter is started for the sink that has been set up: a failure of
  \<open>adapter_config_trace(true, ...)\<close>, or a pin frequency of 0 with the UART or Manchester
  protocol, closes the output and returns; otherwise the pin frequency of the adapter is
  stored, the timer callback is registered and \<open>en_capture\<close> is set.\<close>

definition enable_adapter ::
  "tpiu_env \<Rightarrow> arm_tpiu_swo_object \<Rightarrow> tpiu_effect list \<Rightarrow> tpiu_result" where
  "enable_adapter env obj es =
     (let async = (pin_protocol obj = TPIU_SPPR_PROTOCOL_MANCHESTER
                   \<or> pin_protocol obj = TPIU_SPPR_PROTOCOL_UART)
      in case adapter_config_trace_on env (pin_protocol obj) (port_width obj)
                (swo_pin_freq obj) (traceclkin_freq obj) of
           (retval, pin_freq, prescaler) \<Rightarrow>
             if retval \<noteq> ERROR_OK then
               (case arm_tpiu_swo_close_output obj of
                  (obj2, es2) \<Rightarrow> Inr (retval, obj2, es @ [Config_trace_on retval] @ es2))
             else if async \<and> pin_freq = 0 then
               (case arm_tpiu_swo_close_output obj of
                  (obj2, es2) \<Rightarrow> Inr (ERROR_FAIL, obj2, es @ [Config_trace_on retval] @ es2))
             else
               enable_program env prescaler
                 (obj\<lparr>swo_pin_freq := pin_freq, en_capture := True\<rparr>)
                 (es @ [Config_trace_on retval, Register_timer]))"

text \<open>The middle part: the sink is set up and the adapter started (when the output is
  not \<open>external\<close>), or the prescaler is computed (when it is, with the UART or
  Manchester protocol).\<close>

definition enable_capture ::
  "tpiu_env \<Rightarrow> bool \<Rightarrow> arm_tpiu_swo_object \<Rightarrow> tpiu_effect list \<Rightarrow> tpiu_result" where
  "enable_capture env output_external obj es =
     (let async = (pin_protocol obj = TPIU_SPPR_PROTOCOL_MANCHESTER
                   \<or> pin_protocol obj = TPIU_SPPR_PROTOCOL_UART)
      in if \<not> output_external then
           (let is_port = (case out_filename obj of [] \<Rightarrow> False | c # port \<Rightarrow> c = CHR '':'');
                port = tl (out_filename obj);
                is_file = (\<not> is_port \<and> out_filename obj \<noteq> ''-'')
            in if is_port \<and> \<not> malloc_ok env then Inr (ERROR_FAIL, obj, es)
               else if is_port \<and> add_service env port \<noteq> ERROR_OK
               then Inr (add_service env port, obj, es @ [Add_service port (add_service env port)])
               else if is_file \<and> fopen env (out_filename obj) = None
               then Inr (ERROR_FAIL, obj, es @ [Fopen (out_filename obj) None])
               else if is_port
               then enable_adapter env obj (es @ [Add_service port (add_service env port)])
               else if is_file
               then enable_adapter env (obj\<lparr>out_file := fopen env (out_filename obj)\<rparr>)
                      (es @ [Fopen (out_filename obj) (fopen env (out_filename obj))])
               else enable_adapter env obj es)
         else if async then
           (if swo_pin_freq obj = 0 then Inl Division_by_zero
            else
              (let prescaler = external_prescaler (traceclkin_freq obj) (swo_pin_freq obj)
               in if prescaler = 0 then Inl Division_by_zero
                  else enable_program env prescaler
                         (obj\<lparr>swo_pin_freq := traceclkin_freq obj div ucast prescaler\<rparr>) es))
         else enable_program env 1 obj es)"

text \<open>The part between the acquisition of the access port and the set-up of the
  sink: the pre-enable hook runs before any access to the TPIU, then the \<open>DEVID\<close>
  register is checked for the protocol and, with the synchronous protocol, the \<open>SSPSR\<close>
  register for the port width.\<close>

definition enable_probe ::
  "tpiu_env \<Rightarrow> bool \<Rightarrow> arm_tpiu_swo_object \<Rightarrow> tpiu_effect list \<Rightarrow> tpiu_result" where
  "enable_probe env output_external obj es =
     (let devid_reg = spot_base obj + TPIU_DEVID_OFFSET;
          sspsr_reg = spot_base obj + TPIU_SSPSR_OFFSET;
          devid = (ucast (snd (wrap_read_u32 env devid_reg)) :: u64);
          supported =
            (if pin_protocol obj = TPIU_SPPR_PROTOCOL_SYNC
             then devid AND TPIU_DEVID_NOSUPPORT_SYNC = 0
             else if pin_protocol obj = TPIU_SPPR_PROTOCOL_UART
             then devid AND TPIU_DEVID_SUPPORT_UART \<noteq> 0
             else if pin_protocol obj = TPIU_SPPR_PROTOCOL_MANCHESTER
             then devid AND TPIU_DEVID_SUPPORT_MANCHESTER \<noteq> 0
             else False);
          sspsr = (ucast (snd (wrap_read_u32 env sspsr_reg)) :: u64)
      in case arm_tpiu_swo_handle_event env obj TPIU_SWO_EVENT_PRE_ENABLE of
           (retval, es3) \<Rightarrow>
             if retval \<noteq> ERROR_OK then Inr (retval, obj, es @ es3)
             else if fst (wrap_read_u32 env devid_reg) \<noteq> ERROR_OK
             then Inr (fst (wrap_read_u32 env devid_reg), obj, es @ es3 @ [Read_u32 devid_reg])
             else if \<not> supported
             then Inr (ERROR_FAIL, obj, es @ es3 @ [Read_u32 devid_reg])
             else if pin_protocol obj = TPIU_SPPR_PROTOCOL_SYNC then
               (if fst (wrap_read_u32 env sspsr_reg) \<noteq> ERROR_OK
                then Inr (fst (wrap_read_u32 env sspsr_reg), obj,
                          es @ es3 @ [Read_u32 devid_reg, Read_u32 sspsr_reg])
                else if sspsr AND BIT (unat (port_width obj - 1)) = 0
                then Inr (ERROR_FAIL, obj,
                          es @ es3 @ [Read_u32 devid_reg, Read_u32 sspsr_reg])
                else enable_capture env output_external obj
                       (es @ es3 @ [Read_u32 devid_reg, Read_u32 sspsr_reg]))
             else enable_capture env output_external obj
                    (es @ es3 @ [Read_u32 devid_reg]))"

text \<open>\<open>handle_arm_tpiu_swo_enable\<close>, from its start to the acquisition of the access
  port.\<close>

definition handle_arm_tpiu_swo_enable :: "tpiu_env \<Rightarrow> arm_tpiu_swo_object \<Rightarrow> tpiu_result" where
  "handle_arm_tpiu_swo_enable env obj =
     (let output_external = (out_filename obj = ''external'');
          async = (pin_protocol obj = TPIU_SPPR_PROTOCOL_MANCHESTER
                   \<or> pin_protocol obj = TPIU_SPPR_PROTOCOL_UART);
          obj1 = (if recheck_ap_cur_target obj
                  then obj\<lparr>recheck_ap_cur_target := False, spot_ap_num := debug_ap_num env\<rparr>
                  else obj);
          obj2 = (if ap obj1 = None then obj1\<lparr>ap := dap_get_ap env (spot_ap_num obj1)\<rparr> else obj1);
          es2 = (if ap obj1 = None
                 then [Dap_get_ap (spot_ap_num obj1) (dap_get_ap env (spot_ap_num obj1))]
                 else [])
      in if cmd_argc env \<noteq> 0 then Inr (ERROR_COMMAND_SYNTAX_ERROR, obj, [])
         else if cmd_mode_config env then Inr (ERROR_OK, obj\<lparr>deferred_enable := True\<rparr>, [])
         else if enabled obj then Inr (ERROR_OK, obj, [])
         else if transport_is_hla env \<and> spot_ap_num obj \<noteq> 0 then Inr (ERROR_FAIL, obj, [])
         else if traceclkin_freq obj = 0 then Inr (ERROR_FAIL, obj, [])
         else if async \<and> swo_pin_freq obj = 0 \<and> output_external then Inr (ERROR_FAIL, obj, [])
         else if recheck_ap_cur_target obj \<and> target_type_name env \<noteq> ''cortex_m''
                 \<and> target_type_name env \<noteq> ''hla_target''
         then Inr (ERROR_FAIL, obj, [])
         else if recheck_ap_cur_target obj \<and> \<not> target_was_examined env
         then Inr (ERROR_FAIL, obj, [])
         else if ap obj2 = None then Inr (ERROR_FAIL, obj2, es2)
         else enable_probe env output_external obj2 es2)"

section \<open>TPIU/SWO: disable and cleanup\<close>






section \<open>TPIU/SWO: what a command holds when it returns\<close>

text \<open>The resources a sequence of calls leaves behind: files opened less files closed,
  services added (with success) less services removed, timer callbacks registered less
  those unregistered.\<close>

fun file_delta :: "tpiu_effect \<Rightarrow> int" where
  "file_delta (Fopen n (Some f)) = 1"
| "file_delta (Fclose f) = - 1"
| "file_delta e = 0"

fun service_delta :: "tpiu_effect \<Rightarrow> int" where
  "service_delta (Add_service p r) = (if r = ERROR_OK then 1 else 0)"
| "service_delta (Remove_service p) = - 1"
| "service_delta e = 0"

fun timer_delta :: "tpiu_effect \<Rightarrow> int" where
  "timer_delta Register_timer = 1"
| "timer_delta Unregister_timer = - 1"
| "timer_delta e = 0"

definition files_held :: "tpiu_effect list \<Rightarrow> int" where
  "files_held es = sum_list (map file_delta es)"

definition services_held :: "tpiu_effect list \<Rightarrow> int" where
  "services_held es = sum_list (map service_delta es)"

definition timers_held :: "tpiu_effect list \<Rightarrow> int" where
  "timers_held es = sum_list (map timer_delta es)"

text \<open>The calls that touch neither a resource nor the adapter: hooks, register
  accesses and the acquisition of the access port.\<close>

fun is_put_ap :: "tpiu_effect \<Rightarrow> bool" where
  "is_put_ap (Dap_put_ap a) = True"
| "is_put_ap e = False"

fun is_trace_off :: "tpiu_effect \<Rightarrow> bool" where
  "is_trace_off (Config_trace_off r) = True"
| "is_trace_off e = False"


section \<open>TPIU/SWO: example inputs\<close>

text \<open>An environment where every call succeeds, the TPIU reports all three protocols
  (\<open>DEVID = 0xC00\<close>) and every port width, and a hook fails exactly when its script is
  \<open>fail\<close>; and the object \<open>handle_arm_tpiu_swo_create\<close> makes before it reads the options, for
  the access port 0.\<close>

definition example_env :: tpiu_env where
  "example_env =
    \<lparr> cmd_argc = 0,
      cmd_mode_config = False,
      transport_is_hla = False,
      target_type_name = ''cortex_m'',
      target_was_examined = True,
      debug_ap_num = 0,
      dap_get_ap = (\<lambda>n. Some 1),
      jim_eval = (\<lambda>b. if b = ''fail'' then (JIM_ERR, 0) else (JIM_OK, 0)),
      target_read_u32 = (\<lambda>a. (ERROR_OK, 0)),
      mem_ap_read_atomic_u32 =
        (\<lambda>a. (ERROR_OK, if a = TPIU_SWO_DEFAULT_BASE + TPIU_DEVID_OFFSET then 0xC00
                          else 0xFFFFFFFF)),
      target_write_u32 = (\<lambda>a v. ERROR_OK),
      mem_ap_write_atomic_u32 = (\<lambda>a v. ERROR_OK),
      malloc_ok = True,
      add_service = (\<lambda>p. ERROR_OK),
      fopen = (\<lambda>n. Some 7),
      adapter_config_trace_on = (\<lambda>p w f c. (ERROR_OK, f, 1)),
      adapter_config_trace_off = ERROR_OK \<rparr>"

definition example_object :: arm_tpiu_swo_object where
  "example_object =
    \<lparr> spot_ap_num = 0,
      spot_base = TPIU_SWO_DEFAULT_BASE,
      ap = None,
      name = ''t'',
      event_action = [],
      deferred_enable = False,
      enabled = False,
      en_capture = False,
      port_width = 1,
      out_file = None,
      pin_protocol = 0,
      en_formatter = False,
      traceclkin_freq = 0,
      swo_pin_freq = 0,
      out_filename = ''external'',
      connections = [],
      recheck_ap_cur_target = False \<rparr>"


lemmas tpiu_defs =
  TPIU_PIN_PROTOCOL_SYNC_def TPIU_PIN_PROTOCOL_ASYNC_MANCHESTER_def
  TPIU_PIN_PROTOCOL_ASYNC_UART_def TPIU_SPPR_PROTOCOL_SYNC_def
  TPIU_SPPR_PROTOCOL_MANCHESTER_def TPIU_SPPR_PROTOCOL_UART_def
  TPIU_SWO_DEFAULT_BASE_def TPIU_SSPSR_OFFSET_def TPIU_CSPSR_OFFSET_def TPIU_ACPR_OFFSET_def
  TPIU_SPPR_OFFSET_def TPIU_FFCR_OFFSET_def TPIU_DEVID_OFFSET_def TPIU_ACPR_MAX_PRESCALER_def
  TPIU_DEVID_NOSUPPORT_SYNC_def TPIU_DEVID_SUPPORT_MANCHESTER_def TPIU_DEVID_SUPPORT_UART_def
  BIT_def ERROR_OK_def ERROR_FAIL_def ERROR_COMMAND_CLOSE_CONNECTION_def
  ERROR_COMMAND_SYNTAX_ERROR_def JIM_OK_def JIM_ERR_def JIM_RETURN_def

lemmas enable_defs =
  handle_arm_tpiu_swo_enable_def enable_probe_def enable_capture_def enable_adapter_def
  enable_program_def
  enable_error_exit_def
  arm_tpiu_swo_handle_event_def arm_tpiu_swo_close_output_def wrap_read_u32_def
  wrap_write_u32_def external_prescaler_def

section \<open>Semihosting: what a handler leaves alone\<close>

text \<open>The number of times \<open>post_result\<close> has been called, and the relation between the
  state a handler starts from and the state it ends in that every handler keeps: it
  does not call \<open>post_result\<close>, and where it leaves \<open>hit_fileio\<close> set without having
  found it set, it has not written \<open>result\<close>; a handler that ends in a \<open>return\<close> of its
  own leaves \<open>hit_fileio\<close> as it found it. \<open>same_request\<close> is the stronger relation the
  read and write helpers keep.\<close>

definition post_result_calls :: "target \<Rightarrow> nat" where
  "post_result_calls t = length (filter (\<lambda>e. e = Post_result) (effects t))"

definition frame_ok :: "target \<Rightarrow> semihosting \<Rightarrow> target \<Rightarrow> semihosting \<Rightarrow> bool" where
  "frame_ok t s t' s' =
     (post_result_calls t' = post_result_calls t
      \<and> (if hit_fileio s' then hit_fileio s \<or> result s' = result s else True))"

definition flow_frame :: "target \<Rightarrow> semihosting \<Rightarrow> flow \<Rightarrow> bool" where
  "flow_frame t s f =
     (case f of
        Break t' s' \<Rightarrow> frame_ok t s t' s'
      | Return retval t' s' \<Rightarrow> frame_ok t s t' s' \<and> hit_fileio s' = hit_fileio s
      | Exit code t' s' \<Rightarrow> frame_ok t s t' s'
      | Hang \<Rightarrow> True)"

definition same_request :: "target \<Rightarrow> semihosting \<Rightarrow> target \<Rightarrow> semihosting \<Rightarrow> bool" where
  "same_request t s t' s' =
     (post_result_calls t' = post_result_calls t \<and> hit_fileio s' = hit_fileio s
      \<and> result s' = result s)"

section \<open>Example inputs\<close>

text \<open>A target whose memory is one block of bytes at address \<open>0x1000\<close>, a 32-bit
  little-endian target with semihosting set up by \<open>semihosting_common_init\<close>, and a
  host where every call succeeds, except \<open>read\<close>, which fails with \<open>errno = 5\<close>.\<close>

definition memory_block :: "u64 \<Rightarrow> u8 list \<Rightarrow> u64 \<Rightarrow> u8 option" where
  "memory_block base bs =
     (\<lambda>a. if a - base < of_nat (length bs) then Some (bs ! unat (a - base)) else None)"

definition example_host :: host where
  "example_host =
    \<lparr> host_clock = 0,
      host_time = 0,
      host_malloc_ok = (\<lambda>n. True),
      host_close = (\<lambda>fd. (0, 0)),
      host_fstat = (\<lambda>fd. (0, 0, 10)),
      host_isatty = (\<lambda>fd. (1, 0)),
      host_dup = (\<lambda>fd. (fd + 10, 0)),
      host_open = (\<lambda>fn fl. (3, 0)),
      host_read = (\<lambda>fd sz. Inl 5),
      host_write = (\<lambda>fd buf sz. Inr (length buf)),
      host_remove = (\<lambda>fn. (0, 0)),
      host_rename = (\<lambda>a b. (0, 0)),
      host_lseek = (\<lambda>fd pos. (pos, 0)),
      host_system = (\<lambda>c. 0),
      host_getchar = 65,
      connection_read = (\<lambda>sz. Inl ()),
      connection_write = (\<lambda>b sz. Inr (length b)),
      gdb_get_actual_connections = 1,
      post_result = ERROR_OK,
      halted_callbacks = ERROR_OK,
      user_command_extension = None \<rparr>"

definition example_target :: "semihosting \<Rightarrow> u8 list \<Rightarrow> target" where
  "example_target s bs =
    \<lparr> semihosting = Some s,
      fileio_info = \<lparr>fio_identifier = [], param_1 = 0, param_2 = 0, param_3 = 0, param_4 = 0\<rparr>,
      little_endian = True,
      memory = memory_block 0x1000 bs,
      effects = [] \<rparr>"

definition example_semihosting :: "int \<Rightarrow> semihosting" where
  "example_semihosting opcode =
     (semihosting_common_init 0)
       \<lparr>is_active := True, word_size_bytes := 4, op := opcode, param := 0x1000\<rparr>"

lemmas example_defs =
  example_host_def example_target_def example_semihosting_def
  semihosting_common_init_def memory_block_def

section \<open>Semihosting: evaluation and frame lemmas\<close>

lemma read_bytes_numeral [simp]:
  "read_bytes mem addr (numeral k) =
     (case mem addr of
        None \<Rightarrow> None
      | Some b \<Rightarrow>
          (case read_bytes mem (addr + 1) (pred_numeral k) of
             None \<Rightarrow> None
           | Some bs \<Rightarrow> Some (b # bs)))"
  by (simp add: numeral_eq_Suc)

lemma read_fields_upd [simp]:
  "semihosting_read_fields t (s\<lparr>result := r, is_resumable := b\<rparr>) n
     = semihosting_read_fields t s n"
  by (simp add: semihosting_read_fields_def)

lemma get_field_upd [simp]:
  "semihosting_get_field t (s\<lparr>result := r, is_resumable := b\<rparr>) i flds
     = semihosting_get_field t s i flds"
  by (simp add: semihosting_get_field_def)

lemmas dispatch_defs =
  semihosting_common_def semihosting_switch_def semihosting_finish_def opcode_defs
  semihosting_read_fields_def semihosting_get_field_def target_read_memory_def
  target_buffer_get_u32_def target_read_buffer_def target_read_byte_def
  emit_def set_fileio_def ERROR_OK_def ERROR_FAIL_def Let_def

lemma posts_emit [simp]:
  "post_result_calls (emit e t) = (if e = Post_result then Suc (post_result_calls t) else post_result_calls t)"
  by (simp add: post_result_calls_def emit_def)

lemma posts_set_fileio [simp]: "post_result_calls (set_fileio t n a b c d) = post_result_calls t"
  by (simp add: post_result_calls_def set_fileio_def)

lemma posts_semihosting_upd [simp]: "post_result_calls (t\<lparr>semihosting := x\<rparr>) = post_result_calls t"
  by (simp add: post_result_calls_def)

lemma posts_write_buffer:
  "target_write_buffer t addr bs = Inr t' \<Longrightarrow> post_result_calls t' = post_result_calls t"
  by (auto simp: target_write_buffer_def post_result_calls_def split: option.splits)

lemma posts_write_fields:
  "semihosting_write_fields t s n flds = Inr t' \<Longrightarrow> post_result_calls t' = post_result_calls t"
  by (simp add: semihosting_write_fields_def posts_write_buffer)

lemma same_redirect_write:
  "semihosting_redirect_write h t s buf sz = (r, t', s') \<Longrightarrow> same_request t s t' s'"
  by (auto simp: semihosting_redirect_write_def same_request_def split: option.splits sum.splits)

lemma same_write:
  "semihosting_write h t s fd buf sz = (r, t', s') \<Longrightarrow> same_request t s t' s'"
  by (auto simp: semihosting_write_def same_request_def dest: same_redirect_write
      split: if_splits sum.splits)

lemma same_redirect_read:
  "semihosting_redirect_read h t s sz = (r, bs, t', s') \<Longrightarrow> same_request t s t' s'"
  by (auto simp: semihosting_redirect_read_def same_request_def split: option.splits sum.splits)

lemma same_read:
  "semihosting_read h t s fd sz = (r, bs, t', s') \<Longrightarrow> same_request t s t' s'"
  by (auto simp: semihosting_read_def same_request_def dest: same_redirect_read
      split: if_splits sum.splits)

lemma same_putchar:
  "semihosting_putchar h t s fd c = (t', s') \<Longrightarrow> same_request t s t' s'"
  by (auto simp: semihosting_putchar_def same_request_def dest: same_redirect_write
      split: if_splits prod.splits)

lemma same_getchar:
  "semihosting_getchar h t s fd = (c, t', s') \<Longrightarrow> same_request t s t' s'"
  by (auto simp: semihosting_getchar_def same_request_def dest: same_redirect_read
      split: if_splits prod.splits list.splits)

lemmas frame_defs = flow_frame_def frame_ok_def same_request_def

lemma frame_clock: "flow_frame t s (sys_clock h t s)"
  by (simp add: sys_clock_def frame_defs Let_def)

lemma frame_close: "flow_frame t s (sys_close h t s)"
  by (simp add: sys_close_def frame_defs Let_def split: sum.splits prod.splits)

lemma frame_errno: "flow_frame t s (sys_errno_op h t s)"
  by (simp add: sys_errno_op_def frame_defs)

lemma frame_exit_not_resumable: "flow_frame t s (exit_not_resumable h t s)"
  by (simp add: exit_not_resumable_def frame_defs)

lemma frame_exit_extended: "flow_frame t s (sys_exit_extended h t s)"
  using frame_exit_not_resumable [of t s h]
  by (simp add: sys_exit_extended_def frame_defs Let_def split: sum.splits)

lemma frame_exit: "flow_frame t s (sys_exit h t s)"
  using frame_exit_not_resumable [of t s h] frame_exit_extended [of t s h]
  by (simp add: sys_exit_def frame_defs)

lemma frame_flen: "flow_frame t s (sys_flen h t s)"
  by (simp add: sys_flen_def frame_defs Let_def split: sum.splits prod.splits)

lemma frame_get_cmdline: "flow_frame t s (sys_get_cmdline h t s)"
  by (auto simp: sys_get_cmdline_def frame_defs Let_def posts_write_buffer posts_write_fields
      split: sum.splits)

lemma frame_heapinfo: "flow_frame t s (sys_heapinfo h t s)"
  by (auto simp: sys_heapinfo_def frame_defs Let_def posts_write_buffer split: sum.splits)

lemma frame_iserror: "flow_frame t s (sys_iserror h t s)"
  by (simp add: sys_iserror_def frame_defs Let_def split: sum.splits)

lemma frame_istty: "flow_frame t s (sys_istty h t s)"
  by (simp add: sys_istty_def frame_defs Let_def split: sum.splits prod.splits)

lemma frame_open: "flow_frame t s (sys_open h t s)"
  by (simp add: sys_open_def frame_defs Let_def split: sum.splits prod.splits)

lemma frame_read: "flow_frame t s (sys_read h t s)"
  by (auto simp: sys_read_def frame_defs Let_def posts_write_buffer dest!: same_read
      split: sum.splits prod.splits)

lemma frame_readc: "flow_frame t s (sys_readc h t s)"
  by (auto simp: sys_readc_def frame_defs dest!: same_getchar split: prod.splits)

lemma frame_remove: "flow_frame t s (sys_remove h t s)"
  by (simp add: sys_remove_def frame_defs Let_def split: sum.splits prod.splits)

lemma frame_rename: "flow_frame t s (sys_rename h t s)"
  by (simp add: sys_rename_def frame_defs Let_def split: sum.splits prod.splits)

lemma frame_seek: "flow_frame t s (sys_seek h t s)"
  by (simp add: sys_seek_def frame_defs Let_def split: sum.splits prod.splits)

lemma frame_system: "flow_frame t s (sys_system h t s)"
  by (simp add: sys_system_def frame_defs Let_def split: sum.splits prod.splits)

lemma frame_time: "flow_frame t s (sys_time h t s)"
  by (simp add: sys_time_def frame_defs)

lemma frame_write: "flow_frame t s (sys_write h t s)"
  by (auto simp: sys_write_def frame_defs Let_def dest!: same_write
      split: sum.splits prod.splits)

lemma frame_writec: "flow_frame t s (sys_writec h t s)"
  by (auto simp: sys_writec_def frame_defs dest!: same_putchar split: sum.splits prod.splits)

lemma flow_frame_trans:
  "same_request t s t' s' \<Longrightarrow> flow_frame t' s' f \<Longrightarrow> flow_frame t s f"
  by (cases f) (auto simp: frame_defs)

lemma frame_write0_print: "flow_frame t s (write0_print h fuel addr t s)"
proof (induction h fuel addr t s rule: write0_print.induct)
  case (1 h fuel addr t s)
  show ?case
  proof (cases "fuel = 0")
    case True
    then show ?thesis by (simp add: write0_print.simps frame_defs)
  next
    case False
    note fuel = False
    show ?thesis
    proof (cases "target_read_byte t addr")
      case (Inl retval)
      then show ?thesis using fuel by (simp add: write0_print.simps [of h fuel] frame_defs)
    next
      case (Inr c)
      show ?thesis
      proof (cases "c = 0")
        case True
        then show ?thesis using fuel Inr by (simp add: write0_print.simps [of h fuel] frame_defs)
      next
        case False
        obtain t1 s1 where pc: "semihosting_putchar h t s (stdout_fd s) (ucast c) = (t1, s1)"
          by (cases "semihosting_putchar h t s (stdout_fd s) (ucast c)") auto
        have "flow_frame t1 s1 (write0_print h (fuel - 1) (addr + 1) t1 s1)"
          using "1.IH" [OF fuel Inr False] pc by simp
        with same_putchar [OF pc]
        have "flow_frame t s (write0_print h (fuel - 1) (addr + 1) t1 s1)"
          by (rule flow_frame_trans)
        then show ?thesis
          using fuel Inr False pc by (simp add: write0_print.simps [of h fuel])
      qed
    qed
  qed
qed

lemma frame_write0: "flow_frame t s (sys_write0 h t s)"
  using frame_write0_print [of t s h "2 ^ 64" "param s"]
  by (simp add: sys_write0_def frame_defs split: option.splits sum.splits)

lemma frame_user_cmd: "flow_frame t s (sys_user_cmd h t s)"
  by (simp add: sys_user_cmd_def frame_defs Let_def split: sum.splits option.splits)

lemma frame_unsupported: "flow_frame t s (sys_unsupported h t s)"
  by (simp add: sys_unsupported_def frame_defs)

lemma frame_switch: "flow_frame t s (semihosting_switch h t s)"
  by (simp add: semihosting_switch_def frame_clock frame_close frame_errno frame_exit
      frame_exit_extended frame_flen frame_get_cmdline frame_heapinfo frame_iserror frame_istty
      frame_open frame_read frame_readc frame_remove frame_rename frame_seek frame_system
      frame_time frame_write frame_writec frame_write0 frame_user_cmd frame_unsupported)

section \<open>Semihosting: the protected standard streams\<close>

text \<open>
  Claim C5. A \<open>SYS_CLOSE\<close> whose field, the file descriptor, is 0, 1 or 2 ends with
  \<open>result = 0\<close> in host mode and in file-I/O mode alike: the dispatcher returns with the
  structure changed in \<open>result\<close> (and \<open>is_resumable\<close>) only, so \<open>hit_fileio\<close> is what
  it was; \<open>fileio_info\<close> is untouched, so no \<open>close\<close> request is published; and the
  only call made is \<open>post_result\<close> (not even that when a file-I/O request was still
  pending), so the host's \<open>close\<close> is not called.
\<close>

theorem close_protects_stdio:
  assumes "semihosting t = Some s"
    and "op s = SEMIHOSTING_SYS_CLOSE"
    and "semihosting_read_fields t s 1 = Inr flds"
    and "semihosting_get_field t s 0 flds = fd"
    and "fd = 0 \<or> fd = 1 \<or> fd = 2"
  shows "semihosting_common h t =
           Returned (if hit_fileio s then ERROR_OK else post_result h)
             ((if hit_fileio s then t else emit Post_result t)
                \<lparr>semihosting := Some (s\<lparr>result := 0, is_resumable := True\<rparr>)\<rparr>)"
proof -
  have sw: "semihosting_switch h t (s\<lparr>result := - 1, is_resumable := True\<rparr>)
              = sys_close h t (s\<lparr>result := - 1, is_resumable := True\<rparr>)"
    using assms(2) by (simp add: semihosting_switch_def opcode_defs)
  have cl: "sys_close h t (s\<lparr>result := - 1, is_resumable := True\<rparr>)
              = Break t (s\<lparr>result := 0, is_resumable := True\<rparr>)"
    using assms(3,4,5) by (auto simp: sys_close_def)
  show ?thesis
    using assms(1) by (simp add: semihosting_common_def sw cl semihosting_finish_def ERROR_OK_def)
qed

theorem close_protects_stdio_witness:
  "semihosting (example_target (example_semihosting 2) [1, 0, 0, 0])
     = Some (example_semihosting 2)
   \<and> op (example_semihosting 2) = SEMIHOSTING_SYS_CLOSE
   \<and> semihosting_read_fields (example_target (example_semihosting 2) [1, 0, 0, 0])
        (example_semihosting 2) 1 = Inr [1, 0, 0, 0]
   \<and> semihosting_get_field (example_target (example_semihosting 2) [1, 0, 0, 0])
        (example_semihosting 2) 0 [1, 0, 0, 0] = 1
   \<and> (case semihosting_common example_host
              (example_target (example_semihosting 2) [1, 0, 0, 0]) of
         Returned retval t' \<Rightarrow>
           retval = ERROR_OK \<and> map_option result (semihosting t') = Some 0
           \<and> effects t' = [Post_result]
       | Exited c t' \<Rightarrow> False
       | Diverged \<Rightarrow> False)"
proof -
  have 1: "semihosting (example_target (example_semihosting 2) [1, 0, 0, 0])
             = Some (example_semihosting 2)"
    by (simp add: example_defs)
  have 2: "op (example_semihosting 2) = SEMIHOSTING_SYS_CLOSE"
    by (simp add: example_defs opcode_defs)
  have 3: "semihosting_read_fields (example_target (example_semihosting 2) [1, 0, 0, 0])
             (example_semihosting 2) 1 = Inr [1, 0, 0, 0]"
    by (simp add: example_defs semihosting_read_fields_def target_read_memory_def)
  have 4: "semihosting_get_field (example_target (example_semihosting 2) [1, 0, 0, 0])
             (example_semihosting 2) 0 [1, 0, 0, 0] = 1"
    by (simp add: example_defs semihosting_get_field_def target_buffer_get_u32_def)
  show ?thesis
    using close_protects_stdio [OF 1 2 3 4, of example_host] 1 2 3 4
    by (simp add: example_defs emit_def ERROR_OK_def)
qed

section \<open>Semihosting: the result that is posted\<close>

text \<open>
  Claim C6, as amended. For every trap that is dispatched, \<open>result\<close> is \<open>-1\<close> when the
  handler of the operation starts. When the handler leaves the \<open>switch\<close> through the
  common exit, the dispatcher returns and exactly one of the two holds: \<open>hit_fileio\<close> is
  set and \<open>post_result\<close> was not called, or \<open>hit_fileio\<close> is clear and \<open>post_result\<close> was
  called once. Whatever way the dispatcher returns, it has called \<open>post_result\<close> at most
  once, not at all when it leaves \<open>hit_fileio\<close> set, and a request it has just handed to
  the file-I/O channel still has \<open>result = -1\<close>. When the handler returns on its own, the
  dispatcher returns the handler's value with the structure as the handler left it:
  \<open>post_result\<close> has not been called and \<open>hit_fileio\<close> is what it was before the trap.
  \<open>SYS_READC\<close> in file-I/O mode returns so, with \<open>ERROR_FAIL\<close>, and so does \<open>SYS_EXIT\<close>
  on a 32-bit target without a resumable exit while a debugger is attached, with
  the value of the callbacks of the halt event.
\<close>

theorem dispatch_result_and_post:
  assumes "semihosting t = Some s"
  shows "(\<exists>s0. result s0 = - 1
            \<and> semihosting_common h t = semihosting_finish h (semihosting_switch h t s0))
    \<and> (\<forall>t1 s1. semihosting_switch h t (s\<lparr>result := - 1, is_resumable := True\<rparr>) = Break t1 s1 \<longrightarrow>
          (\<exists>retval t'. semihosting_common h t = Returned retval t'
             \<and> semihosting t' = Some s1
             \<and> post_result_calls t' = post_result_calls t + (if hit_fileio s1 then 0 else 1)))
    \<and> (\<forall>retval t' s'. semihosting_common h t = Returned retval t' \<and> semihosting t' = Some s' \<longrightarrow>
          post_result_calls t' \<le> post_result_calls t + 1
          \<and> (hit_fileio s' \<longrightarrow> post_result_calls t' = post_result_calls t)
          \<and> (hit_fileio s' \<and> \<not> hit_fileio s \<longrightarrow> result s' = - 1))
    \<and> (\<forall>retval t1 s1.
          semihosting_switch h t (s\<lparr>result := - 1, is_resumable := True\<rparr>) = Return retval t1 s1 \<longrightarrow>
            semihosting_common h t = Returned retval (t1\<lparr>semihosting := Some s1\<rparr>)
            \<and> post_result_calls (t1\<lparr>semihosting := Some s1\<rparr>) = post_result_calls t
            \<and> hit_fileio s1 = hit_fileio s)
    \<and> (op s = SEMIHOSTING_SYS_READC \<and> is_fileio s \<longrightarrow>
          semihosting_switch h t (s\<lparr>result := - 1, is_resumable := True\<rparr>)
            = Return ERROR_FAIL t (s\<lparr>result := - 1, is_resumable := True\<rparr>))
    \<and> (op s = SEMIHOSTING_SYS_EXIT \<and> word_size_bytes s \<noteq> 8
          \<and> gdb_get_actual_connections h \<noteq> 0 \<and> \<not> has_resumable_exit s \<longrightarrow>
          semihosting_switch h t (s\<lparr>result := - 1, is_resumable := True\<rparr>)
            = Return (halted_callbacks h) (emit Halted_event t)
                (s\<lparr>result := - 1, is_resumable := False\<rparr>))"
proof -
  let ?s0 = "s\<lparr>result := - 1, is_resumable := True\<rparr>"
  have common: "semihosting_common h t = semihosting_finish h (semihosting_switch h t ?s0)"
    using assms by (simp add: semihosting_common_def)
  have fr: "flow_frame t ?s0 (semihosting_switch h t ?s0)"
    by (rule frame_switch)
  have a: "\<exists>s0. result s0 = - 1
            \<and> semihosting_common h t = semihosting_finish h (semihosting_switch h t s0)"
    using common by (intro exI [of _ ?s0]) simp
  have b: "\<forall>t1 s1. semihosting_switch h t ?s0 = Break t1 s1 \<longrightarrow>
          (\<exists>retval t'. semihosting_common h t = Returned retval t'
             \<and> semihosting t' = Some s1
             \<and> post_result_calls t' = post_result_calls t + (if hit_fileio s1 then 0 else 1))"
    using fr by (auto simp: common semihosting_finish_def frame_defs)
  have c: "\<forall>retval t' s'. semihosting_common h t = Returned retval t' \<and> semihosting t' = Some s' \<longrightarrow>
          post_result_calls t' \<le> post_result_calls t + 1
          \<and> (hit_fileio s' \<longrightarrow> post_result_calls t' = post_result_calls t)
          \<and> (hit_fileio s' \<and> \<not> hit_fileio s \<longrightarrow> result s' = - 1)"
    using fr
    by (cases "semihosting_switch h t ?s0")
       (auto simp: common semihosting_finish_def frame_defs split: if_splits)
  have d: "\<forall>retval t1 s1. semihosting_switch h t ?s0 = Return retval t1 s1 \<longrightarrow>
            semihosting_common h t = Returned retval (t1\<lparr>semihosting := Some s1\<rparr>)
            \<and> post_result_calls (t1\<lparr>semihosting := Some s1\<rparr>) = post_result_calls t
            \<and> hit_fileio s1 = hit_fileio s"
    using fr by (auto simp: common semihosting_finish_def frame_defs)
  have e: "op s = SEMIHOSTING_SYS_READC \<and> is_fileio s \<longrightarrow>
          semihosting_switch h t ?s0 = Return ERROR_FAIL t ?s0"
    by (simp add: semihosting_switch_def opcode_defs sys_readc_def)
  have f: "op s = SEMIHOSTING_SYS_EXIT \<and> word_size_bytes s \<noteq> 8
          \<and> gdb_get_actual_connections h \<noteq> 0 \<and> \<not> has_resumable_exit s \<longrightarrow>
          semihosting_switch h t ?s0
            = Return (halted_callbacks h) (emit Halted_event t)
                (s\<lparr>result := - 1, is_resumable := False\<rparr>)"
    by (simp add: semihosting_switch_def opcode_defs sys_exit_def exit_not_resumable_def)
  from a b c d e f show ?thesis by (intro conjI)
qed

theorem dispatch_result_and_post_witness:
  "semihosting (example_target (example_semihosting 0x11) []) = Some (example_semihosting 0x11)
   \<and> semihosting_switch example_host (example_target (example_semihosting 0x11) [])
        ((example_semihosting 0x11)\<lparr>result := - 1, is_resumable := True\<rparr>)
       = Break (emit Host_time (example_target (example_semihosting 0x11) []))
           ((example_semihosting 0x11)\<lparr>result := 0, is_resumable := True\<rparr>)
   \<and> (case semihosting_common example_host (example_target (example_semihosting 0x11) []) of
         Returned retval t' \<Rightarrow>
           retval = ERROR_OK \<and> post_result_calls t' = 1
           \<and> map_option hit_fileio (semihosting t') = Some False
       | Exited c t' \<Rightarrow> False
       | Diverged \<Rightarrow> False)
   \<and> semihosting (example_target ((example_semihosting 7)\<lparr>is_fileio := True\<rparr>) [])
       = Some ((example_semihosting 7)\<lparr>is_fileio := True\<rparr>)
   \<and> op ((example_semihosting 7)\<lparr>is_fileio := True\<rparr>) = SEMIHOSTING_SYS_READC
   \<and> is_fileio ((example_semihosting 7)\<lparr>is_fileio := True\<rparr>)
   \<and> (case semihosting_common example_host
              (example_target ((example_semihosting 7)\<lparr>is_fileio := True\<rparr>) []) of
         Returned retval t' \<Rightarrow>
           retval = ERROR_FAIL \<and> post_result_calls t' = 0
           \<and> map_option hit_fileio (semihosting t') = Some False
       | Exited c t' \<Rightarrow> False
       | Diverged \<Rightarrow> False)"
proof -
  let ?r = "(example_semihosting 7)\<lparr>is_fileio := True\<rparr>"
  have 1: "semihosting (example_target (example_semihosting 0x11) []) = Some (example_semihosting 0x11)"
    by (simp add: example_defs)
  have 2: "semihosting (example_target ?r []) = Some ?r"
    by (simp add: example_defs)
  have 3: "op ?r = SEMIHOSTING_SYS_READC \<and> is_fileio ?r"
    by (simp add: example_defs opcode_defs)
  have 4: "semihosting_switch example_host (example_target ?r [])
             (?r\<lparr>result := - 1, is_resumable := True\<rparr>)
           = Return ERROR_FAIL (example_target ?r []) (?r\<lparr>result := - 1, is_resumable := True\<rparr>)"
    using dispatch_result_and_post [OF 2, of example_host] 3 by blast
  have 5: "semihosting_common example_host (example_target ?r [])
           = Returned ERROR_FAIL
               ((example_target ?r [])
                  \<lparr>semihosting := Some (?r\<lparr>result := - 1, is_resumable := True\<rparr>)\<rparr>)
         \<and> post_result_calls
               ((example_target ?r [])
                  \<lparr>semihosting := Some (?r\<lparr>result := - 1, is_resumable := True\<rparr>)\<rparr>)
             = post_result_calls (example_target ?r [])
         \<and> hit_fileio (?r\<lparr>result := - 1, is_resumable := True\<rparr>) = hit_fileio ?r"
    using dispatch_result_and_post [OF 2, of example_host] 4 by blast
  have 6: "case semihosting_common example_host (example_target ?r []) of
         Returned retval t' \<Rightarrow>
           retval = ERROR_FAIL \<and> post_result_calls t' = 0
           \<and> map_option hit_fileio (semihosting t') = Some False
       | Exited c t' \<Rightarrow> False
       | Diverged \<Rightarrow> False"
    using 5 by (simp add: example_defs post_result_calls_def)
  have 7: "semihosting_switch example_host (example_target (example_semihosting 0x11) [])
        ((example_semihosting 0x11)\<lparr>result := - 1, is_resumable := True\<rparr>)
       = Break (emit Host_time (example_target (example_semihosting 0x11) []))
           ((example_semihosting 0x11)\<lparr>result := 0, is_resumable := True\<rparr>)
   \<and> (case semihosting_common example_host (example_target (example_semihosting 0x11) []) of
         Returned retval t' \<Rightarrow>
           retval = ERROR_OK \<and> post_result_calls t' = 1
           \<and> map_option hit_fileio (semihosting t') = Some False
       | Exited c t' \<Rightarrow> False
       | Diverged \<Rightarrow> False)"
    using dispatch_result_and_post [OF 1, of example_host] 1
    by (simp add: example_defs dispatch_defs sys_time_def post_result_calls_def)
  from 1 2 3 6 7 show ?thesis by simp
qed

text \<open>
  Claim C6 fails as stated: \<open>SYS_EXIT\<close> (\<open>0x18\<close>) on a 32-bit target with a debugger
  attached and \<open>has_resumable_exit = false\<close> reports the halt and returns \<open>ERROR_OK\<close>
  with \<open>hit_fileio\<close> clear and without a call of \<open>post_result\<close>.
\<close>

theorem exit_posts_nothing_counterexample:
  "(case semihosting_common example_host
           (example_target ((example_semihosting 0x18)\<lparr>param := 0x20026\<rparr>) []) of
      Returned retval t' \<Rightarrow>
        retval = ERROR_OK \<and> effects t' = [Halted_event] \<and> post_result_calls t' = 0
        \<and> map_option hit_fileio (semihosting t') = Some False
        \<and> map_option result (semihosting t') = Some (- 1)
    | Exited c t' \<Rightarrow> False
    | Diverged \<Rightarrow> False)"
  by (simp add: example_defs dispatch_defs sys_exit_def exit_not_resumable_def
      ADP_STOPPED_APPLICATION_EXIT_def post_result_calls_def)

section \<open>Semihosting: the length of a file in file-I/O mode\<close>

text \<open>
  Claim C2 at a failing input: \<open>SYS_FLEN\<close> (\<open>0x0C\<close>) with \<open>is_fileio = true\<close> for the
  descriptor 3. The handler sets \<open>result = -1\<close> and \<open>sys_errno = EINVAL\<close> and goes on,
  there being no \<open>break\<close>: it calls the host's \<open>fstat\<close> for the descriptor, and the
  operation ends with the size of the host's file, 10, as its result.
\<close>

theorem flen_fileio_calls_fstat:
  "(case semihosting_common example_host
           (example_target ((example_semihosting 0x0C)\<lparr>is_fileio := True\<rparr>) [3, 0, 0, 0]) of
      Returned retval t' \<Rightarrow>
        retval = ERROR_OK \<and> effects t' = [Host_fstat 3, Post_result]
        \<and> map_option result (semihosting t') = Some 10
        \<and> map_option sys_errno (semihosting t') = Some EINVAL
    | Exited c t' \<Rightarrow> False
    | Diverged \<Rightarrow> False)"
  by (simp add: example_defs dispatch_defs sys_flen_def)

section \<open>Semihosting: the result of a read or a write\<close>

lemma is_redirected_upd [simp]:
  "semihosting_is_redirected (s\<lparr>result := r, is_resumable := b\<rparr>) fd = semihosting_is_redirected s fd"
  by (simp add: semihosting_is_redirected_def)

lemma switch_read:
  "op s = SEMIHOSTING_SYS_READ \<Longrightarrow> semihosting_switch h t s = sys_read h t s"
  by (simp add: semihosting_switch_def opcode_defs)

lemma switch_write:
  "op s = SEMIHOSTING_SYS_WRITE \<Longrightarrow> semihosting_switch h t s = sys_write h t s"
  by (simp add: semihosting_switch_def opcode_defs)

lemma switch_open:
  "op s = SEMIHOSTING_SYS_OPEN \<Longrightarrow> semihosting_switch h t s = sys_open h t s"
  by (simp add: semihosting_switch_def opcode_defs)

text \<open>
  Claim C1, as amended. A \<open>SYS_READ\<close> or \<open>SYS_WRITE\<close> whose three fields were read asks
  for \<open>len\<close> bytes. On the host (\<open>is_fileio = false\<close>, the buffer allocated and, for a
  write, the data read from the target) the result is \<open>len - n\<close> when the transfer
  returns a count \<open>n \<ge> 0\<close>; for a read that is once the bytes are in the target's
  memory, and when writing them there fails the dispatcher returns the error of the
  access with \<open>result = n\<close> and posts nothing. When the transfer returns a negative
  value, the result is that value, for a read and a write alike. The transfer returns
  \<open>-1\<close> with \<open>sys_errno\<close> set to the host's \<open>errno\<close> when the host's \<open>read\<close> or \<open>write\<close>
  fails, \<open>-1\<close> with \<open>sys_errno = EBADF\<close> when it is redirected and no client is attached,
  and \<open>-1\<close> with \<open>sys_errno\<close> left as it was when it is redirected and the connection
  to the client fails. In file-I/O mode the dispatcher hands the request over with
  \<open>param_3 = len\<close>, and \<open>semihosting_common_fileio_end\<close> sets the result to
  \<open>len - res\<close> for a reply \<open>res \<ge> 0\<close> and to \<open>len\<close> for a reply \<open>res < 0\<close>, for a
  read and a write alike; it clears \<open>hit_fileio\<close> and stores the \<open>errno\<close> of the reply in
  \<open>sys_errno\<close> exactly when that result is \<open>-1\<close>.
\<close>

theorem read_write_result:
  assumes sem: "semihosting t = Some s"
    and flds: "semihosting_read_fields t s 3 = Inr flds"
    and fd: "fd = ucast (semihosting_get_field t s 0 flds)"
    and addr: "addr = semihosting_get_field t s 1 flds"
    and len: "len = semihosting_get_field t s 2 flds"
    and s0: "s0 = s\<lparr>result := - 1, is_resumable := True\<rparr>"
  shows
    "(op s = SEMIHOSTING_SYS_READ \<and> \<not> is_fileio s \<and> host_malloc_ok h len \<longrightarrow>
        (\<forall>n buf t1 s1. semihosting_read h t s0 fd (ucast len) = (n, buf, t1, s1) \<longrightarrow>
           (0 \<le> sint n \<longrightarrow>
              (\<forall>t2. target_write_buffer t1 addr (take (unat n) buf) = Inr t2 \<longrightarrow>
                 semihosting_common h t
                   = semihosting_finish h (Break t2 (s1\<lparr>result := len - n\<rparr>)))
              \<and> (\<forall>retval. target_write_buffer t1 addr (take (unat n) buf) = Inl retval \<longrightarrow>
                   semihosting_common h t
                     = Returned retval (t1\<lparr>semihosting := Some (s1\<lparr>result := n\<rparr>)\<rparr>)))
           \<and> (sint n < 0 \<longrightarrow>
                 semihosting_common h t = semihosting_finish h (Break t1 (s1\<lparr>result := n\<rparr>)))))
   \<and> (op s = SEMIHOSTING_SYS_WRITE \<and> \<not> is_fileio s \<and> host_malloc_ok h len \<longrightarrow>
        (\<forall>buf n t1 s1.
           target_read_buffer t addr (unat len) = Inr buf
           \<and> semihosting_write h t s0 fd buf (ucast len) = (n, t1, s1) \<longrightarrow>
             (0 \<le> sint n \<longrightarrow>
                semihosting_common h t
                  = semihosting_finish h (Break t1 (s1\<lparr>result := len - n\<rparr>)))
             \<and> (sint n < 0 \<longrightarrow>
                   semihosting_common h t
                     = semihosting_finish h (Break t1 (s1\<lparr>result := n\<rparr>)))))
   \<and> (\<not> semihosting_is_redirected s fd \<longrightarrow>
        (\<forall>sz e. host_read h fd sz = Inl e \<longrightarrow>
           semihosting_read h t s0 fd sz
             = (- 1, [], emit (Host_read fd sz) t, s0\<lparr>sys_errno := e\<rparr>))
        \<and> (\<forall>buf sz e. host_write h fd buf sz = Inl e \<longrightarrow>
             semihosting_write h t s0 fd buf sz
               = (- 1, emit (Host_write fd buf sz) t, s0\<lparr>sys_errno := e\<rparr>)))
   \<and> (semihosting_is_redirected s fd \<and> tcp_connection s = None \<longrightarrow>
        (\<forall>sz. semihosting_read h t s0 fd sz = (- 1, [], t, s0\<lparr>sys_errno := EBADF\<rparr>))
        \<and> (\<forall>buf sz. semihosting_write h t s0 fd buf sz = (- 1, t, s0\<lparr>sys_errno := EBADF\<rparr>)))
   \<and> (semihosting_is_redirected s fd \<and> tcp_connection s \<noteq> None \<longrightarrow>
        (\<forall>sz u. connection_read h sz = Inl u \<longrightarrow>
           (\<exists>s1. semihosting_read h t s0 fd sz = (- 1, [], emit (Connection_read sz) t, s1)
              \<and> sys_errno s1 = sys_errno s))
        \<and> (\<forall>buf sz u. connection_write h buf sz = Inl u \<longrightarrow>
             semihosting_write h t s0 fd buf sz = (- 1, emit (Connection_write buf sz) t, s0)))
   \<and> ((op s = SEMIHOSTING_SYS_READ \<or> op s = SEMIHOSTING_SYS_WRITE) \<and> is_fileio s \<longrightarrow>
        (\<exists>t1. semihosting_common h t = Returned ERROR_OK t1
           \<and> semihosting t1 = Some (s0\<lparr>hit_fileio := True\<rparr>)
           \<and> param_3 (fileio_info t1) = len
           \<and> effects t1 = effects t
           \<and> (\<forall>res e c.
                 \<exists>t2 s2. semihosting_common_fileio_end h t1 res e c = (post_result h, t2)
                   \<and> semihosting t2 = Some s2
                   \<and> result s2 = (if sint res < 0 then len else len - scast res)
                   \<and> sys_errno s2 = (if result s2 = - 1 then e else sys_errno s)
                   \<and> \<not> hit_fileio s2)))"
proof -
  have common: "semihosting_common h t = semihosting_finish h (semihosting_switch h t s0)"
    using sem by (simp add: semihosting_common_def s0)
  have op0: "op s0 = op s" and fio0: "is_fileio s0 = is_fileio s"
    by (simp_all add: s0)
  have f0: "semihosting_read_fields t s0 3 = Inr flds"
    using flds by (simp add: s0)
  have g0: "\<And>i. semihosting_get_field t s0 i flds = semihosting_get_field t s i flds"
    by (simp add: s0)
  have a: "op s = SEMIHOSTING_SYS_READ \<and> \<not> is_fileio s \<and> host_malloc_ok h len \<longrightarrow>
        (\<forall>n buf t1 s1. semihosting_read h t s0 fd (ucast len) = (n, buf, t1, s1) \<longrightarrow>
           (0 \<le> sint n \<longrightarrow>
              (\<forall>t2. target_write_buffer t1 addr (take (unat n) buf) = Inr t2 \<longrightarrow>
                 semihosting_common h t
                   = semihosting_finish h (Break t2 (s1\<lparr>result := len - n\<rparr>)))
              \<and> (\<forall>retval. target_write_buffer t1 addr (take (unat n) buf) = Inl retval \<longrightarrow>
                   semihosting_common h t
                     = semihosting_finish h (Return retval t1 (s1\<lparr>result := n\<rparr>))))
           \<and> (sint n < 0 \<longrightarrow>
                 semihosting_common h t = semihosting_finish h (Break t1 (s1\<lparr>result := n\<rparr>))))"
    using f0 by (simp add: common switch_read op0 fio0 sys_read_def g0 fd addr len)
  have fin: "\<And>retval t1 s1. semihosting_finish h (Return retval t1 s1)
                = Returned retval (t1\<lparr>semihosting := Some s1\<rparr>)"
    by (simp add: semihosting_finish_def)
  have b: "op s = SEMIHOSTING_SYS_WRITE \<and> \<not> is_fileio s \<and> host_malloc_ok h len \<longrightarrow>
        (\<forall>buf n t1 s1.
           target_read_buffer t addr (unat len) = Inr buf
           \<and> semihosting_write h t s0 fd buf (ucast len) = (n, t1, s1) \<longrightarrow>
             (0 \<le> sint n \<longrightarrow>
                semihosting_common h t
                  = semihosting_finish h (Break t1 (s1\<lparr>result := len - n\<rparr>)))
             \<and> (sint n < 0 \<longrightarrow>
                   semihosting_common h t
                     = semihosting_finish h (Break t1 (s1\<lparr>result := n\<rparr>))))"
    using f0 by (simp add: common switch_write op0 fio0 sys_write_def g0 fd addr len)
  have c: "\<not> semihosting_is_redirected s fd \<longrightarrow>
        (\<forall>sz e. host_read h fd sz = Inl e \<longrightarrow>
           semihosting_read h t s0 fd sz
             = (- 1, [], emit (Host_read fd sz) t, s0\<lparr>sys_errno := e\<rparr>))
        \<and> (\<forall>buf sz e. host_write h fd buf sz = Inl e \<longrightarrow>
             semihosting_write h t s0 fd buf sz
               = (- 1, emit (Host_write fd buf sz) t, s0\<lparr>sys_errno := e\<rparr>))"
    by (simp add: s0 semihosting_read_def semihosting_write_def)
  have c2: "semihosting_is_redirected s fd \<and> tcp_connection s = None \<longrightarrow>
        (\<forall>sz. semihosting_read h t s0 fd sz = (- 1, [], t, s0\<lparr>sys_errno := EBADF\<rparr>))
        \<and> (\<forall>buf sz. semihosting_write h t s0 fd buf sz = (- 1, t, s0\<lparr>sys_errno := EBADF\<rparr>))"
    by (simp add: s0 semihosting_read_def semihosting_write_def semihosting_redirect_read_def
        semihosting_redirect_write_def)
  have c3: "semihosting_is_redirected s fd \<and> tcp_connection s \<noteq> None \<longrightarrow>
        (\<forall>sz u. connection_read h sz = Inl u \<longrightarrow>
           (\<exists>s1. semihosting_read h t s0 fd sz = (- 1, [], emit (Connection_read sz) t, s1)
              \<and> sys_errno s1 = sys_errno s))
        \<and> (\<forall>buf sz u. connection_write h buf sz = Inl u \<longrightarrow>
             semihosting_write h t s0 fd buf sz = (- 1, emit (Connection_write buf sz) t, s0))"
    by (auto simp: s0 semihosting_read_def semihosting_write_def semihosting_redirect_read_def
        semihosting_redirect_write_def)
  have d: "(op s = SEMIHOSTING_SYS_READ \<or> op s = SEMIHOSTING_SYS_WRITE) \<and> is_fileio s \<longrightarrow>
        (\<exists>t1. semihosting_common h t = Returned ERROR_OK t1
           \<and> semihosting t1 = Some (s0\<lparr>hit_fileio := True\<rparr>)
           \<and> param_3 (fileio_info t1) = len
           \<and> effects t1 = effects t
           \<and> (\<forall>res e c.
                 \<exists>t2 s2. semihosting_common_fileio_end h t1 res e c = (post_result h, t2)
                   \<and> semihosting t2 = Some s2
                   \<and> result s2 = (if sint res < 0 then len else len - scast res)
                   \<and> sys_errno s2 = (if result s2 = - 1 then e else sys_errno s)
                   \<and> \<not> hit_fileio s2))"
  proof (intro impI, elim conjE)
    assume rw: "op s = SEMIHOSTING_SYS_READ \<or> op s = SEMIHOSTING_SYS_WRITE" and fio: "is_fileio s"
    define nm where "nm = (if op s = SEMIHOSTING_SYS_READ then ''read'' else ''write'')"
    define t1 where
      "t1 = (set_fileio t nm (scast fd) addr len (param_4 (fileio_info t)))
              \<lparr>semihosting := Some (s0\<lparr>hit_fileio := True\<rparr>)\<rparr>"
    have sw: "semihosting_switch h t s0
                = Break (set_fileio t nm (scast fd) addr len (param_4 (fileio_info t)))
                    (s0\<lparr>hit_fileio := True\<rparr>)"
      using rw fio f0
      by (auto simp: switch_read switch_write op0 fio0 sys_read_def sys_write_def g0 fd addr len
          nm_def opcode_defs)
    have 1: "semihosting_common h t = Returned ERROR_OK t1"
      by (simp add: common sw semihosting_finish_def t1_def)
    have 2: "semihosting t1 = Some (s0\<lparr>hit_fileio := True\<rparr>)"
      by (simp add: t1_def)
    have 3: "param_3 (fileio_info t1) = len" "effects t1 = effects t"
      by (simp_all add: t1_def set_fileio_def)
    have ops: "op s \<noteq> SEMIHOSTING_SYS_ISTTY" "op s \<noteq> SEMIHOSTING_SYS_RENAME"
      "op s \<noteq> SEMIHOSTING_SYS_SEEK"
      using rw by (auto simp: opcode_defs)
    have 4: "\<exists>t2 s2. semihosting_common_fileio_end h t1 res e c = (post_result h, t2)
                   \<and> semihosting t2 = Some s2
                   \<and> result s2 = (if sint res < 0 then len else len - scast res)
                   \<and> sys_errno s2 = (if result s2 = - 1 then e else sys_errno s)
                   \<and> \<not> hit_fileio s2" for res e c
      using rw 2 3(1) ops by (auto simp: semihosting_common_fileio_end_def Let_def op0 s0)
    from 1 2 3 4 show "\<exists>t1. semihosting_common h t = Returned ERROR_OK t1
           \<and> semihosting t1 = Some (s0\<lparr>hit_fileio := True\<rparr>)
           \<and> param_3 (fileio_info t1) = len
           \<and> effects t1 = effects t
           \<and> (\<forall>res e c.
                 \<exists>t2 s2. semihosting_common_fileio_end h t1 res e c = (post_result h, t2)
                   \<and> semihosting t2 = Some s2
                   \<and> result s2 = (if sint res < 0 then len else len - scast res)
                   \<and> sys_errno s2 = (if result s2 = - 1 then e else sys_errno s)
                   \<and> \<not> hit_fileio s2)"
      by blast
  qed
  from a [unfolded fin] b c c2 c3 d show ?thesis by (intro conjI)
qed

theorem read_write_result_witness:
  "semihosting (example_target (example_semihosting 5)
        [1, 0, 0, 0, 0x0C, 0x10, 0, 0, 2, 0, 0, 0, 0x68, 0x69]) = Some (example_semihosting 5)
   \<and> semihosting_read_fields
        (example_target (example_semihosting 5)
           [1, 0, 0, 0, 0x0C, 0x10, 0, 0, 2, 0, 0, 0, 0x68, 0x69])
        (example_semihosting 5) 3
       = Inr [1, 0, 0, 0, 0x0C, 0x10, 0, 0, 2, 0, 0, 0]
   \<and> op (example_semihosting 5) = SEMIHOSTING_SYS_WRITE
   \<and> \<not> is_fileio (example_semihosting 5)
   \<and> host_malloc_ok example_host 2
   \<and> target_read_buffer
        (example_target (example_semihosting 5)
           [1, 0, 0, 0, 0x0C, 0x10, 0, 0, 2, 0, 0, 0, 0x68, 0x69]) 0x100C 2
       = Inr [0x68, 0x69]
   \<and> (case semihosting_common example_host
              (example_target (example_semihosting 5)
                 [1, 0, 0, 0, 0x0C, 0x10, 0, 0, 2, 0, 0, 0, 0x68, 0x69]) of
         Returned retval t' \<Rightarrow>
           retval = ERROR_OK \<and> effects t' = [Host_write 1 [0x68, 0x69] 2, Post_result]
           \<and> map_option result (semihosting t') = Some 0
       | Exited c t' \<Rightarrow> False
       | Diverged \<Rightarrow> False)
   \<and> is_fileio ((example_semihosting 6)\<lparr>is_fileio := True\<rparr>)
   \<and> (case semihosting_common example_host
              (example_target ((example_semihosting 6)\<lparr>is_fileio := True\<rparr>)
                 [0, 0, 0, 0, 0x0C, 0x10, 0, 0, 2, 0, 0, 0, 0, 0]) of
         Returned retval t1 \<Rightarrow>
           retval = ERROR_OK
           \<and> map_option result
                (semihosting (snd (semihosting_common_fileio_end example_host t1 1 0 False)))
               = Some 1
       | Exited c t' \<Rightarrow> False
       | Diverged \<Rightarrow> False)"
proof -
  let ?m = "[1, 0, 0, 0, 0x0C, 0x10, 0, 0, 2, 0, 0, 0, 0x68, 0x69] :: u8 list"
  let ?s = "example_semihosting 5"
  let ?t = "example_target ?s ?m"
  let ?u = "?s\<lparr>result := - 1, is_resumable := True\<rparr>"
  let ?m' = "[0, 0, 0, 0, 0x0C, 0x10, 0, 0, 2, 0, 0, 0, 0, 0] :: u8 list"
  let ?s' = "(example_semihosting 6)\<lparr>is_fileio := True\<rparr>"
  let ?t' = "example_target ?s' ?m'"
  have 1: "semihosting ?t = Some ?s"
    by (simp add: example_defs)
  have 2: "semihosting_read_fields ?t ?s 3 = Inr (take 12 ?m)"
    by (simp add: example_defs semihosting_read_fields_def target_read_memory_def)
  have 3: "(1 :: c_int) = ucast (semihosting_get_field ?t ?s 0 (take 12 ?m))"
    by (simp add: example_defs semihosting_get_field_def target_buffer_get_u32_def)
  have 4: "(0x100C :: u64) = semihosting_get_field ?t ?s 1 (take 12 ?m)"
    by (simp add: example_defs semihosting_get_field_def target_buffer_get_u32_def)
  have 5: "(2 :: u64) = semihosting_get_field ?t ?s 2 (take 12 ?m)"
    by (simp add: example_defs semihosting_get_field_def target_buffer_get_u32_def)
  have 6: "op ?s = SEMIHOSTING_SYS_WRITE \<and> \<not> is_fileio ?s \<and> host_malloc_ok example_host 2"
    by (simp add: example_defs opcode_defs)
  have 7: "target_read_buffer ?t 0x100C 2 = Inr [0x68, 0x69]"
    by (simp add: example_defs target_read_buffer_def target_read_memory_def)
  have 8: "semihosting_write example_host ?t ?u 1 [0x68, 0x69] 2
             = (2, emit (Host_write 1 [0x68, 0x69] 2) ?t, ?u)"
    by (simp add: example_defs semihosting_write_def semihosting_is_redirected_def)
  have w: "semihosting_common example_host ?t
             = semihosting_finish example_host
                 (Break (emit (Host_write 1 [0x68, 0x69] 2) ?t) (?u\<lparr>result := 2 - 2\<rparr>))"
    using read_write_result [OF 1 2 3 4 5 refl, of example_host] 6 7 8 by simp
  have f1: "semihosting ?t' = Some ?s'"
    by (simp add: example_defs)
  have f2: "semihosting_read_fields ?t' ?s' 3 = Inr (take 12 ?m')"
    by (simp add: example_defs semihosting_read_fields_def target_read_memory_def)
  have f3: "(0 :: c_int) = ucast (semihosting_get_field ?t' ?s' 0 (take 12 ?m'))"
    by (simp add: example_defs semihosting_get_field_def target_buffer_get_u32_def)
  have f4: "(0x100C :: u64) = semihosting_get_field ?t' ?s' 1 (take 12 ?m')"
    by (simp add: example_defs semihosting_get_field_def target_buffer_get_u32_def)
  have f5: "(2 :: u64) = semihosting_get_field ?t' ?s' 2 (take 12 ?m')"
    by (simp add: example_defs semihosting_get_field_def target_buffer_get_u32_def)
  have f6: "(op ?s' = SEMIHOSTING_SYS_READ \<or> op ?s' = SEMIHOSTING_SYS_WRITE) \<and> is_fileio ?s'"
    by (simp add: example_defs opcode_defs)
  obtain t1 where r: "semihosting_common example_host ?t' = Returned ERROR_OK t1"
    and e: "\<forall>res e c. \<exists>t2 s2.
              semihosting_common_fileio_end example_host t1 res e c = (post_result example_host, t2)
              \<and> semihosting t2 = Some s2
              \<and> result s2 = (if sint res < 0 then 2 else 2 - scast res)
              \<and> sys_errno s2 = (if result s2 = - 1 then e else sys_errno ?s')
              \<and> \<not> hit_fileio s2"
    using read_write_result [OF f1 f2 f3 f4 f5 refl, of example_host, THEN conjunct2,
        THEN conjunct2, THEN conjunct2, THEN conjunct2, THEN conjunct2, rule_format, OF f6]
    by blast
  from e obtain t2 s2 where
    "semihosting_common_fileio_end example_host t1 1 0 False = (post_result example_host, t2)"
    "semihosting t2 = Some s2" "result s2 = (if sint (1 :: c_int) < 0 then 2 else 2 - scast (1 :: c_int))"
    by blast
  then have f: "map_option result
                  (semihosting (snd (semihosting_common_fileio_end example_host t1 1 0 False)))
                = Some 1"
    by simp
  show ?thesis
    using 1 2 6 7 w r f
    by (simp add: semihosting_finish_def example_defs emit_def ERROR_OK_def)
qed

text \<open>
  Claim C1 fails as stated, in both halves of its error case: a \<open>SYS_READ\<close> of 2 bytes
  on the host whose \<open>read\<close> fails ends with \<open>result = -1\<close> (and \<open>sys_errno = 5\<close>), not
  with the requested length 2; a \<open>SYS_WRITE\<close> of 2 bytes in file-I/O mode whose reply
  is \<open>-1\<close> with \<open>errno = 9\<close> ends with \<open>result = 2\<close>, not \<open>-1\<close>, and \<open>sys_errno\<close> is left
  as it was.
\<close>

theorem read_write_failure_counterexample:
  "(case semihosting_common example_host
           (example_target (example_semihosting 6)
              [0, 0, 0, 0, 0x0C, 0x10, 0, 0, 2, 0, 0, 0, 0, 0]) of
      Returned retval t' \<Rightarrow>
        retval = ERROR_OK \<and> effects t' = [Host_read 0 2, Post_result]
        \<and> map_option result (semihosting t') = Some (- 1)
        \<and> map_option result (semihosting t') \<noteq> Some 2
        \<and> map_option sys_errno (semihosting t') = Some 5
    | Exited c t' \<Rightarrow> False
    | Diverged \<Rightarrow> False)
   \<and> (case semihosting_common example_host
              (example_target ((example_semihosting 5)\<lparr>is_fileio := True\<rparr>)
                 [1, 0, 0, 0, 0x0C, 0x10, 0, 0, 2, 0, 0, 0, 0x68, 0x69]) of
         Returned retval t1 \<Rightarrow>
           retval = ERROR_OK
           \<and> map_option result
                (semihosting (snd (semihosting_common_fileio_end example_host t1 (- 1) 9 False)))
               = Some 2
           \<and> map_option sys_errno
                (semihosting (snd (semihosting_common_fileio_end example_host t1 (- 1) 9 False)))
               = Some (- 1)
       | Exited c t' \<Rightarrow> False
       | Diverged \<Rightarrow> False)"
  by (simp add: example_defs dispatch_defs sys_read_def sys_write_def semihosting_read_def
      semihosting_is_redirected_def semihosting_common_fileio_end_def)

section \<open>Semihosting: a redirected transfer without a client\<close>

text \<open>
  Claim C10, as amended. Take a \<open>SYS_READ\<close> or \<open>SYS_WRITE\<close> whose three fields were
  read and that is redirected (\<open>semihosting_is_redirected\<close>: \<open>redirect_cfg\<close> is
  \<open>STDIO\<close> or \<open>ALL\<close> and the descriptor is \<open>stdin_fd\<close> for a read, \<open>stdout_fd\<close> or
  \<open>stderr_fd\<close> for a write) while \<open>tcp_connection\<close> is NULL. Executed on the host
  (\<open>is_fileio = false\<close>) with its buffer allocated and, for a write, its data read from
  the target, it ends with \<open>result = -1\<close> and \<open>sys_errno = EBADF\<close>; nothing else of the
  structure changes, and the only call made is \<open>post_result\<close>: no host \<open>read\<close> or
  \<open>write\<close>, no traffic on a connection. In file-I/O mode it is handed to the frontend
  as a \<open>read\<close> or \<open>write\<close> request with the descriptor, the address and the length of
  the fields: \<open>hit_fileio\<close> is set, \<open>result\<close> stays \<open>-1\<close>, \<open>sys_errno\<close> is not touched and
  no call is made, the redirection playing no part.
\<close>

theorem redirect_without_client:
  assumes "semihosting t = Some s"
    and "op s = SEMIHOSTING_SYS_READ \<or> op s = SEMIHOSTING_SYS_WRITE"
    and "semihosting_read_fields t s 3 = Inr flds"
    and "fd = ucast (semihosting_get_field t s 0 flds)"
    and "addr = semihosting_get_field t s 1 flds"
    and "len = semihosting_get_field t s 2 flds"
    and "semihosting_is_redirected s fd"
    and "tcp_connection s = None"
  shows "(\<not> is_fileio s \<and> host_malloc_ok h len
          \<and> (op s = SEMIHOSTING_SYS_WRITE \<longrightarrow> target_read_buffer t addr (unat len) = Inr buf) \<longrightarrow>
          semihosting_common h t =
            Returned (if hit_fileio s then ERROR_OK else post_result h)
              ((if hit_fileio s then t else emit Post_result t)
                 \<lparr>semihosting :=
                    Some (s\<lparr>result := - 1, is_resumable := True, sys_errno := EBADF\<rparr>)\<rparr>))
    \<and> (is_fileio s \<longrightarrow>
          semihosting_common h t =
            Returned ERROR_OK
              ((set_fileio t (if op s = SEMIHOSTING_SYS_READ then ''read'' else ''write'')
                  (scast fd) addr len (param_4 (fileio_info t)))
                 \<lparr>semihosting :=
                    Some (s\<lparr>result := - 1, is_resumable := True, hit_fileio := True\<rparr>)\<rparr>))"
proof -
  let ?s0 = "s\<lparr>result := - 1, is_resumable := True\<rparr>"
  have common: "semihosting_common h t = semihosting_finish h (semihosting_switch h t ?s0)"
    using assms(1) by (simp add: semihosting_common_def)
  have host: "semihosting_switch h t ?s0 = Break t (?s0\<lparr>sys_errno := EBADF\<rparr>)"
    if "\<not> is_fileio s" and "host_malloc_ok h len"
      and "op s = SEMIHOSTING_SYS_WRITE \<longrightarrow> target_read_buffer t addr (unat len) = Inr buf"
  proof (cases "op s = SEMIHOSTING_SYS_READ")
    case True
    then show ?thesis
      using assms(3-8) that
      by (simp add: switch_read sys_read_def semihosting_read_def semihosting_redirect_read_def)
  next
    case False
    with assms(2) have w: "op s = SEMIHOSTING_SYS_WRITE" by simp
    then show ?thesis
      using assms(3-8) that
      by (simp add: switch_write sys_write_def semihosting_write_def semihosting_redirect_write_def)
  qed
  have fileio: "semihosting_switch h t ?s0
        = Break (set_fileio t (if op s = SEMIHOSTING_SYS_READ then ''read'' else ''write'')
                   (scast fd) addr len (param_4 (fileio_info t)))
            (?s0\<lparr>hit_fileio := True\<rparr>)"
    if "is_fileio s"
    using assms(2-6) that
    by (auto simp: switch_read switch_write sys_read_def sys_write_def opcode_defs)
  have a: "\<not> is_fileio s \<and> host_malloc_ok h len
          \<and> (op s = SEMIHOSTING_SYS_WRITE \<longrightarrow> target_read_buffer t addr (unat len) = Inr buf) \<longrightarrow>
          semihosting_common h t =
            Returned (if hit_fileio s then ERROR_OK else post_result h)
              ((if hit_fileio s then t else emit Post_result t)
                 \<lparr>semihosting :=
                    Some (s\<lparr>result := - 1, is_resumable := True, sys_errno := EBADF\<rparr>)\<rparr>)"
    using host by (simp add: common semihosting_finish_def ERROR_OK_def)
  have b: "is_fileio s \<longrightarrow>
          semihosting_common h t =
            Returned ERROR_OK
              ((set_fileio t (if op s = SEMIHOSTING_SYS_READ then ''read'' else ''write'')
                  (scast fd) addr len (param_4 (fileio_info t)))
                 \<lparr>semihosting :=
                    Some (s\<lparr>result := - 1, is_resumable := True, hit_fileio := True\<rparr>)\<rparr>)"
    using fileio by (simp add: common semihosting_finish_def)
  from a b show ?thesis by (intro conjI)
qed

theorem redirect_without_client_witness:
  "semihosting (example_target
        ((example_semihosting 5)\<lparr>redirect_cfg := SEMIHOSTING_REDIRECT_CFG_ALL, stdout_fd := 1\<rparr>)
        [1, 0, 0, 0, 0x0C, 0x10, 0, 0, 2, 0, 0, 0, 0x68, 0x69])
     = Some ((example_semihosting 5)\<lparr>redirect_cfg := SEMIHOSTING_REDIRECT_CFG_ALL, stdout_fd := 1\<rparr>)
   \<and> semihosting_is_redirected
        ((example_semihosting 5)\<lparr>redirect_cfg := SEMIHOSTING_REDIRECT_CFG_ALL, stdout_fd := 1\<rparr>) 1
   \<and> (case semihosting_common example_host
              (example_target
                 ((example_semihosting 5)\<lparr>redirect_cfg := SEMIHOSTING_REDIRECT_CFG_ALL, stdout_fd := 1\<rparr>)
                 [1, 0, 0, 0, 0x0C, 0x10, 0, 0, 2, 0, 0, 0, 0x68, 0x69]) of
         Returned retval t' \<Rightarrow>
           retval = ERROR_OK \<and> effects t' = [Post_result]
           \<and> map_option result (semihosting t') = Some (- 1)
           \<and> map_option sys_errno (semihosting t') = Some EBADF
       | Exited c t' \<Rightarrow> False
       | Diverged \<Rightarrow> False)
   \<and> semihosting_is_redirected
        ((example_semihosting 6)
           \<lparr>redirect_cfg := SEMIHOSTING_REDIRECT_CFG_ALL, stdin_fd := 0, is_fileio := True\<rparr>) 0
   \<and> is_fileio
        ((example_semihosting 6)
           \<lparr>redirect_cfg := SEMIHOSTING_REDIRECT_CFG_ALL, stdin_fd := 0, is_fileio := True\<rparr>)
   \<and> (case semihosting_common example_host
              (example_target
                 ((example_semihosting 6)
                    \<lparr>redirect_cfg := SEMIHOSTING_REDIRECT_CFG_ALL, stdin_fd := 0, is_fileio := True\<rparr>)
                 [0, 0, 0, 0, 0x0C, 0x10, 0, 0, 2, 0, 0, 0, 0, 0]) of
         Returned retval t' \<Rightarrow>
           retval = ERROR_OK \<and> effects t' = []
           \<and> fio_identifier (fileio_info t') = ''read''
           \<and> param_1 (fileio_info t') = 0 \<and> param_2 (fileio_info t') = 0x100C
           \<and> param_3 (fileio_info t') = 2
           \<and> map_option hit_fileio (semihosting t') = Some True
           \<and> map_option result (semihosting t') = Some (- 1)
           \<and> map_option sys_errno (semihosting t') = Some (- 1)
       | Exited c t' \<Rightarrow> False
       | Diverged \<Rightarrow> False)"
proof -
  let ?s = "(example_semihosting 5)\<lparr>redirect_cfg := SEMIHOSTING_REDIRECT_CFG_ALL, stdout_fd := 1\<rparr>"
  let ?m = "[1, 0, 0, 0, 0x0C, 0x10, 0, 0, 2, 0, 0, 0, 0x68, 0x69] :: u8 list"
  let ?t = "example_target ?s ?m"
  let ?r = "(example_semihosting 6)
              \<lparr>redirect_cfg := SEMIHOSTING_REDIRECT_CFG_ALL, stdin_fd := 0, is_fileio := True\<rparr>"
  let ?n = "[0, 0, 0, 0, 0x0C, 0x10, 0, 0, 2, 0, 0, 0, 0, 0] :: u8 list"
  let ?u = "example_target ?r ?n"
  have 1: "semihosting ?t = Some ?s"
    by (simp add: example_defs)
  have 2: "op ?s = SEMIHOSTING_SYS_READ \<or> op ?s = SEMIHOSTING_SYS_WRITE"
    by (simp add: example_defs opcode_defs)
  have 3: "semihosting_read_fields ?t ?s 3 = Inr (take 12 ?m)"
    by (simp add: example_defs semihosting_read_fields_def target_read_memory_def)
  have 4: "(1 :: c_int) = ucast (semihosting_get_field ?t ?s 0 (take 12 ?m))"
    by (simp add: example_defs semihosting_get_field_def target_buffer_get_u32_def)
  have 5: "(0x100C :: u64) = semihosting_get_field ?t ?s 1 (take 12 ?m)"
    by (simp add: example_defs semihosting_get_field_def target_buffer_get_u32_def)
  have 6: "(2 :: u64) = semihosting_get_field ?t ?s 2 (take 12 ?m)"
    by (simp add: example_defs semihosting_get_field_def target_buffer_get_u32_def)
  have 7: "\<not> is_fileio ?s \<and> host_malloc_ok example_host 2
            \<and> (op ?s = SEMIHOSTING_SYS_WRITE
                 \<longrightarrow> target_read_buffer ?t 0x100C (unat (2 :: u64)) = Inr [0x68, 0x69])"
    by (simp add: example_defs target_read_buffer_def target_read_memory_def)
  have 10: "semihosting_is_redirected ?s 1"
    by (simp add: example_defs semihosting_is_redirected_def opcode_defs)
  have 11: "tcp_connection ?s = None"
    by (simp add: example_defs)
  have hst: "case semihosting_common example_host ?t of
         Returned retval t' \<Rightarrow>
           retval = ERROR_OK \<and> effects t' = [Post_result]
           \<and> map_option result (semihosting t') = Some (- 1)
           \<and> map_option sys_errno (semihosting t') = Some EBADF
       | Exited c t' \<Rightarrow> False
       | Diverged \<Rightarrow> False"
    using redirect_without_client [OF 1 2 3 4 5 6 10 11, of example_host "[0x68, 0x69]"] 7
    by (simp add: example_defs emit_def ERROR_OK_def)
  have f1: "semihosting ?u = Some ?r"
    by (simp add: example_defs)
  have f2: "op ?r = SEMIHOSTING_SYS_READ \<or> op ?r = SEMIHOSTING_SYS_WRITE"
    by (simp add: example_defs opcode_defs)
  have f3: "semihosting_read_fields ?u ?r 3 = Inr (take 12 ?n)"
    by (simp add: example_defs semihosting_read_fields_def target_read_memory_def)
  have f4: "(0 :: c_int) = ucast (semihosting_get_field ?u ?r 0 (take 12 ?n))"
    by (simp add: example_defs semihosting_get_field_def target_buffer_get_u32_def)
  have f5: "(0x100C :: u64) = semihosting_get_field ?u ?r 1 (take 12 ?n)"
    by (simp add: example_defs semihosting_get_field_def target_buffer_get_u32_def)
  have f6: "(2 :: u64) = semihosting_get_field ?u ?r 2 (take 12 ?n)"
    by (simp add: example_defs semihosting_get_field_def target_buffer_get_u32_def)
  have f7: "semihosting_is_redirected ?r 0"
    by (simp add: example_defs semihosting_is_redirected_def opcode_defs)
  have f8: "tcp_connection ?r = None"
    by (simp add: example_defs)
  have f9: "is_fileio ?r"
    by simp
  have fio: "case semihosting_common example_host ?u of
         Returned retval t' \<Rightarrow>
           retval = ERROR_OK \<and> effects t' = []
           \<and> fio_identifier (fileio_info t') = ''read''
           \<and> param_1 (fileio_info t') = 0 \<and> param_2 (fileio_info t') = 0x100C
           \<and> param_3 (fileio_info t') = 2
           \<and> map_option hit_fileio (semihosting t') = Some True
           \<and> map_option result (semihosting t') = Some (- 1)
           \<and> map_option sys_errno (semihosting t') = Some (- 1)
       | Exited c t' \<Rightarrow> False
       | Diverged \<Rightarrow> False"
    using redirect_without_client [OF f1 f2 f3 f4 f5 f6 f7 f8, of example_host] f9
    by (simp add: example_defs set_fileio_def ERROR_OK_def opcode_defs)
  from 1 10 hst f7 f9 fio show ?thesis by simp
qed

text \<open>
  Claim C10 fails as stated in file-I/O mode: with \<open>redirect_cfg = ALL\<close>, the
  descriptor equal to \<open>stdout_fd\<close> and no client, a \<open>SYS_WRITE\<close> with
  \<open>is_fileio = true\<close> is handed to the frontend as a \<open>write\<close> request; \<open>sys_errno\<close>
  is not set to \<open>EBADF\<close>.
\<close>

theorem redirect_fileio_counterexample:
  "semihosting_is_redirected
      ((example_semihosting 5)
         \<lparr>redirect_cfg := SEMIHOSTING_REDIRECT_CFG_ALL, stdout_fd := 1, is_fileio := True\<rparr>) 1
   \<and> tcp_connection
        ((example_semihosting 5)
           \<lparr>redirect_cfg := SEMIHOSTING_REDIRECT_CFG_ALL, stdout_fd := 1, is_fileio := True\<rparr>) = None
   \<and> (case semihosting_common example_host
              (example_target
                 ((example_semihosting 5)
                    \<lparr>redirect_cfg := SEMIHOSTING_REDIRECT_CFG_ALL, stdout_fd := 1, is_fileio := True\<rparr>)
                 [1, 0, 0, 0, 0x0C, 0x10, 0, 0, 2, 0, 0, 0, 0x68, 0x69]) of
         Returned retval t' \<Rightarrow>
           retval = ERROR_OK \<and> effects t' = []
           \<and> map_option hit_fileio (semihosting t') = Some True
           \<and> map_option sys_errno (semihosting t') = Some (- 1)
           \<and> map_option sys_errno (semihosting t') \<noteq> Some EBADF
           \<and> fio_identifier (fileio_info t') = ''write''
       | Exited c t' \<Rightarrow> False
       | Diverged \<Rightarrow> False)"
  by (simp add: example_defs dispatch_defs sys_write_def semihosting_is_redirected_def EBADF_def)

section \<open>Semihosting: the name of the file that is opened\<close>

lemma c_str_no_nul: "0 \<notin> set (c_str buf)"
  by (induction buf) (auto simp: c_str_def)

lemma c_str_append: "0 \<notin> set xs \<Longrightarrow> c_str (xs @ ys) = xs @ c_str ys"
  by (induction xs) (auto simp: c_str_def)

lemma c_str_terminated: "c_str (xs @ [0]) = c_str xs"
  by (induction xs) (auto simp: c_str_def)

lemma c_str_prefixed:
  "c_str (basedir_prefix bd @ fname @ [0]) =
     (let dir = (case bd of None \<Rightarrow> [] | Some b \<Rightarrow> c_str b)
      in if dir = [] then c_str fname
         else if last dir = of_char CHR ''/'' then dir @ c_str fname
         else dir @ of_char CHR ''/'' # c_str fname)"
proof -
  define dir where "dir = (case bd of None \<Rightarrow> [] | Some b \<Rightarrow> c_str b)"
  have nz: "0 \<notin> set dir"
    by (cases bd) (simp_all add: dir_def c_str_no_nul)
  have t: "c_str (fname @ [0]) = c_str fname"
    by (rule c_str_terminated)
  have "c_str (dir @ fname @ [0]) = dir @ c_str fname"
    using nz by (simp add: c_str_append t)
  moreover have "c_str ((dir @ [of_char CHR ''/'']) @ fname @ [0])
                   = dir @ of_char CHR ''/'' # c_str fname"
    using nz by (subst c_str_append) (simp_all add: t)
  ultimately show ?thesis
    using t by (simp add: basedir_prefix_def Let_def dir_def [symmetric])
qed

lemma tt_ne: "bytes_of '':tt'' \<noteq> bytes_of '':semihosting-features''"
  by (simp add: bytes_of_def)

lemma open_host_file:
  assumes "semihosting_read_fields t s 3 = Inr flds"
    and "\<not> 11 < (ucast (semihosting_get_field t s 1 flds) :: u32)"
    and "host_malloc_ok h
           (of_nat (case basedir s of None \<Rightarrow> 0 | Some b \<Rightarrow> length (c_str b))
            + semihosting_get_field t s 2 flds + 2)"
    and "target_read_memory t (semihosting_get_field t s 0 flds) 1
           (unat (semihosting_get_field t s 2 flds)) = Inr fname"
    and "c_str (basedir_prefix (basedir s) @ fname @ [0]) = path"
    and "\<not> is_fileio s" and "path \<noteq> bytes_of '':tt''"
    and "flags = open_host_modeflags ! unat (ucast (semihosting_get_field t s 1 flds) :: u32)"
  shows "sys_open h t s =
           Break (emit (Host_open path flags) t)
             (if (scast (fst (host_open h path flags)) :: s64) = - 1
              then s\<lparr>result := scast (fst (host_open h path flags)),
                      sys_errno := snd (host_open h path flags)\<rparr>
              else s\<lparr>result := scast (fst (host_open h path flags))\<rparr>)"
  using assms by (simp add: sys_open_def Let_def split: prod.splits)

lemma open_host_tt:
  assumes "semihosting_read_fields t s 3 = Inr flds"
    and "\<not> 11 < (ucast (semihosting_get_field t s 1 flds) :: u32)"
    and "host_malloc_ok h
           (of_nat (case basedir s of None \<Rightarrow> 0 | Some b \<Rightarrow> length (c_str b))
            + semihosting_get_field t s 2 flds + 2)"
    and "target_read_memory t (semihosting_get_field t s 0 flds) 1
           (unat (semihosting_get_field t s 2 flds)) = Inr fname"
    and "c_str (basedir_prefix (basedir s) @ fname @ [0]) = bytes_of '':tt''"
    and "\<not> is_fileio s"
    and "mode = (ucast (semihosting_get_field t s 1 flds) :: u32)"
    and "k = (if mode < 4 then 0 else if mode < 8 then 1 else 2)"
  shows "\<exists>s'. sys_open h t s = Break (emit (Host_dup k) t) s'
           \<and> result s' = scast (fst (host_dup h k)) \<and> hit_fileio s' = hit_fileio s"
  using assms by (simp add: sys_open_def Let_def split: prod.splits)

lemma open_fileio_tt:
  assumes "semihosting_read_fields t s 3 = Inr flds"
    and "\<not> 11 < (ucast (semihosting_get_field t s 1 flds) :: u32)"
    and "host_malloc_ok h
           (of_nat (case basedir s of None \<Rightarrow> 0 | Some b \<Rightarrow> length (c_str b))
            + semihosting_get_field t s 2 flds + 2)"
    and "target_read_memory t (semihosting_get_field t s 0 flds) 1
           (unat (semihosting_get_field t s 2 flds)) = Inr fname"
    and "c_str (basedir_prefix (basedir s) @ fname @ [0]) = bytes_of '':tt''"
    and "is_fileio s"
    and "mode = (ucast (semihosting_get_field t s 1 flds) :: u32)"
  shows "\<exists>s'. sys_open h t s = Break t s'
           \<and> result s' = (if mode = 0 then 0 else if mode = 4 then 1
                           else if mode = 8 then 2 else - 1)
           \<and> hit_fileio s' = hit_fileio s"
  using assms tt_ne by (simp add: sys_open_def Let_def)

lemma open_fileio_features:
  assumes "semihosting_read_fields t s 3 = Inr flds"
    and "\<not> 11 < (ucast (semihosting_get_field t s 1 flds) :: u32)"
    and "host_malloc_ok h
           (of_nat (case basedir s of None \<Rightarrow> 0 | Some b \<Rightarrow> length (c_str b))
            + semihosting_get_field t s 2 flds + 2)"
    and "target_read_memory t (semihosting_get_field t s 0 flds) 1
           (unat (semihosting_get_field t s 2 flds)) = Inr fname"
    and "c_str (basedir_prefix (basedir s) @ fname @ [0]) = bytes_of '':semihosting-features''"
    and "is_fileio s"
  shows "sys_open h t s = Break t (s\<lparr>result := - 1, sys_errno := EINVAL\<rparr>)"
  using assms by (simp add: sys_open_def Let_def)

lemma open_fileio_request:
  assumes "semihosting_read_fields t s 3 = Inr flds"
    and "\<not> 11 < (ucast (semihosting_get_field t s 1 flds) :: u32)"
    and "host_malloc_ok h
           (of_nat (case basedir s of None \<Rightarrow> 0 | Some b \<Rightarrow> length (c_str b))
            + semihosting_get_field t s 2 flds + 2)"
    and "target_read_memory t (semihosting_get_field t s 0 flds) 1
           (unat (semihosting_get_field t s 2 flds)) = Inr fname"
    and "c_str (basedir_prefix (basedir s) @ fname @ [0]) = path"
    and "is_fileio s" and "path \<noteq> bytes_of '':tt''"
    and "path \<noteq> bytes_of '':semihosting-features''"
  shows "sys_open h t s =
           Break (set_fileio t ''open'' (semihosting_get_field t s 0 flds)
                    (semihosting_get_field t s 2 flds)
                    (open_gdb_modeflags ! unat (ucast (semihosting_get_field t s 1 flds) :: u32))
                    0x1A4)
             (s\<lparr>hit_fileio := True\<rparr>)"
  using assms by (simp add: sys_open_def Let_def)

lemma prefixed_not_special:
  assumes "path = (if dir = [] then nm
                   else if last dir = of_char CHR ''/'' then dir @ nm
                   else dir @ of_char CHR ''/'' # nm)"
    and "nm \<noteq> special" and "of_char CHR ''/'' \<notin> set special"
  shows "path \<noteq> special"
proof (cases "dir = []")
  case True
  with assms(1,2) show ?thesis by simp
next
  case False
  then have "last dir \<in> set dir" by simp
  with False assms(1) have "of_char CHR ''/'' \<in> set path"
    by (cases "last dir = of_char CHR ''/''") auto
  with assms(3) show ?thesis by auto
qed

text \<open>
  Claim C3, as amended. For a \<open>SYS_OPEN\<close> with a mode of at most 11 whose buffer was
  allocated and whose name was read from the target, let \<open>dir\<close> be the base directory
  (empty when none is set), and let the path be the name when \<open>dir\<close> is empty, \<open>dir\<close>
  followed by the name when \<open>dir\<close> ends in a slash, and \<open>dir\<close>, a slash and the name
  otherwise: whether the name is absolute plays no part. On the host, the path of a
  name other than \<open>:tt\<close> is what \<open>open\<close> is called with. In file-I/O mode a name other
  than \<open>:tt\<close> and \<open>:semihosting-features\<close> is not prefixed: the frontend gets an \<open>open\<close>
  request with the address and the length of the name as the target gave them, whatever
  the base directory. With an empty \<open>dir\<close> the special names are recognised: on the host
  \<open>:tt\<close> duplicates the standard stream of the mode (0 to 3 the input, 4 to 7 the
  output, 8 to 11 the error stream); in file-I/O mode \<open>:tt\<close> gives 0, 1 or 2 for the
  modes 0, 4 and 8 and \<open>-1\<close> otherwise, and \<open>:semihosting-features\<close> gives \<open>-1\<close> with
  \<open>EINVAL\<close>, neither with a request to the frontend.
\<close>

theorem open_prefixes_basedir:
  assumes sem: "semihosting t = Some s"
    and opn: "op s = SEMIHOSTING_SYS_OPEN"
    and flds: "semihosting_read_fields t s 3 = Inr flds"
    and addr: "addr = semihosting_get_field t s 0 flds"
    and mode: "mode = ucast (semihosting_get_field t s 1 flds)"
    and len: "len = semihosting_get_field t s 2 flds"
    and ok: "mode \<le> (11 :: u32)"
    and dir: "dir = (case basedir s of None \<Rightarrow> [] | Some b \<Rightarrow> c_str b)"
    and mem: "host_malloc_ok h (of_nat (length dir) + len + 2)"
    and fname: "target_read_memory t addr 1 (unat len) = Inr fname"
    and path: "path = (if dir = [] then c_str fname
                       else if last dir = of_char CHR ''/'' then dir @ c_str fname
                       else dir @ of_char CHR ''/'' # c_str fname)"
    and post: "post = (if hit_fileio s then [] else [Post_result])"
  shows
    "(\<not> is_fileio s \<and> c_str fname \<noteq> bytes_of '':tt'' \<longrightarrow>
        (\<exists>retval t' s'. semihosting_common h t = Returned retval t' \<and> semihosting t' = Some s'
           \<and> effects t' = effects t @ Host_open path (open_host_modeflags ! unat mode) # post
           \<and> result s' = scast (fst (host_open h path (open_host_modeflags ! unat mode)))))
   \<and> (is_fileio s \<and> c_str fname \<noteq> bytes_of '':tt''
        \<and> c_str fname \<noteq> bytes_of '':semihosting-features'' \<longrightarrow>
        semihosting_common h t =
          Returned ERROR_OK
            ((set_fileio t ''open'' addr len (open_gdb_modeflags ! unat mode) 0x1A4)
               \<lparr>semihosting :=
                  Some (s\<lparr>result := - 1, is_resumable := True, hit_fileio := True\<rparr>)\<rparr>))
   \<and> (\<not> is_fileio s \<and> dir = [] \<and> c_str fname = bytes_of '':tt'' \<longrightarrow>
        (\<exists>retval t' s'. semihosting_common h t = Returned retval t' \<and> semihosting t' = Some s'
           \<and> effects t' = effects t
                @ Host_dup (if mode < 4 then 0 else if mode < 8 then 1 else 2) # post
           \<and> result s'
               = scast (fst (host_dup h (if mode < 4 then 0 else if mode < 8 then 1 else 2)))))
   \<and> (is_fileio s \<and> dir = [] \<and> c_str fname = bytes_of '':tt'' \<longrightarrow>
        (\<exists>retval t' s'. semihosting_common h t = Returned retval t' \<and> semihosting t' = Some s'
           \<and> effects t' = effects t @ post \<and> fileio_info t' = fileio_info t
           \<and> hit_fileio s' = hit_fileio s
           \<and> result s' = (if mode = 0 then 0 else if mode = 4 then 1
                           else if mode = 8 then 2 else - 1)))
   \<and> (is_fileio s \<and> dir = [] \<and> c_str fname = bytes_of '':semihosting-features'' \<longrightarrow>
        (\<exists>retval t' s'. semihosting_common h t = Returned retval t' \<and> semihosting t' = Some s'
           \<and> effects t' = effects t @ post \<and> fileio_info t' = fileio_info t
           \<and> hit_fileio s' = hit_fileio s
           \<and> result s' = - 1 \<and> sys_errno s' = EINVAL))"
proof -
  let ?s0 = "s\<lparr>result := - 1, is_resumable := True\<rparr>"
  have common: "semihosting_common h t = semihosting_finish h (sys_open h t ?s0)"
    using sem opn by (simp add: semihosting_common_def switch_open)
  have fn: "c_str (basedir_prefix (basedir ?s0) @ fname @ [0]) = path"
    by (simp add: c_str_prefixed path dir Let_def)
  have pt: "dir = [] \<Longrightarrow> path = c_str fname"
    by (simp add: path)
  have ntt: "c_str fname \<noteq> bytes_of '':tt'' \<Longrightarrow> path \<noteq> bytes_of '':tt''"
    by (rule prefixed_not_special [OF path]) (simp_all add: bytes_of_def)
  have nft: "c_str fname \<noteq> bytes_of '':semihosting-features''
               \<Longrightarrow> path \<noteq> bytes_of '':semihosting-features''"
    by (rule prefixed_not_special [OF path]) (simp_all add: bytes_of_def)
  have 1: "semihosting_read_fields t ?s0 3 = Inr flds"
    using flds by simp
  have 2: "\<not> 11 < (ucast (semihosting_get_field t ?s0 1 flds) :: u32)"
    using ok by (simp add: mode)
  have 3: "host_malloc_ok h
           (of_nat (case basedir ?s0 of None \<Rightarrow> 0 | Some b \<Rightarrow> length (c_str b))
            + semihosting_get_field t ?s0 2 flds + 2)"
    using mem by (simp add: dir len split: option.splits)
  have 4: "target_read_memory t (semihosting_get_field t ?s0 0 flds) 1
           (unat (semihosting_get_field t ?s0 2 flds)) = Inr fname"
    using fname by (simp add: addr len)
  have 5: "mode = (ucast (semihosting_get_field t ?s0 1 flds) :: u32)"
    by (simp add: mode)
  have a: "\<not> is_fileio s \<and> c_str fname \<noteq> bytes_of '':tt'' \<longrightarrow>
        (\<exists>retval t' s'. semihosting_common h t = Returned retval t' \<and> semihosting t' = Some s'
           \<and> effects t' = effects t @ Host_open path (open_host_modeflags ! unat mode) # post
           \<and> result s' = scast (fst (host_open h path (open_host_modeflags ! unat mode))))"
  proof (intro impI, elim conjE)
    assume n: "\<not> is_fileio s" and p0: "c_str fname \<noteq> bytes_of '':tt''"
    from n have n0: "\<not> is_fileio ?s0" by simp
    note p = ntt [OF p0]
    have fl: "open_host_modeflags ! unat mode
               = open_host_modeflags ! unat (ucast (semihosting_get_field t ?s0 1 flds) :: u32)"
      by (simp add: mode)
    show "\<exists>retval t' s'. semihosting_common h t = Returned retval t' \<and> semihosting t' = Some s'
           \<and> effects t' = effects t @ Host_open path (open_host_modeflags ! unat mode) # post
           \<and> result s' = scast (fst (host_open h path (open_host_modeflags ! unat mode)))"
      unfolding common open_host_file [OF 1 2 3 4 fn n0 p fl]
      by (simp add: semihosting_finish_def emit_def post)
  qed
  have r: "is_fileio s \<and> c_str fname \<noteq> bytes_of '':tt''
        \<and> c_str fname \<noteq> bytes_of '':semihosting-features'' \<longrightarrow>
        semihosting_common h t =
          Returned ERROR_OK
            ((set_fileio t ''open'' addr len (open_gdb_modeflags ! unat mode) 0x1A4)
               \<lparr>semihosting :=
                  Some (s\<lparr>result := - 1, is_resumable := True, hit_fileio := True\<rparr>)\<rparr>)"
  proof (intro impI, elim conjE)
    assume n: "is_fileio s" and p0: "c_str fname \<noteq> bytes_of '':tt''"
      and q0: "c_str fname \<noteq> bytes_of '':semihosting-features''"
    from n have n0: "is_fileio ?s0" by simp
    show "semihosting_common h t =
          Returned ERROR_OK
            ((set_fileio t ''open'' addr len (open_gdb_modeflags ! unat mode) 0x1A4)
               \<lparr>semihosting :=
                  Some (s\<lparr>result := - 1, is_resumable := True, hit_fileio := True\<rparr>)\<rparr>)"
      unfolding common open_fileio_request [OF 1 2 3 4 fn n0 ntt [OF p0] nft [OF q0]]
      by (simp add: semihosting_finish_def addr len mode)
  qed
  have b: "\<not> is_fileio s \<and> dir = [] \<and> c_str fname = bytes_of '':tt'' \<longrightarrow>
        (\<exists>retval t' s'. semihosting_common h t = Returned retval t' \<and> semihosting t' = Some s'
           \<and> effects t' = effects t
                @ Host_dup (if mode < 4 then 0 else if mode < 8 then 1 else 2) # post
           \<and> result s'
               = scast (fst (host_dup h (if mode < 4 then 0 else if mode < 8 then 1 else 2))))"
  proof (intro impI, elim conjE)
    assume n: "\<not> is_fileio s" and d: "dir = []" and c: "c_str fname = bytes_of '':tt''"
    from n have n0: "\<not> is_fileio ?s0" by simp
    have fn': "c_str (basedir_prefix (basedir ?s0) @ fname @ [0]) = bytes_of '':tt''"
      using fn pt [OF d] c by simp
    obtain s' where sw: "sys_open h t ?s0
          = Break (emit (Host_dup (if mode < 4 then 0 else if mode < 8 then 1 else 2)) t) s'"
      and r: "result s'
          = scast (fst (host_dup h (if mode < 4 then 0 else if mode < 8 then 1 else 2)))"
      and hf: "hit_fileio s' = hit_fileio ?s0"
      using open_host_tt [OF 1 2 3 4 fn' n0 5 refl] by blast
    show "\<exists>retval t' s'. semihosting_common h t = Returned retval t' \<and> semihosting t' = Some s'
           \<and> effects t' = effects t
                @ Host_dup (if mode < 4 then 0 else if mode < 8 then 1 else 2) # post
           \<and> result s'
               = scast (fst (host_dup h (if mode < 4 then 0 else if mode < 8 then 1 else 2)))"
      unfolding common sw using r hf
      by (simp add: semihosting_finish_def emit_def post)
  qed
  have c: "is_fileio s \<and> dir = [] \<and> c_str fname = bytes_of '':tt'' \<longrightarrow>
        (\<exists>retval t' s'. semihosting_common h t = Returned retval t' \<and> semihosting t' = Some s'
           \<and> effects t' = effects t @ post \<and> fileio_info t' = fileio_info t
           \<and> hit_fileio s' = hit_fileio s
           \<and> result s' = (if mode = 0 then 0 else if mode = 4 then 1
                           else if mode = 8 then 2 else - 1))"
  proof (intro impI, elim conjE)
    assume n: "is_fileio s" and d: "dir = []" and c: "c_str fname = bytes_of '':tt''"
    from n have n0: "is_fileio ?s0" by simp
    have fn': "c_str (basedir_prefix (basedir ?s0) @ fname @ [0]) = bytes_of '':tt''"
      using fn pt [OF d] c by simp
    obtain s' where sw: "sys_open h t ?s0 = Break t s'"
      and r: "result s' = (if mode = 0 then 0 else if mode = 4 then 1
                           else if mode = 8 then 2 else - 1)"
      and hf: "hit_fileio s' = hit_fileio ?s0"
      using open_fileio_tt [OF 1 2 3 4 fn' n0 5] by blast
    show "\<exists>retval t' s'. semihosting_common h t = Returned retval t' \<and> semihosting t' = Some s'
           \<and> effects t' = effects t @ post \<and> fileio_info t' = fileio_info t
           \<and> hit_fileio s' = hit_fileio s
           \<and> result s' = (if mode = 0 then 0 else if mode = 4 then 1
                           else if mode = 8 then 2 else - 1)"
      unfolding common sw using r hf
      by (simp add: semihosting_finish_def emit_def post)
  qed
  have d: "is_fileio s \<and> dir = [] \<and> c_str fname = bytes_of '':semihosting-features'' \<longrightarrow>
        (\<exists>retval t' s'. semihosting_common h t = Returned retval t' \<and> semihosting t' = Some s'
           \<and> effects t' = effects t @ post \<and> fileio_info t' = fileio_info t
           \<and> hit_fileio s' = hit_fileio s
           \<and> result s' = - 1 \<and> sys_errno s' = EINVAL)"
  proof (intro impI, elim conjE)
    assume n: "is_fileio s" and d: "dir = []"
      and c: "c_str fname = bytes_of '':semihosting-features''"
    from n have n0: "is_fileio ?s0" by simp
    have fn': "c_str (basedir_prefix (basedir ?s0) @ fname @ [0])
                 = bytes_of '':semihosting-features''"
      using fn pt [OF d] c by simp
    show "\<exists>retval t' s'. semihosting_common h t = Returned retval t' \<and> semihosting t' = Some s'
           \<and> effects t' = effects t @ post \<and> fileio_info t' = fileio_info t
           \<and> hit_fileio s' = hit_fileio s
           \<and> result s' = - 1 \<and> sys_errno s' = EINVAL"
      unfolding common open_fileio_features [OF 1 2 3 4 fn' n0]
      by (simp add: semihosting_finish_def emit_def post)
  qed
  from a r b c d show ?thesis by (intro conjI)
qed

theorem open_prefixes_basedir_witness:
  "semihosting (example_target ((example_semihosting 1)\<lparr>basedir := Some (bytes_of ''/tmp'')\<rparr>)
        [0x0C, 0x10, 0, 0, 0, 0, 0, 0, 5, 0, 0, 0, 0x61, 0x2E, 0x74, 0x78, 0x74])
     = Some ((example_semihosting 1)\<lparr>basedir := Some (bytes_of ''/tmp'')\<rparr>)
   \<and> op ((example_semihosting 1)\<lparr>basedir := Some (bytes_of ''/tmp'')\<rparr>) = SEMIHOSTING_SYS_OPEN
   \<and> target_read_memory
        (example_target ((example_semihosting 1)\<lparr>basedir := Some (bytes_of ''/tmp'')\<rparr>)
           [0x0C, 0x10, 0, 0, 0, 0, 0, 0, 5, 0, 0, 0, 0x61, 0x2E, 0x74, 0x78, 0x74])
        0x100C 1 5 = Inr (bytes_of ''a.txt'')
   \<and> \<not> is_fileio ((example_semihosting 1)\<lparr>basedir := Some (bytes_of ''/tmp'')\<rparr>)
   \<and> c_str (bytes_of ''a.txt'') \<noteq> bytes_of '':tt''
   \<and> c_str (bytes_of ''a.txt'') \<noteq> bytes_of '':semihosting-features''
   \<and> (case semihosting_common example_host
              (example_target ((example_semihosting 1)\<lparr>basedir := Some (bytes_of ''/tmp'')\<rparr>)
                 [0x0C, 0x10, 0, 0, 0, 0, 0, 0, 5, 0, 0, 0, 0x61, 0x2E, 0x74, 0x78, 0x74]) of
         Returned retval t' \<Rightarrow>
           effects t' = [Host_open (bytes_of ''/tmp/a.txt'') O_RDONLY, Post_result]
           \<and> map_option result (semihosting t') = Some 3
       | Exited c t' \<Rightarrow> False
       | Diverged \<Rightarrow> False)
   \<and> (case semihosting_common example_host
              (example_target
                 ((example_semihosting 1)\<lparr>basedir := Some (bytes_of ''/tmp''), is_fileio := True\<rparr>)
                 [0x0C, 0x10, 0, 0, 0, 0, 0, 0, 5, 0, 0, 0, 0x61, 0x2E, 0x74, 0x78, 0x74]) of
         Returned retval t' \<Rightarrow>
           retval = ERROR_OK \<and> effects t' = []
           \<and> fio_identifier (fileio_info t') = ''open''
           \<and> param_1 (fileio_info t') = 0x100C \<and> param_2 (fileio_info t') = 5
           \<and> map_option hit_fileio (semihosting t') = Some True
       | Exited c t' \<Rightarrow> False
       | Diverged \<Rightarrow> False)"
proof -
  let ?s = "(example_semihosting 1)\<lparr>basedir := Some (bytes_of ''/tmp'')\<rparr>"
  let ?r = "(example_semihosting 1)\<lparr>basedir := Some (bytes_of ''/tmp''), is_fileio := True\<rparr>"
  let ?m = "[0x0C, 0x10, 0, 0, 0, 0, 0, 0, 5, 0, 0, 0, 0x61, 0x2E, 0x74, 0x78, 0x74] :: u8 list"
  let ?t = "example_target ?s ?m"
  let ?u = "example_target ?r ?m"
  have 1: "semihosting ?t = Some ?s"
    by (simp add: example_defs)
  have 2: "op ?s = SEMIHOSTING_SYS_OPEN"
    by (simp add: example_defs opcode_defs)
  have 3: "semihosting_read_fields ?t ?s 3 = Inr (take 12 ?m)"
    by (simp add: example_defs semihosting_read_fields_def target_read_memory_def)
  have 4: "(0x100C :: u64) = semihosting_get_field ?t ?s 0 (take 12 ?m)"
    by (simp add: example_defs semihosting_get_field_def target_buffer_get_u32_def)
  have 5: "(0 :: u32) = ucast (semihosting_get_field ?t ?s 1 (take 12 ?m))"
    by (simp add: example_defs semihosting_get_field_def target_buffer_get_u32_def)
  have 6: "(5 :: u64) = semihosting_get_field ?t ?s 2 (take 12 ?m)"
    by (simp add: example_defs semihosting_get_field_def target_buffer_get_u32_def)
  have 7: "(0 :: u32) \<le> 11"
    by simp
  have 8: "bytes_of ''/tmp'' = (case basedir ?s of None \<Rightarrow> [] | Some b \<Rightarrow> c_str b)"
    by (simp add: example_defs bytes_of_def c_str_def)
  have 9: "host_malloc_ok example_host (of_nat (length (bytes_of ''/tmp'')) + 5 + 2)"
    by (simp add: example_defs)
  have 10: "target_read_memory ?t 0x100C 1 (unat (5 :: u64)) = Inr (bytes_of ''a.txt'')"
    by (simp add: example_defs target_read_memory_def bytes_of_def)
  have 11: "bytes_of ''/tmp/a.txt''
              = (if bytes_of ''/tmp'' = [] then c_str (bytes_of ''a.txt'')
                 else if last (bytes_of ''/tmp'') = of_char CHR ''/''
                 then bytes_of ''/tmp'' @ c_str (bytes_of ''a.txt'')
                 else bytes_of ''/tmp'' @ of_char CHR ''/'' # c_str (bytes_of ''a.txt''))"
    by (simp add: bytes_of_def c_str_def)
  have 12: "\<not> is_fileio ?s \<and> c_str (bytes_of ''a.txt'') \<noteq> bytes_of '':tt''"
    by (simp add: example_defs bytes_of_def c_str_def)
  have 13: "c_str (bytes_of ''a.txt'') \<noteq> bytes_of '':semihosting-features''"
    by (simp add: bytes_of_def c_str_def)
  have "\<exists>retval t' s'. semihosting_common example_host ?t = Returned retval t'
           \<and> semihosting t' = Some s'
           \<and> effects t' = effects ?t
                @ Host_open (bytes_of ''/tmp/a.txt'') (open_host_modeflags ! unat (0 :: u32))
                  # (if hit_fileio ?s then [] else [Post_result])
           \<and> result s'
               = scast (fst (host_open example_host (bytes_of ''/tmp/a.txt'')
                               (open_host_modeflags ! unat (0 :: u32))))"
    using open_prefixes_basedir [OF 1 2 3 4 5 6 7 8 9 10 11 refl] 12 by blast
  then obtain retval t' s' where
    r: "semihosting_common example_host ?t = Returned retval t'" "semihosting t' = Some s'"
      "effects t' = effects ?t
         @ Host_open (bytes_of ''/tmp/a.txt'') (open_host_modeflags ! unat (0 :: u32))
           # (if hit_fileio ?s then [] else [Post_result])"
      "result s'
         = scast (fst (host_open example_host (bytes_of ''/tmp/a.txt'')
                         (open_host_modeflags ! unat (0 :: u32))))"
    by blast
  have "effects t' = [Host_open (bytes_of ''/tmp/a.txt'') O_RDONLY, Post_result]"
    using r(3) by (simp add: open_host_modeflags_def example_defs)
  moreover have "map_option result (semihosting t') = Some 3"
    using r(2,4) by (simp add: example_host_def)
  ultimately have hst: "case semihosting_common example_host ?t of
         Returned retval t' \<Rightarrow>
           effects t' = [Host_open (bytes_of ''/tmp/a.txt'') O_RDONLY, Post_result]
           \<and> map_option result (semihosting t') = Some 3
       | Exited c t' \<Rightarrow> False
       | Diverged \<Rightarrow> False"
    using r(1) by simp
  have f1: "semihosting ?u = Some ?r"
    by (simp add: example_defs)
  have f2: "op ?r = SEMIHOSTING_SYS_OPEN"
    by (simp add: example_defs opcode_defs)
  have f3: "semihosting_read_fields ?u ?r 3 = Inr (take 12 ?m)"
    by (simp add: example_defs semihosting_read_fields_def target_read_memory_def)
  have f4: "(0x100C :: u64) = semihosting_get_field ?u ?r 0 (take 12 ?m)"
    by (simp add: example_defs semihosting_get_field_def target_buffer_get_u32_def)
  have f5: "(0 :: u32) = ucast (semihosting_get_field ?u ?r 1 (take 12 ?m))"
    by (simp add: example_defs semihosting_get_field_def target_buffer_get_u32_def)
  have f6: "(5 :: u64) = semihosting_get_field ?u ?r 2 (take 12 ?m)"
    by (simp add: example_defs semihosting_get_field_def target_buffer_get_u32_def)
  have f8: "bytes_of ''/tmp'' = (case basedir ?r of None \<Rightarrow> [] | Some b \<Rightarrow> c_str b)"
    by (simp add: example_defs bytes_of_def c_str_def)
  have f10: "target_read_memory ?u 0x100C 1 (unat (5 :: u64)) = Inr (bytes_of ''a.txt'')"
    by (simp add: example_defs target_read_memory_def bytes_of_def)
  have f12: "is_fileio ?r \<and> c_str (bytes_of ''a.txt'') \<noteq> bytes_of '':tt''
               \<and> c_str (bytes_of ''a.txt'') \<noteq> bytes_of '':semihosting-features''"
    using 12 13 by simp
  have "semihosting_common example_host ?u =
          Returned ERROR_OK
            ((set_fileio ?u ''open'' 0x100C 5 (open_gdb_modeflags ! unat (0 :: u32)) 0x1A4)
               \<lparr>semihosting :=
                  Some (?r\<lparr>result := - 1, is_resumable := True, hit_fileio := True\<rparr>)\<rparr>)"
    using open_prefixes_basedir [OF f1 f2 f3 f4 f5 f6 7 f8 9 f10 11 refl] f12 by blast
  then have fio: "case semihosting_common example_host ?u of
         Returned retval t' \<Rightarrow>
           retval = ERROR_OK \<and> effects t' = []
           \<and> fio_identifier (fileio_info t') = ''open''
           \<and> param_1 (fileio_info t') = 0x100C \<and> param_2 (fileio_info t') = 5
           \<and> map_option hit_fileio (semihosting t') = Some True
       | Exited c t' \<Rightarrow> False
       | Diverged \<Rightarrow> False"
    by (simp add: set_fileio_def example_defs)
  from 1 2 10 12 13 hst fio show ?thesis by simp
qed

text \<open>
  Claim C3 fails as stated: with the base directory \<open>/tmp\<close>, the absolute name \<open>/a\<close> is
  opened on the host as \<open>/tmp//a\<close>.
\<close>

theorem open_prefix_counterexample:
  "(case semihosting_common example_host
           (example_target ((example_semihosting 1)\<lparr>basedir := Some (bytes_of ''/tmp'')\<rparr>)
              [0x0C, 0x10, 0, 0, 0, 0, 0, 0, 2, 0, 0, 0, 0x2F, 0x61]) of
      Returned retval t' \<Rightarrow>
        effects t' = [Host_open (bytes_of ''/tmp//a'') O_RDONLY, Post_result]
        \<and> map_option result (semihosting t') = Some 3
    | Exited c t' \<Rightarrow> False
    | Diverged \<Rightarrow> False)"
  by (simp add: example_defs dispatch_defs sys_open_def basedir_prefix_def c_str_def bytes_of_def
      open_host_modeflags_def O_RDONLY_def)


section \<open>TPIU/SWO: the ways through the enable command\<close>

lemma hook_loop_effects:
  "snd (arm_tpiu_swo_handle_event_loop env ev eas) = []
   \<or> (\<exists>b. snd (arm_tpiu_swo_handle_event_loop env ev eas) = [Run_hook ev b])"
  by (induction eas) (auto simp: Let_def)

lemma hook_effects:
  "arm_tpiu_swo_handle_event env obj ev = (r, es) \<Longrightarrow> es = [] \<or> (\<exists>b. es = [Run_hook ev b])"
  using hook_loop_effects [of env ev "event_action obj"]
  by (simp add: arm_tpiu_swo_handle_event_def)



lemmas held_defs = files_held_def services_held_def timers_held_def

lemma close_output_eq:
  "arm_tpiu_swo_close_output obj =
     (obj\<lparr>out_file := None\<rparr>,
      (case out_file obj of None \<Rightarrow> [] | Some f \<Rightarrow> [Fclose f])
      @ (case out_filename obj of [] \<Rightarrow> []
         | c # port \<Rightarrow> if c = CHR '':'' then [Remove_service port] else []))"
  by (simp add: arm_tpiu_swo_close_output_def)

lemma error_exit_result:
  assumes "enable_error_exit env r obj es = Inr (r', obj', es')"
  shows "r' = r \<and> enabled obj' = enabled obj \<and> ap obj' = ap obj
    \<and> (Trace_config_event \<in> set es' \<longleftrightarrow> Trace_config_event \<in> set es)
    \<and> (\<forall>n x. Dap_get_ap n x \<in> set es' \<longleftrightarrow> Dap_get_ap n x \<in> set es)
    \<and> ((\<exists>e\<in>set es'. is_put_ap e) \<longleftrightarrow> (\<exists>e\<in>set es. is_put_ap e))
    \<and> \<not> en_capture obj'
    \<and> out_file obj' = (if en_capture obj then None else out_file obj)
    \<and> files_held es' = files_held es - (if en_capture obj \<and> out_file obj \<noteq> None then 1 else 0)
    \<and> services_held es' = services_held es
         - (if en_capture obj \<and> (case out_filename obj of [] \<Rightarrow> False | c # port \<Rightarrow> c = CHR '':'')
            then 1 else 0)
    \<and> timers_held es' = timers_held es - (if en_capture obj then 1 else 0)
    \<and> ((\<exists>e\<in>set es'. is_trace_off e) \<longleftrightarrow> (\<exists>e\<in>set es. is_trace_off e) \<or> en_capture obj)
    \<and> (Register_timer \<in> set es' \<longleftrightarrow> Register_timer \<in> set es)
    \<and> (Config_trace_on ERROR_OK \<in> set es' \<longleftrightarrow> Config_trace_on ERROR_OK \<in> set es)"
  using assms
  by (auto simp: enable_error_exit_def close_output_eq held_defs
           split: if_splits option.splits list.splits)

lemma sum_list_zero: "\<forall>e\<in>set xs. f e = (0::int) \<Longrightarrow> sum_list (map f xs) = 0"
  by (induction xs) simp_all

lemma program_fail:
  assumes "enable_program env p obj es = Inr (r, obj', es')" and "r \<noteq> ERROR_OK"
  shows "enabled obj' = enabled obj \<and> ap obj' = ap obj
    \<and> (Trace_config_event \<in> set es' \<longleftrightarrow> Trace_config_event \<in> set es)
    \<and> (\<forall>n x. Dap_get_ap n x \<in> set es' \<longleftrightarrow> Dap_get_ap n x \<in> set es)
    \<and> ((\<exists>e\<in>set es'. is_put_ap e) \<longleftrightarrow> (\<exists>e\<in>set es. is_put_ap e))
    \<and> \<not> en_capture obj'
    \<and> out_file obj' = (if en_capture obj then None else out_file obj)
    \<and> files_held es' = files_held es - (if en_capture obj \<and> out_file obj \<noteq> None then 1 else 0)
    \<and> services_held es' = services_held es
         - (if en_capture obj \<and> (case out_filename obj of [] \<Rightarrow> False | c # port \<Rightarrow> c = CHR '':'')
            then 1 else 0)
    \<and> timers_held es' = timers_held es - (if en_capture obj then 1 else 0)
    \<and> ((\<exists>e\<in>set es'. is_trace_off e) \<longleftrightarrow> (\<exists>e\<in>set es. is_trace_off e) \<or> en_capture obj)
    \<and> (Register_timer \<in> set es' \<longleftrightarrow> Register_timer \<in> set es)
    \<and> (Config_trace_on ERROR_OK \<in> set es' \<longleftrightarrow> Config_trace_on ERROR_OK \<in> set es)"
proof -
  have "\<exists>r0 mid. enable_error_exit env r0 obj (es @ mid) = Inr (r, obj', es')
          \<and> (\<forall>e\<in>set mid. file_delta e = 0 \<and> service_delta e = 0 \<and> timer_delta e = 0
                \<and> \<not> is_trace_off e \<and> \<not> is_put_ap e \<and> e \<noteq> Register_timer
                \<and> e \<noteq> Trace_config_event \<and> e \<noteq> Config_trace_on ERROR_OK
                \<and> (\<forall>n x. e \<noteq> Dap_get_ap n x))"
    using assms unfolding enable_program_def Let_def
    by (fastforce split: if_splits prod.splits dest!: hook_effects)
  then obtain r0 mid where m: "enable_error_exit env r0 obj (es @ mid) = Inr (r, obj', es')"
    and n: "\<forall>e\<in>set mid. file_delta e = 0 \<and> service_delta e = 0 \<and> timer_delta e = 0
                \<and> \<not> is_trace_off e \<and> \<not> is_put_ap e \<and> e \<noteq> Register_timer
                \<and> e \<noteq> Trace_config_event \<and> e \<noteq> Config_trace_on ERROR_OK
                \<and> (\<forall>n x. e \<noteq> Dap_get_ap n x)"
    by blast
  from n have z: "files_held (es @ mid) = files_held es"
    "services_held (es @ mid) = services_held es" "timers_held (es @ mid) = timers_held es"
    by (simp_all add: held_defs sum_list_zero)
  from n have s: "(\<exists>e\<in>set (es @ mid). is_trace_off e) \<longleftrightarrow> (\<exists>e\<in>set es. is_trace_off e)"
    "(\<exists>e\<in>set (es @ mid). is_put_ap e) \<longleftrightarrow> (\<exists>e\<in>set es. is_put_ap e)"
    "Register_timer \<in> set (es @ mid) \<longleftrightarrow> Register_timer \<in> set es"
    "Trace_config_event \<in> set (es @ mid) \<longleftrightarrow> Trace_config_event \<in> set es"
    "Config_trace_on ERROR_OK \<in> set (es @ mid) \<longleftrightarrow> Config_trace_on ERROR_OK \<in> set es"
    "\<And>n x. Dap_get_ap n x \<in> set (es @ mid) \<longleftrightarrow> Dap_get_ap n x \<in> set es"
    by auto
  show ?thesis using error_exit_result [OF m] unfolding z s by simp
qed


lemma adapter_fail:
  assumes "enable_adapter env obj es = Inr (r, obj', es')" and "r \<noteq> ERROR_OK"
  shows "enabled obj' = enabled obj \<and> ap obj' = ap obj
    \<and> (Trace_config_event \<in> set es' \<longleftrightarrow> Trace_config_event \<in> set es)
    \<and> (\<forall>n x. Dap_get_ap n x \<in> set es' \<longleftrightarrow> Dap_get_ap n x \<in> set es)
    \<and> ((\<exists>e\<in>set es'. is_put_ap e) \<longleftrightarrow> (\<exists>e\<in>set es. is_put_ap e))
    \<and> (\<not> en_capture obj \<longrightarrow>
        \<not> en_capture obj' \<and> out_file obj' = None
      \<and> files_held es' = files_held es - (if out_file obj \<noteq> None then 1 else 0)
      \<and> services_held es' = services_held es
         - (if (case out_filename obj of [] \<Rightarrow> False | c # port \<Rightarrow> c = CHR '':'') then 1 else 0)
      \<and> timers_held es' = timers_held es
      \<and> ((\<exists>e\<in>set es'. is_trace_off e)
           \<longrightarrow> (\<exists>e\<in>set es. is_trace_off e) \<or> Config_trace_on ERROR_OK \<in> set es')
      \<and> (Register_timer \<in> set es'
           \<longrightarrow> Register_timer \<in> set es \<or> (\<exists>e\<in>set es'. is_trace_off e)))"
proof -
  obtain rv pf ps where cfg: "adapter_config_trace_on env (pin_protocol obj) (port_width obj)
      (swo_pin_freq obj) (traceclkin_freq obj) = (rv, pf, ps)"
    by (cases "adapter_config_trace_on env (pin_protocol obj) (port_width obj)
      (swo_pin_freq obj) (traceclkin_freq obj)") auto
  let ?async = "pin_protocol obj = TPIU_SPPR_PROTOCOL_MANCHESTER
                   \<or> pin_protocol obj = TPIU_SPPR_PROTOCOL_UART"
  show ?thesis
  proof (cases "rv \<noteq> ERROR_OK \<or> (?async \<and> pf = 0)")
    case True
    then have "obj' = obj\<lparr>out_file := None\<rparr> \<and>
       es' = es @ [Config_trace_on rv]
          @ (case out_file obj of None \<Rightarrow> [] | Some f \<Rightarrow> [Fclose f])
          @ (case out_filename obj of [] \<Rightarrow> []
              | c # port \<Rightarrow> if c = CHR '':'' then [Remove_service port] else [])"
      using assms(1) cfg unfolding enable_adapter_def Let_def close_output_eq
      by (auto split: if_splits)
    then show ?thesis
      by (auto simp: held_defs split: option.splits list.splits)
  next
    case False
    then have "enable_program env ps (obj\<lparr>swo_pin_freq := pf, en_capture := True\<rparr>)
                 (es @ [Config_trace_on ERROR_OK, Register_timer]) = Inr (r, obj', es')"
      using assms(1) cfg unfolding enable_adapter_def Let_def
      by (auto split: if_splits)
    from program_fail [OF this assms(2)] show ?thesis
      by (auto simp: held_defs)
  qed
qed


lemma capture_cases:
  assumes "enable_capture env ext obj es = Inr (r, obj', es')"
  shows "(r \<noteq> ERROR_OK \<and> obj' = obj
          \<and> (es' = es \<or> (\<exists>p rv. rv \<noteq> ERROR_OK \<and> es' = es @ [Add_service p rv])
               \<or> (\<exists>n. es' = es @ [Fopen n None])))
    \<or> ((case out_filename obj of [] \<Rightarrow> False | c # port \<Rightarrow> c = CHR '':'')
         \<and> enable_adapter env obj (es @ [Add_service (tl (out_filename obj)) ERROR_OK])
             = Inr (r, obj', es'))
    \<or> (\<not> (case out_filename obj of [] \<Rightarrow> False | c # port \<Rightarrow> c = CHR '':'')
         \<and> (\<exists>f. enable_adapter env (obj\<lparr>out_file := Some f\<rparr>)
                   (es @ [Fopen (out_filename obj) (Some f)]) = Inr (r, obj', es')))
    \<or> (\<not> (case out_filename obj of [] \<Rightarrow> False | c # port \<Rightarrow> c = CHR '':'')
         \<and> enable_adapter env obj es = Inr (r, obj', es'))
    \<or> (\<exists>p o1. enable_program env p o1 es = Inr (r, obj', es')
          \<and> (o1 = obj \<or> (\<exists>f. o1 = obj\<lparr>swo_pin_freq := f\<rparr>)))"
proof (cases ext)
  case True
  then have "\<exists>p o1. enable_program env p o1 es = Inr (r, obj', es')
          \<and> (o1 = obj \<or> (\<exists>f. o1 = obj\<lparr>swo_pin_freq := f\<rparr>))"
    using assms unfolding enable_capture_def Let_def
    by (auto split: if_splits)
  then show ?thesis by blast
next
  case False
  then show ?thesis
    using assms unfolding enable_capture_def Let_def
    by (auto split: if_splits simp: ERROR_FAIL_def ERROR_OK_def)
qed


lemma capture_fail:
  assumes "enable_capture env ext obj es = Inr (r, obj', es')" and "r \<noteq> ERROR_OK"
  shows "enabled obj' = enabled obj \<and> ap obj' = ap obj
    \<and> (Trace_config_event \<in> set es' \<longleftrightarrow> Trace_config_event \<in> set es)
    \<and> (\<forall>n x. Dap_get_ap n x \<in> set es' \<longleftrightarrow> Dap_get_ap n x \<in> set es)
    \<and> ((\<exists>e\<in>set es'. is_put_ap e) \<longleftrightarrow> (\<exists>e\<in>set es. is_put_ap e))
    \<and> (\<not> en_capture obj \<and> out_file obj = None \<longrightarrow>
        \<not> en_capture obj' \<and> out_file obj' = None
      \<and> files_held es' = files_held es
      \<and> services_held es' = services_held es
      \<and> timers_held es' = timers_held es
      \<and> ((\<exists>e\<in>set es'. is_trace_off e)
           \<longrightarrow> (\<exists>e\<in>set es. is_trace_off e) \<or> Config_trace_on ERROR_OK \<in> set es')
      \<and> (Register_timer \<in> set es'
           \<longrightarrow> Register_timer \<in> set es \<or> (\<exists>e\<in>set es'. is_trace_off e)))"
proof -
  let ?is_port = "case out_filename obj of [] \<Rightarrow> False | c # port \<Rightarrow> c = CHR '':''"
  consider
      (early) "obj' = obj"
        "es' = es \<or> (\<exists>p rv. rv \<noteq> ERROR_OK \<and> es' = es @ [Add_service p rv])
               \<or> (\<exists>n. es' = es @ [Fopen n None])"
    | (to_port) "?is_port"
        "enable_adapter env obj (es @ [Add_service (tl (out_filename obj)) ERROR_OK])
             = Inr (r, obj', es')"
    | (to_file) f where "\<not> ?is_port"
        "enable_adapter env (obj\<lparr>out_file := Some f\<rparr>)
                   (es @ [Fopen (out_filename obj) (Some f)]) = Inr (r, obj', es')"
    | (to_stdout) "\<not> ?is_port" "enable_adapter env obj es = Inr (r, obj', es')"
    | (external) p o1 where "enable_program env p o1 es = Inr (r, obj', es')"
        "o1 = obj \<or> (\<exists>f. o1 = obj\<lparr>swo_pin_freq := f\<rparr>)"
    using capture_cases [OF assms(1)] by blast
  then show ?thesis
  proof cases
    case early
    then show ?thesis by (auto simp: held_defs)
  next
    case to_port
    from adapter_fail [OF to_port(2) assms(2)] to_port(1) show ?thesis
      by (auto simp: held_defs)
  next
    case to_file
    from adapter_fail [OF to_file(2) assms(2)] to_file(1) show ?thesis
      by (auto simp: held_defs)
  next
    case to_stdout
    from adapter_fail [OF to_stdout(2) assms(2)] to_stdout(1) show ?thesis
      by (auto simp: held_defs)
  next
    case external
    from external(2) have "enabled o1 = enabled obj" "ap o1 = ap obj"
      "en_capture o1 = en_capture obj" "out_file o1 = out_file obj"
      by auto
    with program_fail [OF external(1) assms(2)] show ?thesis
      by simp
  qed
qed



lemma probe_cases:
  assumes "enable_probe env ext obj es = Inr (r, obj', es')"
  shows "\<exists>pre. (\<forall>e\<in>set pre. (\<exists>b. e = Run_hook TPIU_SWO_EVENT_PRE_ENABLE b) \<or> (\<exists>a. e = Read_u32 a))
         \<and> ((r \<noteq> ERROR_OK \<and> obj' = obj \<and> es' = es @ pre)
             \<or> enable_capture env ext obj (es @ pre) = Inr (r, obj', es'))"
proof -
  obtain rv es3 where h: "arm_tpiu_swo_handle_event env obj TPIU_SWO_EVENT_PRE_ENABLE = (rv, es3)"
    by (cases "arm_tpiu_swo_handle_event env obj TPIU_SWO_EVENT_PRE_ENABLE") auto
  note n3 = hook_effects [OF h]
  let ?d = "Read_u32 (spot_base obj + TPIU_DEVID_OFFSET)"
  let ?s = "Read_u32 (spot_base obj + TPIU_SSPSR_OFFSET)"
  have c: "(r \<noteq> ERROR_OK \<and> obj' = obj
            \<and> (es' = es @ es3 \<or> es' = es @ es3 @ [?d] \<or> es' = es @ es3 @ [?d, ?s]))
          \<or> enable_capture env ext obj (es @ es3 @ [?d]) = Inr (r, obj', es')
          \<or> enable_capture env ext obj (es @ es3 @ [?d, ?s]) = Inr (r, obj', es')"
    using assms h unfolding enable_probe_def Let_def
    by (auto split: if_splits simp: ERROR_FAIL_def ERROR_OK_def)
  let ?N = "\<lambda>pre. \<forall>e\<in>set pre.
      (\<exists>b. e = Run_hook TPIU_SWO_EVENT_PRE_ENABLE b) \<or> (\<exists>a. e = Read_u32 a)"
  from n3 have "?N es3" "?N (es3 @ [?d])" "?N (es3 @ [?d, ?s])"
    by auto
  with c show ?thesis by blast
qed

lemma enable_cases [consumes 1, case_names ok early no_ap probe]:
  assumes "handle_arm_tpiu_swo_enable env obj = Inr (r, obj', es)"
  obtains "r = ERROR_OK" and "cmd_mode_config env \<or> enabled obj" and "es = []"
    | "r \<noteq> ERROR_OK" and "obj' = obj" and "es = []"
    | o2 e2 where "enabled o2 = enabled obj" and "en_capture o2 = en_capture obj"
        and "out_file o2 = out_file obj" and "event_action o2 = event_action obj"
        and "ap obj \<noteq> None \<longrightarrow> ap o2 = ap obj"
        and "e2 = [] \<or> (\<exists>n. e2 = [Dap_get_ap n (ap o2)])"
        and "r \<noteq> ERROR_OK" and "obj' = o2" and "es = e2"
    | o2 e2 ext where "enabled o2 = enabled obj" and "en_capture o2 = en_capture obj"
        and "out_file o2 = out_file obj" and "event_action o2 = event_action obj"
        and "ap obj \<noteq> None \<longrightarrow> ap o2 = ap obj"
        and "e2 = [] \<or> (\<exists>n. e2 = [Dap_get_ap n (ap o2)])"
        and "enable_probe env ext o2 e2 = Inr (r, obj', es)"
proof -
  define o1 where "o1 = (if recheck_ap_cur_target obj
                  then obj\<lparr>recheck_ap_cur_target := False, spot_ap_num := debug_ap_num env\<rparr>
                  else obj)"
  define o2 where "o2 = (if ap o1 = None then o1\<lparr>ap := dap_get_ap env (spot_ap_num o1)\<rparr> else o1)"
  define e2 where "e2 = (if ap o1 = None
                 then [Dap_get_ap (spot_ap_num o1) (dap_get_ap env (spot_ap_num o1))]
                 else [])"
  have p: "enabled o2 = enabled obj" "en_capture o2 = en_capture obj"
    "out_file o2 = out_file obj" "event_action o2 = event_action obj"
    "ap obj \<noteq> None \<longrightarrow> ap o2 = ap obj"
    "e2 = [] \<or> (\<exists>n. e2 = [Dap_get_ap n (ap o2)])"
    by (auto simp: o1_def o2_def e2_def)
  have "(r = ERROR_OK \<and> (cmd_mode_config env \<or> enabled obj) \<and> es = [])
    \<or> (r \<noteq> ERROR_OK \<and> obj' = obj \<and> es = [])
    \<or> (r \<noteq> ERROR_OK \<and> obj' = o2 \<and> es = e2)
    \<or> enable_probe env (out_filename obj = ''external'') o2 e2 = Inr (r, obj', es)"
    using assms unfolding handle_arm_tpiu_swo_enable_def Let_def
    apply (fold o1_def)
    apply (fold o2_def e2_def)
    by (auto split: if_splits simp: ERROR_FAIL_def ERROR_OK_def ERROR_COMMAND_SYNTAX_ERROR_def)
  then consider
      (a) "r = ERROR_OK" "cmd_mode_config env \<or> enabled obj" "es = []"
    | (b) "r \<noteq> ERROR_OK" "obj' = obj" "es = []"
    | (c) "r \<noteq> ERROR_OK" "obj' = o2" "es = e2"
    | (d) "enable_probe env (out_filename obj = ''external'') o2 e2 = Inr (r, obj', es)"
    by blast
  then show thesis
  proof cases
    case a
    then show thesis by (rule that(1))
  next
    case b
    then show thesis by (rule that(2))
  next
    case c
    with p show thesis by (rule that(3))
  next
    case d
    with p show thesis by (rule that(4))
  qed
qed


lemma enable_fail:
  assumes "handle_arm_tpiu_swo_enable env obj = Inr (r, obj', es)" and "r \<noteq> ERROR_OK"
  shows "enabled obj' = enabled obj \<and> Trace_config_event \<notin> set es
    \<and> (\<forall>e\<in>set es. \<not> is_put_ap e)
    \<and> (ap obj \<noteq> None \<longrightarrow> ap obj' = ap obj)
    \<and> (\<forall>n a. Dap_get_ap n (Some a) \<in> set es \<longrightarrow> ap obj' = Some a)
    \<and> (\<not> en_capture obj \<and> out_file obj = None \<longrightarrow>
        \<not> en_capture obj' \<and> out_file obj' = None
      \<and> files_held es = 0 \<and> services_held es = 0 \<and> timers_held es = 0
      \<and> ((\<exists>e\<in>set es. is_trace_off e) \<longrightarrow> Config_trace_on ERROR_OK \<in> set es)
      \<and> (Register_timer \<in> set es \<longrightarrow> (\<exists>e\<in>set es. is_trace_off e)))"
proof -
  let ?P = "\<lambda>o2 e2. enabled o2 = enabled obj \<and> en_capture o2 = en_capture obj
         \<and> out_file o2 = out_file obj \<and> event_action o2 = event_action obj
         \<and> (ap obj \<noteq> None \<longrightarrow> ap o2 = ap obj)
         \<and> (e2 = [] \<or> (\<exists>n. e2 = [Dap_get_ap n (ap o2)]))"
  let ?N = "\<lambda>pre. \<forall>e\<in>set pre.
      (\<exists>b. e = Run_hook TPIU_SWO_EVENT_PRE_ENABLE b) \<or> (\<exists>a. e = Read_u32 a)"
  have quiet: "files_held (e2 @ pre) = 0 \<and> services_held (e2 @ pre) = 0
      \<and> timers_held (e2 @ pre) = 0 \<and> Trace_config_event \<notin> set (e2 @ pre)
      \<and> Register_timer \<notin> set (e2 @ pre)
      \<and> (\<forall>e\<in>set (e2 @ pre). \<not> is_put_ap e \<and> \<not> is_trace_off e)
      \<and> (\<forall>n x. Dap_get_ap n x \<in> set (e2 @ pre) \<longrightarrow> x = ap o2)"
    if "?P o2 e2" and "?N pre" for o2 e2 pre
  proof -
    from that(2) have "\<forall>e\<in>set pre. file_delta e = 0 \<and> service_delta e = 0 \<and> timer_delta e = 0"
      by auto
    then have "sum_list (map file_delta pre) = 0" "sum_list (map service_delta pre) = 0"
      "sum_list (map timer_delta pre) = 0"
      by (simp_all add: sum_list_zero)
    moreover from that(2) have "Trace_config_event \<notin> set pre \<and> Register_timer \<notin> set pre
      \<and> (\<forall>e\<in>set pre. \<not> is_put_ap e \<and> \<not> is_trace_off e)
      \<and> (\<forall>n x. Dap_get_ap n x \<notin> set pre)"
      by auto
    ultimately show ?thesis using that(1) by (auto simp: held_defs)
  qed
  from assms(1) show ?thesis
  proof (cases rule: enable_cases)
    case ok
    with assms(2) show ?thesis by simp
  next
    case early
    then show ?thesis by (simp add: held_defs)
  next
    case (no_ap o2 e2)
    then have "?P o2 e2" by simp
    from quiet [OF this, of "[]"] no_ap show ?thesis by simp
  next
    case (probe o2 e2 ext)
    then have pp: "?P o2 e2" by simp
    from probe_cases [OF probe(7)] obtain pre where n: "?N pre"
      and c: "(r \<noteq> ERROR_OK \<and> obj' = o2 \<and> es = e2 @ pre)
             \<or> enable_capture env ext o2 (e2 @ pre) = Inr (r, obj', es)"
      by blast
    note q = quiet [OF pp n]
    from c show ?thesis
    proof
      assume "r \<noteq> ERROR_OK \<and> obj' = o2 \<and> es = e2 @ pre"
      with q probe show ?thesis by simp
    next
      assume "enable_capture env ext o2 (e2 @ pre) = Inr (r, obj', es)"
      from capture_fail [OF this assms(2)] q probe(1-5) show ?thesis
        by simp
    qed
  qed
qed



section \<open>TPIU/SWO: the prescaler of the external capture\<close>

text \<open>
  Claim C7 at its own instance and at two failing inputs, with the output \<open>external\<close>
  and the UART protocol. For \<open>traceclkin_freq = 168000000\<close> and
  \<open>swo_pin_freq = 2000000\<close> the prescaler is 84, the rate 2000000 and \<open>ACPR\<close> is written
  with 83, as the claim says. For \<open>swo_pin_freq = 2500\<close> the rounded quotient is 67200:
  the 16-bit variable keeps \<open>67200 mod 65536 = 1664\<close>, which the comparison with
  \<open>0x1FFF\<close> lets pass, so the prescaler is 1664 and not \<open>0x1FFF\<close>, the rate is
  \<open>168000000 div 1664 = 100961\<close> and \<open>ACPR\<close> is written with 1663. For
  \<open>traceclkin_freq = 1000000\<close> and \<open>swo_pin_freq = 3000000\<close> the rounded quotient is 0
  and the rate is a division by zero.
\<close>

theorem prescaler_truncated_before_clamp:
  "external_prescaler 168000000 2000000 = 84
   \<and> (case handle_arm_tpiu_swo_enable example_env
             (example_object\<lparr>pin_protocol := TPIU_SPPR_PROTOCOL_UART,
                traceclkin_freq := 168000000, swo_pin_freq := 2000000\<rparr>) of
         Inr (retval, obj, es) \<Rightarrow>
           retval = ERROR_OK \<and> enabled obj \<and> swo_pin_freq obj = 2000000
           \<and> Write_u32 (TPIU_SWO_DEFAULT_BASE + TPIU_ACPR_OFFSET) 83 \<in> set es
       | Inl f \<Rightarrow> False)
   \<and> external_prescaler 168000000 2500 = 1664
   \<and> (case handle_arm_tpiu_swo_enable example_env
             (example_object\<lparr>pin_protocol := TPIU_SPPR_PROTOCOL_UART,
                traceclkin_freq := 168000000, swo_pin_freq := 2500\<rparr>) of
         Inr (retval, obj, es) \<Rightarrow>
           retval = ERROR_OK \<and> enabled obj \<and> swo_pin_freq obj = 100961
           \<and> Write_u32 (TPIU_SWO_DEFAULT_BASE + TPIU_ACPR_OFFSET) 1663 \<in> set es
       | Inl f \<Rightarrow> False)
   \<and> handle_arm_tpiu_swo_enable example_env
         (example_object\<lparr>pin_protocol := TPIU_SPPR_PROTOCOL_UART,
            traceclkin_freq := 1000000, swo_pin_freq := 3000000\<rparr>)
       = Inl Division_by_zero"
  by (simp add: enable_defs tpiu_defs example_env_def example_object_def Let_def)

section \<open>TPIU/SWO: an enable that fails\<close>

text \<open>
  Claim C4, as amended. Take an object that is not enabled and holds nothing of a
  capture (\<open>en_capture\<close> clear, no open file). When \<open>handle_arm_tpiu_swo_enable\<close> returns
  a failure, the object is still not enabled, \<open>en_capture\<close> is clear and no file is
  open; every file the command opened it has closed, every service it added it has
  removed, every timer callback it registered it has unregistered;
  \<open>adapter_config_trace(false, ...)\<close> has been called only if
  \<open>adapter_config_trace(true, ...)\<close> returned success, and it has been called whenever
  the timer callback was registered. The access port is another matter: the command
  never calls \<open>dap_put_ap\<close>, and the handle it had or acquired stays in the object.
\<close>

theorem enable_failure_releases:
  assumes "handle_arm_tpiu_swo_enable env obj = Inr (retval, obj', es)"
    and "retval \<noteq> ERROR_OK"
    and "\<not> enabled obj" and "\<not> en_capture obj" and "out_file obj = None"
  shows "\<not> enabled obj' \<and> \<not> en_capture obj' \<and> out_file obj' = None
    \<and> files_held es = 0 \<and> services_held es = 0 \<and> timers_held es = 0
    \<and> ((\<exists>e\<in>set es. is_trace_off e) \<longrightarrow> Config_trace_on ERROR_OK \<in> set es)
    \<and> (Register_timer \<in> set es \<longrightarrow> (\<exists>e\<in>set es. is_trace_off e))
    \<and> (\<forall>e\<in>set es. \<not> is_put_ap e)
    \<and> (ap obj \<noteq> None \<longrightarrow> ap obj' = ap obj)
    \<and> (\<forall>n a. Dap_get_ap n (Some a) \<in> set es \<longrightarrow> ap obj' = Some a)"
  using enable_fail [OF assms(1,2)] assms(3-5) by simp

theorem enable_failure_releases_witness:
  "handle_arm_tpiu_swo_enable (example_env\<lparr>mem_ap_write_atomic_u32 := (\<lambda>a v. ERROR_FAIL)\<rparr>)
       (example_object\<lparr>traceclkin_freq := 168000000, out_filename := ''trace.bin''\<rparr>)
     = Inr (ERROR_FAIL,
            example_object\<lparr>traceclkin_freq := 168000000, out_filename := ''trace.bin'',
              ap := Some 1\<rparr>,
            [Dap_get_ap 0 (Some 1), Read_u32 0xE0040FC8, Read_u32 0xE0040000,
             Fopen ''trace.bin'' (Some 7), Config_trace_on 0, Register_timer,
             Write_u32 0xE0040004 1, Fclose 7, Unregister_timer, Config_trace_off 0])
   \<and> ERROR_FAIL \<noteq> ERROR_OK
   \<and> \<not> enabled (example_object\<lparr>traceclkin_freq := 168000000, out_filename := ''trace.bin''\<rparr>)
   \<and> files_held
        [Dap_get_ap 0 (Some 1), Read_u32 0xE0040FC8, Read_u32 0xE0040000,
         Fopen ''trace.bin'' (Some 7), Config_trace_on 0, Register_timer,
         Write_u32 0xE0040004 1, Fclose 7, Unregister_timer, Config_trace_off 0] = 0
   \<and> timers_held
        [Dap_get_ap 0 (Some 1), Read_u32 0xE0040FC8, Read_u32 0xE0040000,
         Fopen ''trace.bin'' (Some 7), Config_trace_on 0, Register_timer,
         Write_u32 0xE0040004 1, Fclose 7, Unregister_timer, Config_trace_off 0] = 0"
proof -
  let ?env = "example_env\<lparr>mem_ap_write_atomic_u32 := (\<lambda>a v. ERROR_FAIL)\<rparr>"
  let ?obj = "example_object\<lparr>traceclkin_freq := 168000000, out_filename := ''trace.bin''\<rparr>"
  let ?es = "[Dap_get_ap 0 (Some 1), Read_u32 0xE0040FC8, Read_u32 0xE0040000,
             Fopen ''trace.bin'' (Some 7), Config_trace_on 0, Register_timer,
             Write_u32 0xE0040004 1, Fclose 7, Unregister_timer, Config_trace_off 0]"
  have 1: "handle_arm_tpiu_swo_enable ?env ?obj = Inr (ERROR_FAIL, ?obj\<lparr>ap := Some 1\<rparr>, ?es)"
    by (simp add: enable_defs tpiu_defs example_env_def example_object_def Let_def)
  have 2: "ERROR_FAIL \<noteq> ERROR_OK"
    by (simp add: ERROR_FAIL_def ERROR_OK_def)
  have 3: "\<not> enabled ?obj" "\<not> en_capture ?obj" "out_file ?obj = None"
    by (simp_all add: example_object_def)
  from enable_failure_releases [OF 1 2 3] have "files_held ?es = 0 \<and> timers_held ?es = 0"
    by blast
  with 1 2 3 show ?thesis by simp
qed

text \<open>
  Claim C4 fails as stated for the access port: an enable whose pre-enable hook fails
  returns \<open>ERROR_FAIL\<close> after \<open>dap_get_ap\<close> and without \<open>dap_put_ap\<close>; the object, which
  had no handle, holds the handle 1 afterwards.
\<close>

theorem enable_keeps_access_port_counterexample:
  "handle_arm_tpiu_swo_enable example_env
       (example_object\<lparr>traceclkin_freq := 168000000,
          event_action := [\<lparr>event = TPIU_SWO_EVENT_PRE_ENABLE, body = ''fail''\<rparr>]\<rparr>)
     = Inr (ERROR_FAIL,
            example_object\<lparr>traceclkin_freq := 168000000,
              event_action := [\<lparr>event = TPIU_SWO_EVENT_PRE_ENABLE, body = ''fail''\<rparr>],
              ap := Some 1\<rparr>,
            [Dap_get_ap 0 (Some 1), Run_hook TPIU_SWO_EVENT_PRE_ENABLE ''fail''])
   \<and> ap example_object = None"
  by (simp add: enable_defs tpiu_defs example_env_def example_object_def Let_def)

section \<open>TPIU/SWO: hooks that fail\<close>




section \<open>TPIU/SWO: the cleanup, once and twice\<close>






end
